theory Spec2Isabelle
  imports Main
begin

section \<open>Go values shared by all packages\<close>

text \<open>
  A Go \<open>error\<close> value.  \<open>New msg\<close> is what \<open>fmt.Errorf\<close> builds from a format
  without \<open>%w\<close>; \<open>Wrap msg cause\<close> is what it builds from a format with \<open>%w\<close>:
  \<open>msg\<close> is the whole formatted text and \<open>cause\<close> the error that \<open>Unwrap\<close> returns.
  \<open>NotFound msg\<close> is the API server's status error with reason NotFound.
\<close>

datatype error = New string | Wrap string error | NotFound string

fun Error :: "error \<Rightarrow> string" where
  "Error (New m) = m"
| "Error (Wrap m c) = m"
| "Error (NotFound m) = m"

section \<open>Package qbittorrent: utils.go\<close>

text \<open>
  \<open>strings.Index(s, substr)\<close>: the index of the first instance of \<open>substr\<close> in \<open>s\<close>,
  or \<open>-1\<close> when there is none.  Go strings are byte sequences, as \<open>string\<close> is here.
\<close>

fun Index :: "string \<Rightarrow> string \<Rightarrow> int" where
  "Index [] substr = (if substr = [] then 0 else - 1)"
| "Index (c # s) substr =
     (if take (length substr) (c # s) = substr then 0
      else (let r = Index s substr in if r = - 1 then - 1 else r + 1))"

text \<open>The slice expression \<open>s[lo:hi]\<close>; Go panics unless \<open>0 \<le> lo \<le> hi \<le> len(s)\<close>.\<close>

definition slice :: "string \<Rightarrow> int \<Rightarrow> int \<Rightarrow> string option" where
  "slice s lo hi =
     (if 0 \<le> lo \<and> lo \<le> hi \<and> hi \<le> int (length s)
      then Some (take (nat (hi - lo)) (drop (nat lo) s)) else None)"

text \<open>
  \<open>GetTorrentHash\<close>.  The result is \<open>None\<close> where the Go function would panic on a
  slice out of range, \<open>Some (Inl e)\<close> where it returns the error \<open>e\<close> and
  \<open>Some (Inr h)\<close> where it returns the hash \<open>h\<close> with a nil error.
\<close>

definition GetTorrentHash :: "string \<Rightarrow> (error + string) option" where
  "GetTorrentHash magnetURI =
     (let btihIndex = Index magnetURI ''btih:'' in
      if btihIndex = - 1 then Some (Inl (New (CHR 0x27 # ''btih:'' @ CHR 0x27 # '' not found'')))
      else
        let hashStart = btihIndex + 5 in
        if hashStart \<ge> int (length magnetURI) then Some (Inl (New (''no hash after '' @ CHR 0x27 # ''btih:'' @ [CHR 0x27])))
        else
          (case slice magnetURI hashStart (int (length magnetURI)) of
             None \<Rightarrow> None
           | Some tail \<Rightarrow>
               let hashEnd = Index tail ''&'' in
               if hashEnd = - 1 then Some (Inr tail)
               else map_option Inr (slice magnetURI hashStart (hashStart + hashEnd))))"

text \<open>\<open>occurs_at s substr i\<close>: \<open>substr\<close> is found in \<open>s\<close> starting at byte \<open>i\<close>.\<close>

definition occurs_at :: "string \<Rightarrow> string \<Rightarrow> nat \<Rightarrow> bool" where
  "occurs_at s substr i \<longleftrightarrow> i + length substr \<le> length s \<and> take (length substr) (drop i s) = substr"

section \<open>Time\<close>

text \<open>
  \<open>time.Time\<close> is an instant in nanoseconds, counted from the zero \<open>Time\<close>, so that
  \<open>IsZero\<close> holds of \<open>0\<close> only; \<open>time.Duration\<close> is a count of nanoseconds.
  \<open>t.Sub(u)\<close> is the difference \<open>t - u\<close>, replaced by the largest (smallest)
  \<open>Duration\<close> when it is out of the range of a signed 64-bit integer.
\<close>

type_synonym Time = int
type_synonym Duration = int

definition Second :: Duration where
  "Second = 1000000000"

definition maxDuration :: Duration where
  "maxDuration = 2 ^ 63 - 1"

definition minDuration :: Duration where
  "minDuration = - (2 ^ 63)"

definition Sub :: "Time \<Rightarrow> Time \<Rightarrow> Duration" where
  "Sub t u =
     (let d = t - u in
      if d > maxDuration then maxDuration else if d < minDuration then minDuration else d)"

definition IsZero :: "Time \<Rightarrow> bool" where
  "IsZero t \<longleftrightarrow> t = 0"

section \<open>Status conditions (k8s.io/apimachinery: metav1.Condition, package meta)\<close>

datatype ConditionStatus = ConditionTrue | ConditionFalse | ConditionUnknown

record Condition =
  Type :: string
  Status :: ConditionStatus
  ObservedGeneration :: int
  LastTransitionTime :: Time
  Reason :: string
  Message :: string

text \<open>
  \<open>meta.FindStatusCondition\<close>: the first condition of the given type.  The Go
  function returns a pointer into the slice; \<open>SetStatusCondition\<close> below writes through
  that pointer, which is the in-place update of the first match here.
\<close>

fun FindStatusCondition :: "Condition list \<Rightarrow> string \<Rightarrow> Condition option" where
  "FindStatusCondition [] conditionType = None"
| "FindStatusCondition (c # cs) conditionType =
     (if Type c = conditionType then Some c else FindStatusCondition cs conditionType)"

text \<open>
  What \<open>meta.SetStatusCondition\<close> does to the existing condition of the new
  condition's type: the status and the transition time change only when the status
  differs; reason, message and observed generation are copied.
\<close>

definition updateExisting :: "Time \<Rightarrow> Condition \<Rightarrow> Condition \<Rightarrow> Condition" where
  "updateExisting now existingCondition newCondition =
     (let e1 =
        (if Condition.Status existingCondition \<noteq> Condition.Status newCondition
         then existingCondition
                \<lparr>Condition.Status := Condition.Status newCondition,
                 LastTransitionTime :=
                   (if \<not> IsZero (LastTransitionTime newCondition)
                    then LastTransitionTime newCondition else now)\<rparr>
         else existingCondition)
      in e1\<lparr>Reason := Reason newCondition,
             Message := Message newCondition,
             ObservedGeneration := ObservedGeneration newCondition\<rparr>)"

text \<open>
  \<open>meta.SetStatusCondition\<close>: a condition of a type not yet in the list is appended
  (with the current time when its transition time is zero); otherwise the first
  condition of that type is updated in place.
\<close>

fun SetStatusCondition :: "Time \<Rightarrow> Condition list \<Rightarrow> Condition \<Rightarrow> Condition list" where
  "SetStatusCondition now [] newCondition =
     [if IsZero (LastTransitionTime newCondition)
      then newCondition\<lparr>LastTransitionTime := now\<rparr> else newCondition]"
| "SetStatusCondition now (c # cs) newCondition =
     (if Type c = Type newCondition then updateExisting now c newCondition # cs
      else c # SetStatusCondition now cs newCondition)"

text \<open>\<open>meta.RemoveStatusCondition\<close>: every condition of the given type is dropped.\<close>

definition RemoveStatusCondition :: "Condition list \<Rightarrow> string \<Rightarrow> Condition list" where
  "RemoveStatusCondition conditions conditionType =
     filter (\<lambda>condition. Type condition \<noteq> conditionType) conditions"

section \<open>Package v1alpha1: the API types\<close>

text \<open>
  \<open>metav1.ObjectMeta\<close>, as far as the controllers read and write it.  A nil
  \<open>DeletionTimestamp\<close> is \<open>None\<close>.
\<close>

record ObjectMeta =
  Name :: string
  Namespace :: string
  DeletionTimestamp :: "Time option"
  Finalizers :: "string list"

text \<open>\<open>DeletionTimestamp.IsZero()\<close> on the pointer: nil, or the zero time.\<close>

definition DeletionTimestamp_IsZero :: "Time option \<Rightarrow> bool" where
  "DeletionTimestamp_IsZero ts = (case ts of None \<Rightarrow> True | Some t \<Rightarrow> IsZero t)"

text \<open>
  \<open>TorrentSpec\<close>.  \<open>ClientConfigRef\<close> is a pointer to a \<open>LocalObjectReference\<close>,
  a struct of one field \<open>Name\<close>: \<open>None\<close> is nil and \<open>Some n\<close> the reference named \<open>n\<close>.
\<close>

record TorrentSpec =
  MagnetURI :: string
  ClientConfigRef :: "string option"
  DeleteFilesOnRemoval :: "bool option"

record TorrentStatus =
  ContentPath :: string
  AddedOn :: int
  State :: string
  TotalSize :: int
  Name :: string
  TimeActive :: int
  AmountLeft :: int
  Hash :: string
  ClientConfigurationName :: string
  Conditions :: "Condition list"

record Torrent = ObjectMeta +
  Spec :: TorrentSpec
  Status :: TorrentStatus

text \<open>
  \<open>TorrentClientConfigurationSpec\<close>; \<open>CredentialsSecret\<close> is a \<open>SecretReference\<close>,
  a struct of one field \<open>Name\<close>.
\<close>

record TorrentClientConfigurationSpec =
  URL :: string
  CredentialsSecret :: string
  CheckInterval :: string

record TorrentClientConfigurationStatus =
  Connected :: bool
  LastChecked :: "Time option"
  QBittorrentVersion :: string
  Conditions :: "Condition list"

record TorrentClientConfiguration = ObjectMeta +
  Spec :: TorrentClientConfigurationSpec
  Status :: TorrentClientConfigurationStatus

text \<open>
  \<open>TorrentServerStatus\<close>, and a \<open>TorrentServer\<close> as far as its condition setters
  touch it (they read and write \<open>ts.Status.Conditions\<close> only; the spec is left out).
\<close>

record TorrentServerStatus =
  DeploymentName :: string
  ServiceName :: string
  ConfigPVCName :: string
  ClientConfigurationName :: string
  ReadyReplicas :: int
  URL :: string
  Conditions :: "Condition list"

record TorrentServer = ObjectMeta +
  Status :: TorrentServerStatus

text \<open>\<open>corev1.Secret\<close>: its \<open>Data\<close> maps a key to a byte string.\<close>

record Secret = ObjectMeta +
  Data :: "string \<rightharpoonup> string"

section \<open>Package qbittorrent: the client pool (pool.go)\<close>

text \<open>
  Modelled from the spec: client.go (the \<open>Client\<close> type, \<open>NewClient\<close> and the remote
  calls of the \<open>QBTClient\<close> interface) is not among the sources.  A \<open>*Client\<close> is a
  session handle: \<open>ptr\<close> is its address, fresh at every \<open>NewClient\<close>, and \<open>baseURL\<close>
  the endpoint it was constructed for.  What the remote engine answers to a call on
  a handle is given by the \<open>world\<close> below.
\<close>

record Client =
  ptr :: nat
  baseURL :: string

definition NewClient :: "nat \<Rightarrow> string \<Rightarrow> Client" where
  "NewClient addr url = \<lparr>ptr = addr, baseURL = url\<rparr>"

text \<open>
  Modelled from the spec: \<open>TorrentInfo\<close> is declared in client.go; these are the
  fields \<open>updateTorrentStatus\<close> compares with the stored status.
\<close>

record TorrentInfo =
  Hash :: string
  Name :: string
  State :: string
  TotalSize :: int
  ContentPath :: string
  AddedOn :: int
  TimeActive :: int
  AmountLeft :: int

text \<open>
  Everything a call reads from outside the process, fixed during one call:
  the SHA-256 function (\<open>crypto/sha256\<close>), \<open>time.ParseDuration\<close>, the answers of the
  remote engine to each call of the \<open>QBTClient\<close> interface, and \<open>api_fault\<close>: the
  failure, if any, of the API-server request issued at a given source line of the
  controller file (a request with no fault is served from the cluster state).
\<close>

record world =
  sha256 :: "string \<Rightarrow> string"
  ParseDuration :: "string \<Rightarrow> error + Duration"
  Login :: "Client \<Rightarrow> string \<Rightarrow> string \<Rightarrow> error option"
  GetTorrentInfo :: "Client \<Rightarrow> string \<Rightarrow> error + TorrentInfo option"
  AddTorrent :: "Client \<Rightarrow> string \<Rightarrow> error option"
  DeleteTorrent :: "Client \<Rightarrow> string \<Rightarrow> bool \<Rightarrow> error option"
  Ping :: "Client \<Rightarrow> error option"
  api_fault :: "nat \<Rightarrow> error option"

record poolEntry =
  client :: Client
  credHash :: string
  lastUsed :: Time

record ClientPool =
  clients :: "string \<rightharpoonup> poolEntry"
  ttl :: Duration

text \<open>
  The process state around the pool: the pool itself, the timers armed by
  \<open>time.AfterFunc\<close> and not yet fired (the key and the instant each is due), the next
  free address for a \<open>Client\<close>, and the \<open>Login\<close> calls made so far, in order.
\<close>

record runtime =
  pool :: ClientPool
  timers :: "(string \<times> Time) list"
  next_ptr :: nat
  logins :: "(Client \<times> string \<times> string) list"

definition NewClientPool :: "Duration \<Rightarrow> ClientPool" where
  "NewClientPool d = \<lparr>clients = Map.empty, ttl = d\<rparr>"

text \<open>\<open>fmt.Sprintf("%x", h)\<close> of a byte array: two lower-case hexadecimal digits a byte.\<close>

definition hexdigit :: "nat \<Rightarrow> char" where
  "hexdigit n = ''0123456789abcdef'' ! (n mod 16)"

definition hex :: "string \<Rightarrow> string" where
  "hex bs = concat (map (\<lambda>b. [hexdigit (of_char b div 16), hexdigit (of_char b mod 16)]) bs)"

definition hashCredentials :: "(string \<Rightarrow> string) \<Rightarrow> string \<Rightarrow> string \<Rightarrow> string \<Rightarrow> string" where
  "hashCredentials sum256 url username password =
     hex (sum256 (url @ ''|'' @ username @ ''|'' @ password))"

text \<open>\<open>go scheduleRemove(p, credHash)\<close> arms a timer due after the pool's TTL.\<close>

definition scheduleRemove :: "Time \<Rightarrow> string \<Rightarrow> runtime \<Rightarrow> runtime" where
  "scheduleRemove now key rt = rt\<lparr>timers := timers rt @ [(key, now + ttl (pool rt))]\<rparr>"

definition Remove :: "ClientPool \<Rightarrow> string \<Rightarrow> ClientPool" where
  "Remove p key = p\<lparr>clients := (clients p)(key := None)\<rparr>"

text \<open>The function a timer runs when it fires at the instant \<open>now\<close>.\<close>

definition timerFired :: "Time \<Rightarrow> ClientPool \<Rightarrow> string \<Rightarrow> ClientPool" where
  "timerFired now p key =
     (case clients p key of
        None \<Rightarrow> p
      | Some entry \<Rightarrow> if Sub now (lastUsed entry) > ttl p then Remove p key else p)"

text \<open>
  \<open>GetOrCreate\<close> at the instant \<open>now\<close>.  The entry of the map is a pointer, so the
  write to \<open>entry.lastUsed\<close> on a hit is a write to the map's entry.
\<close>

definition GetOrCreate ::
  "world \<Rightarrow> Time \<Rightarrow> runtime \<Rightarrow> string \<Rightarrow> string \<Rightarrow> string \<Rightarrow> (error + Client) \<times> runtime" where
  "GetOrCreate w now rt url username password =
     (let key = hashCredentials (sha256 w) url username password;
          hit = (case clients (pool rt) key of
                   None \<Rightarrow> None
                 | Some entry \<Rightarrow> if credHash entry = key then Some entry else None)
      in case hit of
           Some entry \<Rightarrow>
             (Inr (client entry),
              scheduleRemove now key
                (rt\<lparr>pool := (pool rt)\<lparr>clients := (clients (pool rt))(key \<mapsto> entry\<lparr>lastUsed := now\<rparr>)\<rparr>\<rparr>))
         | None \<Rightarrow>
             (let c = NewClient (next_ptr rt) url;
                  rt1 = rt\<lparr>next_ptr := Suc (next_ptr rt),
                           logins := logins rt @ [(c, username, password)]\<rparr>
              in case Login w c username password of
                   Some err \<Rightarrow>
                     (Inl (Wrap (''failed to login for credentials['' @ username @ '', '' @ password
                                 @ ''] url['' @ url @ '']: '' @ Error err) err),
                      rt1)
                 | None \<Rightarrow>
                     (Inr c,
                      scheduleRemove now key
                        (rt1\<lparr>pool := (pool rt1)\<lparr>clients := (clients (pool rt1))
                            (key \<mapsto> \<lparr>client = c, credHash = key, lastUsed = now\<rparr>)\<rparr>\<rparr>))))"

text \<open>
  \<open>Cleanup\<close> at the instant \<open>now\<close>.  \<open>keys\<close> is the order in which
  \<open>range p.clients\<close> yields the keys of the map, which Go leaves unspecified; the
  loop deletes the key it is visiting when the test holds.
\<close>

fun Cleanup :: "Time \<Rightarrow> string list \<Rightarrow> ClientPool \<Rightarrow> ClientPool" where
  "Cleanup now [] p = p"
| "Cleanup now (key # keys) p =
     Cleanup now keys
       (case clients p key of
          None \<Rightarrow> p
        | Some entry \<Rightarrow>
            if Sub now (lastUsed entry) > ttl p then p\<lparr>clients := (clients p)(key := None)\<rparr>
            else p)"

section \<open>The API server as the controllers use it\<close>

text \<open>
  The objects of the cluster.  \<open>r.Get\<close>, \<open>r.List\<close>, \<open>r.Update\<close> and
  \<open>r.Status().Update\<close> are requests to the API server; each is identified by the
  source line of the call, and fails with \<open>api_fault w line\<close> when that is an error.
\<close>

record cluster =
  torrents :: "Torrent list"
  tccs :: "TorrentClientConfiguration list"
  secrets :: "Secret list"

text \<open>
  \<open>%q\<close> of a string: the string in double quotes, a double quote or backslash in it
  escaped by a backslash (object names hold neither, nor the control or non-ASCII
  bytes that \<open>%q\<close> would also escape).
\<close>

definition Quote :: "string \<Rightarrow> string" where
  "Quote s =
     CHR 0x22 # concat (map (\<lambda>c. if c = CHR 0x22 \<or> c = CHR 0x5C then [CHR 0x5C, c] else [c]) s)
       @ [CHR 0x22]"

fun IsNotFound :: "error \<Rightarrow> bool" where
  "IsNotFound (NotFound m) = True"
| "IsNotFound (Wrap m c) = IsNotFound c"
| "IsNotFound (New m) = False"

definition IgnoreNotFound :: "error \<Rightarrow> error option" where
  "IgnoreNotFound err = (if IsNotFound err then None else Some err)"

definition apiGet ::
  "world \<Rightarrow> nat \<Rightarrow> 'a ObjectMeta_scheme list \<Rightarrow> string \<Rightarrow> string \<Rightarrow> string
     \<Rightarrow> error + 'a ObjectMeta_scheme" where
  "apiGet w line objs resource ns name =
     (case api_fault w line of
        Some e \<Rightarrow> Inl e
      | None \<Rightarrow>
          (case find (\<lambda>obj. Namespace obj = ns \<and> ObjectMeta.Name obj = name) objs of
             None \<Rightarrow> Inl (NotFound (resource @ '' '' @ Quote name @ '' not found''))
           | Some obj \<Rightarrow> Inr obj))"

definition apiList ::
  "world \<Rightarrow> nat \<Rightarrow> 'a ObjectMeta_scheme list \<Rightarrow> string \<Rightarrow> error + 'a ObjectMeta_scheme list" where
  "apiList w line objs ns =
     (case api_fault w line of
        Some e \<Rightarrow> Inl e
      | None \<Rightarrow> Inr (filter (\<lambda>obj. Namespace obj = ns) objs))"

definition same_object :: "'a ObjectMeta_scheme \<Rightarrow> 'b ObjectMeta_scheme \<Rightarrow> bool" where
  "same_object a b \<longleftrightarrow> Namespace a = Namespace b \<and> ObjectMeta.Name a = ObjectMeta.Name b"

definition torrents_resource :: string where
  "torrents_resource = ''torrents.torrent.qbittorrent.io''"

definition tccs_resource :: string where
  "tccs_resource = ''torrentclientconfigurations.torrent.qbittorrent.io''"

text \<open>
  \<open>r.Update(ctx, torrent)\<close>.  The kind has a status subresource, so the request writes
  metadata and spec of the object of that namespace and name and leaves the stored
  status; an object whose deletion was requested and whose last finalizer is gone is
  removed from the cluster.  The response, which the client decodes into the
  caller's object, is the first component.
\<close>

definition Update_Torrent ::
  "world \<Rightarrow> nat \<Rightarrow> cluster \<Rightarrow> Torrent \<Rightarrow> (error + Torrent) \<times> cluster" where
  "Update_Torrent w line cl torrent =
     (case api_fault w line of
        Some e \<Rightarrow> (Inl e, cl)
      | None \<Rightarrow>
          (case find (same_object torrent) (torrents cl) of
             None \<Rightarrow>
               (Inl (NotFound (torrents_resource @ '' '' @ Quote (ObjectMeta.Name torrent)
                               @ '' not found'')), cl)
           | Some stored \<Rightarrow>
               (let new = torrent\<lparr>Torrent.Status := Torrent.Status stored\<rparr> in
                if \<not> DeletionTimestamp_IsZero (DeletionTimestamp new) \<and> Finalizers new = []
                then (Inr new, cl\<lparr>torrents := filter (\<lambda>obj. \<not> same_object torrent obj) (torrents cl)\<rparr>)
                else (Inr new,
                      cl\<lparr>torrents :=
                           map (\<lambda>obj. if same_object torrent obj
                                     then torrent\<lparr>Torrent.Status := Torrent.Status obj\<rparr> else obj)
                             (torrents cl)\<rparr>))))"

text \<open>
  \<open>r.Status().Update(ctx, torrent)\<close>: the request writes the status only.  A
  \<open>metav1.Time\<close> is written in RFC 3339 with whole seconds, so an instant that went
  through the request has lost its fraction of a second; \<open>wire_Torrent_status\<close> is the
  status as the API server stores and returns it.
\<close>

definition wire_time :: "Time \<Rightarrow> Time" where
  "wire_time t = t - t mod Second"

definition wire_condition :: "Condition \<Rightarrow> Condition" where
  "wire_condition c = c\<lparr>LastTransitionTime := wire_time (LastTransitionTime c)\<rparr>"

definition wire_Torrent_status :: "TorrentStatus \<Rightarrow> TorrentStatus" where
  "wire_Torrent_status s =
     s\<lparr>TorrentStatus.Conditions := map wire_condition (TorrentStatus.Conditions s)\<rparr>"

definition StatusUpdate_Torrent ::
  "world \<Rightarrow> nat \<Rightarrow> cluster \<Rightarrow> Torrent \<Rightarrow> (error + Torrent) \<times> cluster" where
  "StatusUpdate_Torrent w line cl torrent =
     (case api_fault w line of
        Some e \<Rightarrow> (Inl e, cl)
      | None \<Rightarrow>
          (case find (same_object torrent) (torrents cl) of
             None \<Rightarrow>
               (Inl (NotFound (torrents_resource @ '' '' @ Quote (ObjectMeta.Name torrent)
                               @ '' not found'')), cl)
           | Some stored \<Rightarrow>
               (Inr (stored\<lparr>Torrent.Status := wire_Torrent_status (Torrent.Status torrent)\<rparr>),
                cl\<lparr>torrents :=
                     map (\<lambda>obj. if same_object torrent obj
                               then obj\<lparr>Torrent.Status := wire_Torrent_status (Torrent.Status torrent)\<rparr>
                               else obj)
                       (torrents cl)\<rparr>)))"

text \<open>
  \<open>r.Status().Update(ctx, tcc)\<close> for a configuration; \<open>wire_TCC_status\<close> is its status
  as the API server stores and returns it.  A \<open>*metav1.Time\<close> holding the zero \<open>Time\<close>
  is written as \<open>null\<close> and comes back nil.
\<close>

definition wire_TCC_status ::
  "TorrentClientConfigurationStatus \<Rightarrow> TorrentClientConfigurationStatus" where
  "wire_TCC_status s =
     s\<lparr>LastChecked :=
         (case LastChecked s of
            None \<Rightarrow> None
          | Some t \<Rightarrow> if IsZero t then None else Some (wire_time t)),
       TorrentClientConfigurationStatus.Conditions :=
         map wire_condition (TorrentClientConfigurationStatus.Conditions s)\<rparr>"

definition StatusUpdate_TCC ::
  "world \<Rightarrow> nat \<Rightarrow> cluster \<Rightarrow> TorrentClientConfiguration
     \<Rightarrow> (error + TorrentClientConfiguration) \<times> cluster" where
  "StatusUpdate_TCC w line cl tcc =
     (case api_fault w line of
        Some e \<Rightarrow> (Inl e, cl)
      | None \<Rightarrow>
          (case find (same_object tcc) (tccs cl) of
             None \<Rightarrow>
               (Inl (NotFound (tccs_resource @ '' '' @ Quote (ObjectMeta.Name tcc)
                               @ '' not found'')), cl)
           | Some stored \<Rightarrow>
               (Inr (stored\<lparr>TorrentClientConfiguration.Status :=
                               wire_TCC_status (TorrentClientConfiguration.Status tcc)\<rparr>),
                cl\<lparr>tccs :=
                     map (\<lambda>obj. if same_object tcc obj
                               then obj\<lparr>TorrentClientConfiguration.Status :=
                                          wire_TCC_status (TorrentClientConfiguration.Status tcc)\<rparr>
                               else obj)
                       (tccs cl)\<rparr>)))"

text \<open>Package controllerutil: finalizers.\<close>

definition ContainsFinalizer :: "'a ObjectMeta_scheme \<Rightarrow> string \<Rightarrow> bool" where
  "ContainsFinalizer obj finalizer \<longleftrightarrow> finalizer \<in> set (Finalizers obj)"

definition AddFinalizer :: "'a ObjectMeta_scheme \<Rightarrow> string \<Rightarrow> 'a ObjectMeta_scheme" where
  "AddFinalizer obj finalizer =
     (if finalizer \<in> set (Finalizers obj) then obj
      else obj\<lparr>Finalizers := Finalizers obj @ [finalizer]\<rparr>)"

definition RemoveFinalizer :: "'a ObjectMeta_scheme \<Rightarrow> string \<Rightarrow> 'a ObjectMeta_scheme" where
  "RemoveFinalizer obj finalizer =
     obj\<lparr>Finalizers := filter (\<lambda>f. f \<noteq> finalizer) (Finalizers obj)\<rparr>"

text \<open>
  \<open>ctrl.Result\<close>, and what a reconcile leaves behind: the result and error it returns,
  the caller's object as it stands at the return (\<open>None\<close> when none was fetched), the
  cluster and the process state.
\<close>

record Result =
  Requeue :: bool
  RequeueAfter :: Duration

definition Result_empty :: Result where
  "Result_empty = \<lparr>Requeue = False, RequeueAfter = 0\<rparr>"

definition Result_after :: "Duration \<Rightarrow> Result" where
  "Result_after d = \<lparr>Requeue = False, RequeueAfter = d\<rparr>"

record 'a outcome =
  result :: Result
  failure :: "error option"
  object :: "'a option"
  store :: cluster
  proc :: runtime

section \<open>Package controller: the Torrent controller\<close>

definition TypeAvailableTorrent :: string where
  "TypeAvailableTorrent = ''Available''"

definition TypeDegradedTorrent :: string where
  "TypeDegradedTorrent = ''Degraded''"

definition TypeAvailableTCC :: string where
  "TypeAvailableTCC = ''Available''"

definition TypeDegradedTCC :: string where
  "TypeDegradedTCC = ''Degraded''"

definition TypeAvailableTorrentServer :: string where
  "TypeAvailableTorrentServer = ''Available''"

definition TypeDegradedTorrentServer :: string where
  "TypeDegradedTorrentServer = ''Degraded''"

definition TorrentFinalizer :: string where
  "TorrentFinalizer = ''torrent.qbittorrent.io/finalizer''"

text \<open>
  The condition a setter builds (\<open>ObservedGeneration\<close> is the zero value, the
  transition time \<open>time.Now()\<close>).
\<close>

definition newCondition :: "string \<Rightarrow> Time \<Rightarrow> string \<Rightarrow> string \<Rightarrow> Condition" where
  "newCondition conditionType now reason message =
     \<lparr>Type = conditionType, Condition.Status = ConditionTrue, ObservedGeneration = 0,
      LastTransitionTime = now, Reason = reason, Message = message\<rparr>"

definition TorrentReconciler_setDegradedCondition ::
  "Time \<Rightarrow> Torrent \<Rightarrow> string \<Rightarrow> string \<Rightarrow> Torrent" where
  "TorrentReconciler_setDegradedCondition now torrent reason message =
     (let condition = newCondition TypeDegradedTorrent now reason message;
          c1 = SetStatusCondition now (TorrentStatus.Conditions (Torrent.Status torrent)) condition;
          c2 = RemoveStatusCondition c1 TypeAvailableTorrent
      in torrent\<lparr>Torrent.Status := (Torrent.Status torrent)\<lparr>TorrentStatus.Conditions := c2\<rparr>\<rparr>)"

definition TorrentReconciler_setAvailableCondition ::
  "Time \<Rightarrow> Torrent \<Rightarrow> string \<Rightarrow> string \<Rightarrow> Torrent" where
  "TorrentReconciler_setAvailableCondition now torrent reason message =
     (let condition = newCondition TypeAvailableTorrent now reason message;
          c1 = SetStatusCondition now (TorrentStatus.Conditions (Torrent.Status torrent)) condition;
          c2 = RemoveStatusCondition c1 TypeDegradedTorrent
      in torrent\<lparr>Torrent.Status := (Torrent.Status torrent)\<lparr>TorrentStatus.Conditions := c2\<rparr>\<rparr>)"

text \<open>\<open>string(secret.Data[key])\<close>: the empty string for a key that is not there.\<close>

definition secret_string :: "Secret \<Rightarrow> string \<Rightarrow> string" where
  "secret_string secret key = (case Data secret key of None \<Rightarrow> [] | Some v \<Rightarrow> v)"

text \<open>
  \<open>getQBTClient\<close>.  It returns the client or the error, the caller's \<open>torrent\<close> (the
  function writes \<open>torrent.Status.ClientConfigurationName\<close>) and the process state.
  Steps, as numbered in the source:

  1.1  With a reference, \<open>r.Get\<close> fetches the referenced object into a variable
  \<open>tcc\<close> declared with \<open>:=\<close> inside the \<open>if\<close> block.  An error returns; on success
  the block ends, and with it the inner variable: the outer \<open>tcc\<close> is still nil.

  1.2  The list of the namespace and the \<open>switch\<close> on its length follow, whether or
  not there was a reference.
\<close>

definition getQBTClient ::
  "world \<Rightarrow> Time \<Rightarrow> cluster \<Rightarrow> runtime \<Rightarrow> Torrent \<Rightarrow> (error + Client) \<times> Torrent \<times> runtime" where
  "getQBTClient w now cl rt torrent =
     (case (case ClientConfigRef (Torrent.Spec torrent) of
              None \<Rightarrow> None
            | Some refName \<Rightarrow>
                (case apiGet w 186 (tccs cl) tccs_resource (Namespace torrent) refName of
                   Inl err \<Rightarrow>
                     Some (Wrap (''referenced TorrentClientConfiguration '' @ Quote refName
                                 @ '' not found: '' @ Error err) err)
                 | Inr inner_tcc \<Rightarrow> None)) of
        Some e \<Rightarrow> (Inl e, torrent, rt)
      | None \<Rightarrow>
          (case apiList w 197 (tccs cl) (Namespace torrent) of
             Inl err \<Rightarrow>
               (Inl (Wrap (''failed to list TorrentClientConfigurations: '' @ Error err) err),
                torrent, rt)
           | Inr items \<Rightarrow>
               (case items of
                  [] \<Rightarrow>
                    (Inl (New (''no TorrentClientConfiguration found in namespace ''
                               @ Namespace torrent)), torrent, rt)
                | [tcc] \<Rightarrow>
                    (let availableCondition =
                           FindStatusCondition
                             (TorrentClientConfigurationStatus.Conditions
                                (TorrentClientConfiguration.Status tcc)) TypeAvailableTCC
                     in if (case availableCondition of
                              None \<Rightarrow> True
                            | Some c \<Rightarrow> Condition.Status c \<noteq> ConditionTrue)
                        then (Inl (New (''TorrentClientConfiguration '' @ Quote (ObjectMeta.Name tcc)
                                        @ '' is not available'')), torrent, rt)
                        else
                          (let torrent1 =
                                 torrent\<lparr>Torrent.Status := (Torrent.Status torrent)
                                   \<lparr>TorrentStatus.ClientConfigurationName := ObjectMeta.Name tcc\<rparr>\<rparr>
                           in case apiGet w 223 (secrets cl) ''secrets'' (Namespace tcc)
                                     (CredentialsSecret (TorrentClientConfiguration.Spec tcc)) of
                                Inl err \<Rightarrow>
                                  (Inl (Wrap (''failed to get credentials secret ''
                                              @ Quote (CredentialsSecret (TorrentClientConfiguration.Spec tcc))
                                              @ '': '' @ Error err) err),
                                   torrent1, rt)
                              | Inr secret \<Rightarrow>
                                  (let (r, rt') =
                                         GetOrCreate w now rt
                                           (TorrentClientConfigurationSpec.URL
                                              (TorrentClientConfiguration.Spec tcc))
                                           (secret_string secret ''username'')
                                           (secret_string secret ''password'')
                                   in (r, torrent1, rt'))))
                | _ \<Rightarrow>
                    (Inl (New (''multiple TorrentClientConfigurations found in namespace ''
                               @ Namespace torrent
                               @ ''; set spec.clientConfigRef to select one'')), torrent, rt))))"

text \<open>
  The end of \<open>handleDeletion\<close> (source lines 167 to 174): the finalizer is removed
  from the caller's object and the object is written.
\<close>

definition removeFinalizerAndUpdate ::
  "world \<Rightarrow> cluster \<Rightarrow> runtime \<Rightarrow> Torrent \<Rightarrow> Torrent outcome" where
  "removeFinalizerAndUpdate w cl rt torrent =
     (let torrent' = RemoveFinalizer torrent TorrentFinalizer in
      case Update_Torrent w 168 cl torrent' of
        (Inl e, cl') \<Rightarrow>
          \<lparr>result = Result_empty, failure = Some e, object = Some torrent', store = cl', proc = rt\<rparr>
      | (Inr response, cl') \<Rightarrow>
          \<lparr>result = Result_empty, failure = None, object = Some response, store = cl', proc = rt\<rparr>)"

definition handleDeletion ::
  "world \<Rightarrow> Time \<Rightarrow> cluster \<Rightarrow> runtime \<Rightarrow> Torrent \<Rightarrow> Torrent outcome" where
  "handleDeletion w now cl rt torrent =
     (if TorrentStatus.Hash (Torrent.Status torrent) \<noteq> []
      then
        (case getQBTClient w now cl rt torrent of
           (Inl e, torrent1, rt1) \<Rightarrow> removeFinalizerAndUpdate w cl rt1 torrent1
         | (Inr qbtClient, torrent1, rt1) \<Rightarrow>
             (let deleteFiles =
                    (case DeleteFilesOnRemoval (Torrent.Spec torrent1) of
                       None \<Rightarrow> True
                     | Some b \<Rightarrow> b)
              in case DeleteTorrent w qbtClient (TorrentStatus.Hash (Torrent.Status torrent1))
                        deleteFiles of
                   Some e \<Rightarrow>
                     (let torrent2 =
                            TorrentReconciler_setDegradedCondition now torrent1
                              ''FailedToDeleteTorrent'' (Error e)
                      in case StatusUpdate_Torrent w 158 cl torrent2 of
                           (Inl statusErr, cl') \<Rightarrow>
                             \<lparr>result = Result_after (10 * Second), failure = None,
                              object = Some torrent2, store = cl', proc = rt1\<rparr>
                         | (Inr response, cl') \<Rightarrow>
                             \<lparr>result = Result_after (10 * Second), failure = None,
                              object = Some response, store = cl', proc = rt1\<rparr>)
                 | None \<Rightarrow> removeFinalizerAndUpdate w cl rt1 torrent1))
      else removeFinalizerAndUpdate w cl rt torrent)"

text \<open>
  \<open>updateTorrentStatus\<close>: each field is copied when it differs; the result is the
  object and whether any field was copied.
\<close>

definition updateTorrentStatus :: "Torrent \<Rightarrow> TorrentInfo \<Rightarrow> Torrent \<times> bool" where
  "updateTorrentStatus torrent qbTorrent =
     (let upd = (\<lambda>(s, updated) differs write. if differs s then (write s, True) else (s, updated));
          s0 = (Torrent.Status torrent, False);
          s1 = upd s0 (\<lambda>s. TorrentStatus.Hash s \<noteq> TorrentInfo.Hash qbTorrent)
                      (\<lambda>s. s\<lparr>TorrentStatus.Hash := TorrentInfo.Hash qbTorrent\<rparr>);
          s2 = upd s1 (\<lambda>s. TorrentStatus.Name s \<noteq> TorrentInfo.Name qbTorrent)
                      (\<lambda>s. s\<lparr>TorrentStatus.Name := TorrentInfo.Name qbTorrent\<rparr>);
          s3 = upd s2 (\<lambda>s. TorrentStatus.State s \<noteq> TorrentInfo.State qbTorrent)
                      (\<lambda>s. s\<lparr>TorrentStatus.State := TorrentInfo.State qbTorrent\<rparr>);
          s4 = upd s3 (\<lambda>s. TorrentStatus.TotalSize s \<noteq> TorrentInfo.TotalSize qbTorrent)
                      (\<lambda>s. s\<lparr>TorrentStatus.TotalSize := TorrentInfo.TotalSize qbTorrent\<rparr>);
          s5 = upd s4 (\<lambda>s. TorrentStatus.ContentPath s \<noteq> TorrentInfo.ContentPath qbTorrent)
                      (\<lambda>s. s\<lparr>TorrentStatus.ContentPath := TorrentInfo.ContentPath qbTorrent\<rparr>);
          s6 = upd s5 (\<lambda>s. TorrentStatus.AddedOn s \<noteq> TorrentInfo.AddedOn qbTorrent)
                      (\<lambda>s. s\<lparr>TorrentStatus.AddedOn := TorrentInfo.AddedOn qbTorrent\<rparr>);
          s7 = upd s6 (\<lambda>s. TorrentStatus.TimeActive s \<noteq> TorrentInfo.TimeActive qbTorrent)
                      (\<lambda>s. s\<lparr>TorrentStatus.TimeActive := TorrentInfo.TimeActive qbTorrent\<rparr>);
          s8 = upd s7 (\<lambda>s. TorrentStatus.AmountLeft s \<noteq> TorrentInfo.AmountLeft qbTorrent)
                      (\<lambda>s. s\<lparr>TorrentStatus.AmountLeft := TorrentInfo.AmountLeft qbTorrent\<rparr>)
      in (torrent\<lparr>Torrent.Status := fst s8\<rparr>, snd s8))"

text \<open>
  A status write whose error is only logged: the caller's object is the response
  when the request went through, and unchanged when it did not.
\<close>

definition StatusUpdate_logged ::
  "world \<Rightarrow> nat \<Rightarrow> cluster \<Rightarrow> Torrent \<Rightarrow> Torrent \<times> cluster" where
  "StatusUpdate_logged w line cl torrent =
     (case StatusUpdate_Torrent w line cl torrent of
        (Inl statusErr, cl') \<Rightarrow> (torrent, cl')
      | (Inr response, cl') \<Rightarrow> (response, cl'))"

text \<open>
  \<open>TorrentReconciler.Reconcile\<close> for the request \<open>ns/name\<close>.  The value is \<open>None\<close>
  where the Go function would panic (in \<open>GetTorrentHash\<close>).
\<close>

definition Reconcile ::
  "world \<Rightarrow> Time \<Rightarrow> cluster \<Rightarrow> runtime \<Rightarrow> string \<Rightarrow> string \<Rightarrow> Torrent outcome option" where
  "Reconcile w now cl rt ns name =
     (case apiGet w 51 (torrents cl) torrents_resource ns name of
        Inl e \<Rightarrow>
          Some \<lparr>result = Result_empty, failure = IgnoreNotFound e, object = None, store = cl, proc = rt\<rparr>
      | Inr torrent \<Rightarrow>
          if \<not> DeletionTimestamp_IsZero (DeletionTimestamp torrent)
          then Some (handleDeletion w now cl rt torrent)
          else if \<not> ContainsFinalizer torrent TorrentFinalizer
          then
            (let torrent' = AddFinalizer torrent TorrentFinalizer in
             case Update_Torrent w 65 cl torrent' of
               (Inl e, cl') \<Rightarrow>
                 Some \<lparr>result = Result_empty, failure = Some e, object = Some torrent', store = cl', proc = rt\<rparr>
             | (Inr response, cl') \<Rightarrow>
                 Some \<lparr>result = Result_after (1 * Second), failure = None, object = Some response,
                       store = cl', proc = rt\<rparr>)
          else
            (case getQBTClient w now cl rt torrent of
               (Inl e, torrent1, rt1) \<Rightarrow>
                 (let torrent2 =
                        TorrentReconciler_setDegradedCondition now torrent1
                          ''ClientResolutionFailed'' (Error e);
                      (torrent3, cl') = StatusUpdate_logged w 77 cl torrent2
                  in Some \<lparr>result = Result_after (15 * Second), failure = None, object = Some torrent3,
                           store = cl', proc = rt1\<rparr>)
             | (Inr qbtClient, torrent1, rt1) \<Rightarrow>
                 (case GetTorrentHash (MagnetURI (Torrent.Spec torrent1)) of
                    None \<Rightarrow> None
                  | Some (Inl e) \<Rightarrow>
                      Some \<lparr>result = Result_empty, failure = Some e, object = Some torrent1,
                            store = cl, proc = rt1\<rparr>
                  | Some (Inr hash) \<Rightarrow>
                      (case GetTorrentInfo w qbtClient hash of
                         Inl e \<Rightarrow>
                           (let torrent2 =
                                  TorrentReconciler_setDegradedCondition now torrent1
                                    ''FailedToGetTorrentInfo'' (Error e);
                                (torrent3, cl') = StatusUpdate_logged w 96 cl torrent2
                            in Some \<lparr>result = Result_after (10 * Second), failure = None,
                                     object = Some torrent3, store = cl', proc = rt1\<rparr>)
                       | Inr None \<Rightarrow>
                           (case AddTorrent w qbtClient (MagnetURI (Torrent.Spec torrent1)) of
                              Some e \<Rightarrow>
                                (let torrent2 =
                                       TorrentReconciler_setDegradedCondition now torrent1
                                         ''FailedToAddTorrent'' (Error e);
                                     (torrent3, cl') = StatusUpdate_logged w 107 cl torrent2
                                 in Some \<lparr>result = Result_after (10 * Second), failure = None,
                                          object = Some torrent3, store = cl', proc = rt1\<rparr>)
                            | None \<Rightarrow>
                                (let torrent2 =
                                       TorrentReconciler_setAvailableCondition now torrent1
                                         ''TorrentAdded'' ''Torrent added to qBittorrent'';
                                     (torrent3, cl') = StatusUpdate_logged w 114 cl torrent2
                                 in Some \<lparr>result = Result_after (5 * Second), failure = None,
                                          object = Some torrent3, store = cl', proc = rt1\<rparr>))
                       | Inr (Some torrentInfo) \<Rightarrow>
                           (let (torrent2, updated) = updateTorrentStatus torrent1 torrentInfo;
                                written =
                                  (if updated then StatusUpdate_Torrent w 124 cl torrent2
                                   else (Inr torrent2, cl))
                            in case written of
                                 (Inl e, cl1) \<Rightarrow>
                                   Some \<lparr>result = Result_empty, failure = Some e, object = Some torrent2,
                                         store = cl1, proc = rt1\<rparr>
                               | (Inr torrent3, cl1) \<Rightarrow>
                                   (let torrent4 =
                                          TorrentReconciler_setAvailableCondition now torrent3
                                            ''TorrentActive'' ''Torrent is active on qBittorrent'';
                                        (torrent5, cl2) = StatusUpdate_logged w 131 cl1 torrent4
                                    in Some \<lparr>result = Result_after (15 * Second), failure = None,
                                             object = Some torrent5, store = cl2, proc = rt1\<rparr>))))))"

section \<open>Package controller: the TorrentClientConfiguration controller\<close>

definition TorrentClientConfigurationReconciler_setAvailableCondition ::
  "Time \<Rightarrow> TorrentClientConfiguration \<Rightarrow> string \<Rightarrow> string \<Rightarrow> TorrentClientConfiguration" where
  "TorrentClientConfigurationReconciler_setAvailableCondition now tcc reason message =
     (let condition = newCondition TypeAvailableTCC now reason message;
          c1 = SetStatusCondition now
                 (TorrentClientConfigurationStatus.Conditions (TorrentClientConfiguration.Status tcc))
                 condition;
          c2 = RemoveStatusCondition c1 TypeDegradedTCC
      in tcc\<lparr>TorrentClientConfiguration.Status := (TorrentClientConfiguration.Status tcc)
               \<lparr>TorrentClientConfigurationStatus.Conditions := c2\<rparr>\<rparr>)"

definition TorrentClientConfigurationReconciler_setDegradedCondition ::
  "Time \<Rightarrow> TorrentClientConfiguration \<Rightarrow> string \<Rightarrow> string \<Rightarrow> TorrentClientConfiguration" where
  "TorrentClientConfigurationReconciler_setDegradedCondition now tcc reason message =
     (let condition = newCondition TypeDegradedTCC now reason message;
          c1 = SetStatusCondition now
                 (TorrentClientConfigurationStatus.Conditions (TorrentClientConfiguration.Status tcc))
                 condition;
          c2 = RemoveStatusCondition c1 TypeAvailableTCC
      in tcc\<lparr>TorrentClientConfiguration.Status := (TorrentClientConfiguration.Status tcc)
               \<lparr>TorrentClientConfigurationStatus.Conditions := c2\<rparr>\<rparr>)"

text \<open>
  The tail every degraded branch of the reconcile repeats after its
  \<open>setDegradedCondition\<close>: \<open>Connected = false\<close>, \<open>LastChecked = now\<close>, a status write
  whose error is only logged, and a re-queue after the check interval.
\<close>

definition degraded_return ::
  "world \<Rightarrow> nat \<Rightarrow> Time \<Rightarrow> cluster \<Rightarrow> runtime \<Rightarrow> Duration \<Rightarrow> TorrentClientConfiguration
     \<Rightarrow> TorrentClientConfiguration outcome" where
  "degraded_return w line now cl rt checkInterval tcc1 =
     (let tcc2 = tcc1\<lparr>TorrentClientConfiguration.Status := (TorrentClientConfiguration.Status tcc1)
                   \<lparr>Connected := False\<rparr>\<rparr>;
          tcc3 = tcc2\<lparr>TorrentClientConfiguration.Status := (TorrentClientConfiguration.Status tcc2)
                   \<lparr>LastChecked := Some now\<rparr>\<rparr>
      in case StatusUpdate_TCC w line cl tcc3 of
           (Inl statusErr, cl') \<Rightarrow>
             \<lparr>result = Result_after checkInterval, failure = None, object = Some tcc3,
              store = cl', proc = rt\<rparr>
         | (Inr response, cl') \<Rightarrow>
             \<lparr>result = Result_after checkInterval, failure = None, object = Some response,
              store = cl', proc = rt\<rparr>)"

text \<open>
  \<open>TorrentClientConfigurationReconciler.Reconcile\<close> for the request \<open>ns/name\<close>.
  \<open>%v\<close> of an error is its message.
\<close>

definition TCC_Reconcile ::
  "world \<Rightarrow> Time \<Rightarrow> cluster \<Rightarrow> runtime \<Rightarrow> string \<Rightarrow> string
     \<Rightarrow> TorrentClientConfiguration outcome" where
  "TCC_Reconcile w now cl rt ns name =
     (case apiGet w 46 (tccs cl) tccs_resource ns name of
        Inl e \<Rightarrow>
          \<lparr>result = Result_empty, failure = IgnoreNotFound e, object = None, store = cl, proc = rt\<rparr>
      | Inr tcc \<Rightarrow>
          (let spec = TorrentClientConfiguration.Spec tcc;
               checkInterval =
                 (if CheckInterval spec \<noteq> []
                  then (case ParseDuration w (CheckInterval spec) of
                          Inl e \<Rightarrow> 60 * Second
                        | Inr parsed \<Rightarrow> parsed)
                  else 60 * Second)
           in case apiGet w 63 (secrets cl) ''secrets'' (Namespace tcc) (CredentialsSecret spec) of
                Inl e \<Rightarrow>
                  degraded_return w 69 now cl rt checkInterval
                    (TorrentClientConfigurationReconciler_setDegradedCondition now tcc
                       ''SecretNotFound''
                       (''Credentials secret '' @ Quote (CredentialsSecret spec) @ '' not found: ''
                        @ Error e))
              | Inr secret \<Rightarrow>
                  if Data secret ''username'' = None \<or> Data secret ''password'' = None
                  then
                    degraded_return w 83 now cl rt checkInterval
                      (TorrentClientConfigurationReconciler_setDegradedCondition now tcc
                         ''SecretInvalid''
                         (''Credentials secret '' @ Quote (CredentialsSecret spec)
                          @ '' missing '' @ CHR 0x27 # ''username'' @ CHR 0x27 # '' or ''
                          @ CHR 0x27 # ''password'' @ CHR 0x27 # '' key''))
                  else
                    (case GetOrCreate w now rt (TorrentClientConfigurationSpec.URL spec)
                            (secret_string secret ''username'') (secret_string secret ''password'') of
                       (Inl e, rt1) \<Rightarrow>
                         degraded_return w 102 now cl rt1 checkInterval
                           (TorrentClientConfigurationReconciler_setDegradedCondition now tcc
                              ''ClientCreationFailed''
                              (''Failed to create qBittorrent client for ''
                               @ TorrentClientConfigurationSpec.URL spec @ '': '' @ Error e))
                     | (Inr qbtClient, rt1) \<Rightarrow>
                         (case Ping w qbtClient of
                            Some e \<Rightarrow>
                              degraded_return w 115 now cl rt1 checkInterval
                                (TorrentClientConfigurationReconciler_setDegradedCondition now tcc
                                   ''HealthCheckFailed''
                                   (''qBittorrent health check failed at ''
                                    @ TorrentClientConfigurationSpec.URL spec @ '': '' @ Error e))
                          | None \<Rightarrow>
                              (let tcc1 =
                                     TorrentClientConfigurationReconciler_setAvailableCondition now tcc
                                       ''Connected''
                                       (''Successfully connected to qBittorrent at ''
                                        @ TorrentClientConfigurationSpec.URL spec);
                                   tcc2 = tcc1\<lparr>TorrentClientConfiguration.Status :=
                                            (TorrentClientConfiguration.Status tcc1)
                                              \<lparr>Connected := True\<rparr>\<rparr>;
                                   tcc3 = tcc2\<lparr>TorrentClientConfiguration.Status :=
                                            (TorrentClientConfiguration.Status tcc2)
                                              \<lparr>LastChecked := Some now\<rparr>\<rparr>
                               in case StatusUpdate_TCC w 128 cl tcc3 of
                                    (Inl e, cl') \<Rightarrow>
                                      \<lparr>result = Result_empty, failure = Some e, object = Some tcc3,
                                       store = cl', proc = rt1\<rparr>
                                  | (Inr response, cl') \<Rightarrow>
                                      \<lparr>result = Result_after checkInterval, failure = None,
                                       object = Some response, store = cl', proc = rt1\<rparr>)))))"

section \<open>Package controller: the condition setters of the TorrentServer controller\<close>

definition TorrentServerReconciler_setAvailableCondition ::
  "Time \<Rightarrow> TorrentServer \<Rightarrow> string \<Rightarrow> string \<Rightarrow> TorrentServer" where
  "TorrentServerReconciler_setAvailableCondition now ts reason message =
     (let condition = newCondition TypeAvailableTorrentServer now reason message;
          c1 = SetStatusCondition now (TorrentServerStatus.Conditions (TorrentServer.Status ts))
                 condition;
          c2 = RemoveStatusCondition c1 TypeDegradedTorrentServer
      in ts\<lparr>TorrentServer.Status := (TorrentServer.Status ts)
              \<lparr>TorrentServerStatus.Conditions := c2\<rparr>\<rparr>)"

definition TorrentServerReconciler_setDegradedCondition ::
  "Time \<Rightarrow> TorrentServer \<Rightarrow> string \<Rightarrow> string \<Rightarrow> TorrentServer" where
  "TorrentServerReconciler_setDegradedCondition now ts reason message =
     (let condition = newCondition TypeDegradedTorrentServer now reason message;
          c1 = SetStatusCondition now (TorrentServerStatus.Conditions (TorrentServer.Status ts))
                 condition;
          c2 = RemoveStatusCondition c1 TypeAvailableTorrentServer
      in ts\<lparr>TorrentServer.Status := (TorrentServer.Status ts)
              \<lparr>TorrentServerStatus.Conditions := c2\<rparr>\<rparr>)"

section \<open>Histories\<close>

text \<open>
  What can happen to the pool, one after the other: a \<open>GetOrCreate\<close> call, a
  \<open>Cleanup\<close> sweep (visiting the keys in some order), or an armed timer (its key and due instant) firing, each at an
  instant.  A timer fires only when it is armed and due.  \<open>pool_run\<close> returns what
  the \<open>GetOrCreate\<close> calls returned, in order, and the final state.
\<close>

datatype pool_op =
    Call string string string Time
  | Sweep "string list" Time
  | Fire string Time Time

fun pool_step :: "world \<Rightarrow> pool_op \<Rightarrow> runtime \<Rightarrow> (error + Client) list \<times> runtime" where
  "pool_step w (Call url username password now) rt =
     (let (r, rt') = GetOrCreate w now rt url username password in ([r], rt'))"
| "pool_step w (Sweep keys now) rt = ([], rt\<lparr>pool := Cleanup now keys (pool rt)\<rparr>)"
| "pool_step w (Fire key due now) rt =
     (if (key, due) \<in> set (timers rt) \<and> due \<le> now
      then ([], rt\<lparr>pool := timerFired now (pool rt) key, timers := remove1 (key, due) (timers rt)\<rparr>)
      else ([], rt))"

fun pool_run :: "world \<Rightarrow> pool_op list \<Rightarrow> runtime \<Rightarrow> (error + Client) list \<times> runtime" where
  "pool_run w [] rt = ([], rt)"
| "pool_run w (x # xs) rt =
     (let (rs, rt1) = pool_step w x rt;
          (rs', rt2) = pool_run w xs rt1
      in (rs @ rs', rt2))"

text \<open>
  \<open>in_window sum256 d url username password latest xs\<close>: every step of the history
  \<open>xs\<close> happens no later than \<open>d\<close> after the latest call that used the pool key of
  the triple \<open>(url, username, password)\<close> (\<open>latest\<close> at the start).  The calls of the
  history may be for any triple; one uses the key of the triple when it is for the
  triple itself or for one with the same digest.
\<close>

fun in_window ::
  "(string \<Rightarrow> string) \<Rightarrow> Duration \<Rightarrow> string \<Rightarrow> string \<Rightarrow> string \<Rightarrow> Time \<Rightarrow> pool_op list \<Rightarrow> bool" where
  "in_window sum256 d url username password latest [] = True"
| "in_window sum256 d url username password latest (Call url' username' password' now # xs) =
     (Sub now latest \<le> d
      \<and> in_window sum256 d url username password
           (if hashCredentials sum256 url' username' password'
                 = hashCredentials sum256 url username password
            then now else latest) xs)"
| "in_window sum256 d url username password latest (Sweep keys now # xs) =
     (Sub now latest \<le> d \<and> in_window sum256 d url username password latest xs)"
| "in_window sum256 d url username password latest (Fire key due now # xs) =
     (Sub now latest \<le> d \<and> in_window sum256 d url username password latest xs)"

fun is_Call :: "pool_op \<Rightarrow> bool" where
  "is_Call (Call url username password now) = True"
| "is_Call (Sweep keys now) = False"
| "is_Call (Fire key due now) = False"

text \<open>
  The calls of a history that are for a given triple, what they returned (\<open>rs\<close> is
  what the calls of the history returned, in order), and the \<open>Login\<close> calls of a log
  that are for the triple.
\<close>

fun for_triple :: "string \<Rightarrow> string \<Rightarrow> string \<Rightarrow> pool_op \<Rightarrow> bool" where
  "for_triple url username password (Call url' username' password' now) =
     (url' = url \<and> username' = username \<and> password' = password)"
| "for_triple url username password (Sweep keys now) = False"
| "for_triple url username password (Fire key due now) = False"

fun answers_to ::
  "string \<Rightarrow> string \<Rightarrow> string \<Rightarrow> pool_op list \<Rightarrow> (error + Client) list \<Rightarrow> (error + Client) list" where
  "answers_to url username password [] rs = []"
| "answers_to url username password (Call url' username' password' now # xs) rs =
     (case rs of
        [] \<Rightarrow> []
      | r # rs' \<Rightarrow>
          (if url' = url \<and> username' = username \<and> password' = password then [r] else [])
          @ answers_to url username password xs rs')"
| "answers_to url username password (Sweep keys now # xs) rs = answers_to url username password xs rs"
| "answers_to url username password (Fire key due now # xs) rs = answers_to url username password xs rs"

definition logins_for ::
  "string \<Rightarrow> string \<Rightarrow> string \<Rightarrow> (Client \<times> string \<times> string) list \<Rightarrow> (Client \<times> string \<times> string) list" where
  "logins_for url username password ls =
     filter (\<lambda>(c, u, p). baseURL c = url \<and> u = username \<and> p = password) ls"

text \<open>
  A call of a condition setter, with the instant \<open>time.Now()\<close> returns in it, and
  what it does to an object of each of the three kinds.
\<close>

datatype cond_call =
    SetAvailable Time string string
  | SetDegraded Time string string

fun call_type :: "cond_call \<Rightarrow> string" where
  "call_type (SetAvailable now reason message) = ''Available''"
| "call_type (SetDegraded now reason message) = ''Degraded''"

fun call_Torrent :: "cond_call \<Rightarrow> Torrent \<Rightarrow> Torrent" where
  "call_Torrent (SetAvailable now reason message) torrent =
     TorrentReconciler_setAvailableCondition now torrent reason message"
| "call_Torrent (SetDegraded now reason message) torrent =
     TorrentReconciler_setDegradedCondition now torrent reason message"

fun call_TCC :: "cond_call \<Rightarrow> TorrentClientConfiguration \<Rightarrow> TorrentClientConfiguration" where
  "call_TCC (SetAvailable now reason message) tcc =
     TorrentClientConfigurationReconciler_setAvailableCondition now tcc reason message"
| "call_TCC (SetDegraded now reason message) tcc =
     TorrentClientConfigurationReconciler_setDegradedCondition now tcc reason message"

fun call_TorrentServer :: "cond_call \<Rightarrow> TorrentServer \<Rightarrow> TorrentServer" where
  "call_TorrentServer (SetAvailable now reason message) ts =
     TorrentServerReconciler_setAvailableCondition now ts reason message"
| "call_TorrentServer (SetDegraded now reason message) ts =
     TorrentServerReconciler_setDegradedCondition now ts reason message"

text \<open>What a call of a setter does to the condition list of the object.\<close>

fun call_conditions :: "cond_call \<Rightarrow> Condition list \<Rightarrow> Condition list" where
  "call_conditions (SetAvailable now reason message) cs =
     RemoveStatusCondition
       (SetStatusCondition now cs (newCondition ''Available'' now reason message)) ''Degraded''"
| "call_conditions (SetDegraded now reason message) cs =
     RemoveStatusCondition
       (SetStatusCondition now cs (newCondition ''Degraded'' now reason message)) ''Available''"

text \<open>
  A condition list as the controllers keep it: no type occurs twice, and no type
  but \<open>Available\<close> and \<open>Degraded\<close> occurs.  The list of a new object, which is empty,
  is one.
\<close>

definition availability_only :: "Condition list \<Rightarrow> bool" where
  "availability_only cs \<longleftrightarrow>
     distinct (map Type cs) \<and> set (map Type cs) \<subseteq> {''Available'', ''Degraded''}"

text \<open>
  \<open>cached rt key c latest\<close>: the pool holds, under \<open>key\<close>, an entry for the handle
  \<open>c\<close> whose hash is \<open>key\<close> and which was last used at \<open>latest\<close>.
\<close>

definition cached :: "runtime \<Rightarrow> string \<Rightarrow> Client \<Rightarrow> Time \<Rightarrow> bool" where
  "cached rt key c latest \<longleftrightarrow>
     (case clients (pool rt) key of
        None \<Rightarrow> False
      | Some e \<Rightarrow> client e = c \<and> credHash e = key \<and> lastUsed e = latest)"

section \<open>Example inputs\<close>

text \<open>
  A world in which every request and every remote call succeeds and the engine
  knows no torrent, and one in which the engine refuses every login.  The digest
  function of the examples is the identity, which keeps distinct inputs distinct.
\<close>

definition quiet_world :: world where
  "quiet_world =
     \<lparr>sha256 = (\<lambda>s. s),
      ParseDuration = (\<lambda>s. Inl (New ''time: invalid duration'')),
      Login = (\<lambda>c username password. None),
      GetTorrentInfo = (\<lambda>c hash. Inr None),
      AddTorrent = (\<lambda>c magnetURI. None),
      DeleteTorrent = (\<lambda>c hash deleteFiles. None),
      Ping = (\<lambda>c. None),
      api_fault = (\<lambda>line. None)\<rparr>"

definition refusing_world :: world where
  "refusing_world = quiet_world\<lparr>Login := (\<lambda>c username password. Some (New ''Forbidden''))\<rparr>"

definition fresh_runtime :: "Duration \<Rightarrow> runtime" where
  "fresh_runtime d = \<lparr>pool = NewClientPool d, timers = [], next_ptr = 0, logins = []\<rparr>"

text \<open>
  The pool of the repository's \<open>TestCleanup\<close> at the instant \<open>0\<close> (a TTL of one
  second, an entry used two seconds ago and one used just now), and a pool whose
  only entry was used at \<open>0\<close>, with a TTL of five seconds.
\<close>

definition demo_client :: Client where
  "demo_client = \<lparr>ptr = 0, baseURL = ''http://q:8080''\<rparr>"

definition test_pool :: ClientPool where
  "test_pool =
     \<lparr>clients =
        [''old'' \<mapsto> \<lparr>client = demo_client, credHash = ''hash1'', lastUsed = - (2 * Second)\<rparr>,
         ''new'' \<mapsto> \<lparr>client = demo_client, credHash = ''hash2'', lastUsed = 0\<rparr>],
      ttl = 1 * Second\<rparr>"

definition boundary_pool :: ClientPool where
  "boundary_pool =
     \<lparr>clients = [''k'' \<mapsto> \<lparr>client = demo_client, credHash = ''k'', lastUsed = 0\<rparr>],
      ttl = 5 * Second\<rparr>"

text \<open>
  A history after a first call at the instant \<open>0\<close> with a TTL of 300 seconds: a
  second call after 60 seconds, a call for another endpoint and other credentials
  after 90, a sweep after 120, the first call's timer firing after 300, and a third
  call after 360.
\<close>

definition demo_history :: "pool_op list" where
  "demo_history =
     [Call ''http://q:8080'' ''admin'' ''pw'' (60 * Second),
      Call ''http://r:8080'' ''root'' ''secret'' (90 * Second),
      Sweep [hashCredentials (\<lambda>s. s) ''http://r:8080'' ''root'' ''secret'',
             hashCredentials (\<lambda>s. s) ''http://q:8080'' ''admin'' ''pw''] (120 * Second),
      Fire (hashCredentials (\<lambda>s. s) ''http://q:8080'' ''admin'' ''pw'') (300 * Second) (300 * Second),
      Call ''http://q:8080'' ''admin'' ''pw'' (360 * Second)]"

text \<open>
  Objects as the API server creates them, with an empty status: a work item that
  already carries the finalizer, a configuration, a managed server, and the secret
  the configuration refers to.
\<close>

definition demo_torrent :: Torrent where
  "demo_torrent =
     \<lparr>ObjectMeta.Name = ''bunny'', Namespace = ''default'', DeletionTimestamp = None,
      Finalizers = [TorrentFinalizer],
      Torrent.Spec =
        \<lparr>MagnetURI = ''magnet:?xt=urn:btih:dd8255ecdc7ca55fb0bbf81323d87062db1f6d1c&dn=Big+Buck+Bunny'',
         ClientConfigRef = None, DeleteFilesOnRemoval = None\<rparr>,
      Torrent.Status =
        \<lparr>TorrentStatus.ContentPath = [], TorrentStatus.AddedOn = 0, TorrentStatus.State = [],
         TorrentStatus.TotalSize = 0, TorrentStatus.Name = [], TorrentStatus.TimeActive = 0,
         TorrentStatus.AmountLeft = 0, TorrentStatus.Hash = [],
         TorrentStatus.ClientConfigurationName = [], TorrentStatus.Conditions = []\<rparr>\<rparr>"

definition demo_tcc :: "string \<Rightarrow> TorrentClientConfiguration" where
  "demo_tcc n =
     \<lparr>ObjectMeta.Name = n, Namespace = ''default'', DeletionTimestamp = None, Finalizers = [],
      TorrentClientConfiguration.Spec =
        \<lparr>TorrentClientConfigurationSpec.URL = ''http://q:8080'', CredentialsSecret = ''creds'',
         CheckInterval = []\<rparr>,
      TorrentClientConfiguration.Status =
        \<lparr>Connected = False, LastChecked = None, QBittorrentVersion = [],
         TorrentClientConfigurationStatus.Conditions = []\<rparr>\<rparr>"

definition demo_ts :: TorrentServer where
  "demo_ts =
     \<lparr>ObjectMeta.Name = ''server'', Namespace = ''default'', DeletionTimestamp = None,
      Finalizers = [],
      TorrentServer.Status =
        \<lparr>DeploymentName = [], ServiceName = [], ConfigPVCName = [],
         TorrentServerStatus.ClientConfigurationName = [], ReadyReplicas = 0,
         TorrentServerStatus.URL = [], TorrentServerStatus.Conditions = []\<rparr>\<rparr>"

definition demo_secret :: Secret where
  "demo_secret =
     \<lparr>ObjectMeta.Name = ''creds'', Namespace = ''default'', DeletionTimestamp = None,
      Finalizers = [], Data = [''username'' \<mapsto> ''admin'', ''password'' \<mapsto> ''pw'']\<rparr>"

text \<open>A configuration that a reconcile at the instant \<open>now\<close> has found connected.\<close>

definition available_tcc :: "string \<Rightarrow> Time \<Rightarrow> TorrentClientConfiguration" where
  "available_tcc n now =
     (demo_tcc n)
       \<lparr>TorrentClientConfiguration.Status :=
          \<lparr>Connected = True, LastChecked = Some now, QBittorrentVersion = [],
           TorrentClientConfigurationStatus.Conditions =
             [newCondition ''Available'' now ''Connected''
                ''Successfully connected to qBittorrent at http://q:8080'']\<rparr>\<rparr>"

definition demo_calls :: "cond_call list" where
  "demo_calls =
     [SetDegraded 1 ''ClientResolutionFailed'' ''no TorrentClientConfiguration found in namespace default'',
      SetAvailable 2 ''TorrentActive'' ''Torrent is active on qBittorrent'']"

text \<open>
  Clusters: one holding a work item and no configuration; one holding a work item,
  one connected configuration and its secret; one holding a work item that refers
  to \<open>a\<close>, and two connected configurations \<open>a\<close> and \<open>b\<close>.  Work items: one with an explicit reference, one
  whose descriptor has no \<open>btih:\<close> marker, one whose deletion was requested after
  the engine had reported its hash.  A world whose engine refuses every delete.
\<close>

definition lonely_cluster :: cluster where
  "lonely_cluster = \<lparr>torrents = [demo_torrent], tccs = [], secrets = []\<rparr>"

definition served_cluster :: "Torrent \<Rightarrow> cluster" where
  "served_cluster torrent =
     \<lparr>torrents = [torrent], tccs = [available_tcc ''qb'' 0], secrets = [demo_secret]\<rparr>"

definition ref_torrent :: "string \<Rightarrow> Torrent" where
  "ref_torrent n =
     demo_torrent\<lparr>Torrent.Spec := (Torrent.Spec demo_torrent)\<lparr>ClientConfigRef := Some n\<rparr>\<rparr>"

definition two_tcc_cluster :: cluster where
  "two_tcc_cluster =
     \<lparr>torrents = [ref_torrent ''a''], tccs = [available_tcc ''a'' 0, available_tcc ''b'' 0],
      secrets = [demo_secret]\<rparr>"

definition bad_uri_torrent :: Torrent where
  "bad_uri_torrent =
     demo_torrent\<lparr>Torrent.Spec := (Torrent.Spec demo_torrent)
       \<lparr>MagnetURI := ''magnet:?xt=urn:sha1:ABCD''\<rparr>\<rparr>"

definition deleting_torrent :: Torrent where
  "deleting_torrent =
     demo_torrent\<lparr>DeletionTimestamp := Some 5,
       Torrent.Status := (Torrent.Status demo_torrent)
         \<lparr>TorrentStatus.Hash := ''dd8255ecdc7ca55fb0bbf81323d87062db1f6d1c''\<rparr>\<rparr>"

definition stubborn_world :: world where
  "stubborn_world =
     quiet_world\<lparr>DeleteTorrent := (\<lambda>c hash deleteFiles. Some (New ''engine unreachable''))\<rparr>"

text \<open>
  The outcome branches of a configuration reconcile, by the reason code each
  reports: the four degraded branches in the order of the checks, and the success
  branch.  \<open>status_write_line\<close> is the source line of the status write of the branch
  with a given reason code.  \<open>effective_interval\<close> is the check interval the reconcile
  re-queues after: the parsed \<open>spec.checkInterval\<close>, or 60 seconds when it is empty or
  does not parse.
\<close>

definition probe_reason ::
  "world \<Rightarrow> Time \<Rightarrow> cluster \<Rightarrow> runtime \<Rightarrow> TorrentClientConfiguration \<Rightarrow> string" where
  "probe_reason w now cl rt tcc =
     (case apiGet w 63 (secrets cl) ''secrets'' (Namespace tcc)
             (CredentialsSecret (TorrentClientConfiguration.Spec tcc)) of
        Inl e \<Rightarrow> ''SecretNotFound''
      | Inr secret \<Rightarrow>
          if Data secret ''username'' = None \<or> Data secret ''password'' = None
          then ''SecretInvalid''
          else
            (case fst (GetOrCreate w now rt
                         (TorrentClientConfigurationSpec.URL (TorrentClientConfiguration.Spec tcc))
                         (secret_string secret ''username'') (secret_string secret ''password'')) of
               Inl e \<Rightarrow> ''ClientCreationFailed''
             | Inr qbtClient \<Rightarrow>
                 (case Ping w qbtClient of
                    Some e \<Rightarrow> ''HealthCheckFailed''
                  | None \<Rightarrow> ''Connected'')))"

definition status_write_line :: "string \<Rightarrow> nat" where
  "status_write_line reason =
     (if reason = ''SecretNotFound'' then 69
      else if reason = ''SecretInvalid'' then 83
      else if reason = ''ClientCreationFailed'' then 102
      else if reason = ''HealthCheckFailed'' then 115
      else 128)"

definition effective_interval :: "world \<Rightarrow> TorrentClientConfiguration \<Rightarrow> Duration" where
  "effective_interval w tcc =
     (if CheckInterval (TorrentClientConfiguration.Spec tcc) = [] then 60 * Second
      else (case ParseDuration w (CheckInterval (TorrentClientConfiguration.Spec tcc)) of
              Inl e \<Rightarrow> 60 * Second
            | Inr parsed \<Rightarrow> parsed))"

text \<open>
  \<open>status_reports s now connected reason\<close>: the status \<open>s\<close> has \<open>lastChecked\<close> at the
  instant \<open>now\<close> (as read from the clock, or as it comes back from the API server)
  and \<open>connected\<close> as given, its condition of the matching type (\<open>Available\<close> when
  connected, \<open>Degraded\<close> when not) is true with the given reason, and it has no
  condition of the other type.  \<open>reports out now connected reason\<close>: the reconcile
  returned with an object of such a status.  \<open>stored_tcc\<close> is the configuration a
  \<open>Get\<close> of \<open>ns/name\<close> reads from the cluster.
\<close>

definition status_reports ::
  "TorrentClientConfigurationStatus \<Rightarrow> Time \<Rightarrow> bool \<Rightarrow> string \<Rightarrow> bool" where
  "status_reports s now connected reason \<longleftrightarrow>
     (LastChecked s = Some now \<or> LastChecked s = Some (wire_time now))
     \<and> Connected s = connected
     \<and> (case FindStatusCondition (TorrentClientConfigurationStatus.Conditions s)
                (if connected then ''Available'' else ''Degraded'') of
           None \<Rightarrow> False
         | Some c \<Rightarrow> Condition.Status c = ConditionTrue \<and> Reason c = reason)
     \<and> FindStatusCondition (TorrentClientConfigurationStatus.Conditions s)
           (if connected then ''Degraded'' else ''Available'') = None"

definition reports :: "TorrentClientConfiguration outcome \<Rightarrow> Time \<Rightarrow> bool \<Rightarrow> string \<Rightarrow> bool" where
  "reports out now connected reason \<longleftrightarrow>
     (case object out of
        None \<Rightarrow> False
      | Some obj \<Rightarrow> status_reports (TorrentClientConfiguration.Status obj) now connected reason)"

definition stored_tcc :: "cluster \<Rightarrow> string \<Rightarrow> string \<Rightarrow> TorrentClientConfiguration option" where
  "stored_tcc cl ns name =
     find (\<lambda>obj. Namespace obj = ns \<and> ObjectMeta.Name obj = name) (tccs cl)"

text \<open>
  Worlds for the branches: one whose engine fails the liveness probe and one whose
  API server refuses the status write of line 128; clusters without the secret and
  with a secret that lacks the password.
\<close>

definition unhealthy_world :: world where
  "unhealthy_world = quiet_world\<lparr>Ping := (\<lambda>c. Some (New ''connection refused''))\<rparr>"

definition conflicting_world :: world where
  "conflicting_world =
     quiet_world\<lparr>api_fault := (\<lambda>line. if line = 128 then Some (New ''conflict'') else None)\<rparr>"

definition config_cluster :: "Secret list \<Rightarrow> cluster" where
  "config_cluster ss = \<lparr>torrents = [], tccs = [demo_tcc ''qb''], secrets = ss\<rparr>"

definition half_secret :: Secret where
  "half_secret = demo_secret\<lparr>Data := [''username'' \<mapsto> ''admin'']\<rparr>"

section \<open>The client pool\<close>

lemma Sub_exact: "minDuration \<le> t - u \<Longrightarrow> t - u \<le> maxDuration \<Longrightarrow> Sub t u = t - u"
  by (simp add: Sub_def Let_def)

lemma Cleanup_ttl: "ttl (Cleanup now keys p) = ttl p"
  by (induction keys arbitrary: p) (auto split: option.splits)

lemma Cleanup_clients:
  "clients (Cleanup now keys p) k =
     (case clients p k of
        None \<Rightarrow> None
      | Some e \<Rightarrow> if k \<in> set keys \<and> Sub now (lastUsed e) > ttl p then None else Some e)"
proof (induction keys arbitrary: p)
  case Nil
  show ?case by (simp split: option.splits)
next
  case (Cons a keys)
  define q where "q = (case clients p a of None \<Rightarrow> p
        | Some entry \<Rightarrow> if Sub now (lastUsed entry) > ttl p then p\<lparr>clients := (clients p)(a := None)\<rparr> else p)"
  have t: "ttl q = ttl p" by (simp add: q_def split: option.splits)
  have c: "clients q k =
      (case clients p k of None \<Rightarrow> None
       | Some e \<Rightarrow> if k = a \<and> Sub now (lastUsed e) > ttl p then None else Some e)"
    by (auto simp: q_def split: option.splits)
  have "clients (Cleanup now (a # keys) p) k = clients (Cleanup now keys q) k"
    by (simp add: q_def)
  also have "\<dots> = (case clients q k of None \<Rightarrow> None
      | Some e \<Rightarrow> if k \<in> set keys \<and> Sub now (lastUsed e) > ttl q then None else Some e)"
    by (rule Cons.IH)
  also have "\<dots> = (case clients p k of None \<Rightarrow> None
      | Some e \<Rightarrow> if k \<in> set (a # keys) \<and> Sub now (lastUsed e) > ttl p then None else Some e)"
    by (simp add: c t split: option.splits)
  finally show ?case .
qed

lemma GetOrCreate_hit:
  assumes "clients (pool rt) (hashCredentials (sha256 w) url username password) = Some e"
    and "credHash e = hashCredentials (sha256 w) url username password"
  shows "GetOrCreate w now rt url username password =
           (Inr (client e),
            rt\<lparr>pool := (pool rt)\<lparr>clients := (clients (pool rt))
                   (hashCredentials (sha256 w) url username password \<mapsto> e\<lparr>lastUsed := now\<rparr>)\<rparr>,
               timers := timers rt @ [(hashCredentials (sha256 w) url username password,
                                       now + ttl (pool rt))]\<rparr>)"
  using assms by (simp add: GetOrCreate_def Let_def scheduleRemove_def)

lemma GetOrCreate_success_cached:
  assumes "GetOrCreate w now rt url username password = (Inr c, rt')"
  shows "cached rt' (hashCredentials (sha256 w) url username password) c now
         \<and> ttl (pool rt') = ttl (pool rt)"
  using assms
  by (auto simp: GetOrCreate_def Let_def scheduleRemove_def cached_def
      split: option.splits if_splits)

lemma cached_call:
  assumes "cached rt key c latest"
    and "hashCredentials (sha256 w) url' username' password' = key"
  shows "fst (GetOrCreate w now rt url' username' password') = Inr c
         \<and> cached (snd (GetOrCreate w now rt url' username' password')) key c now
         \<and> ttl (pool (snd (GetOrCreate w now rt url' username' password'))) = ttl (pool rt)
         \<and> logins (snd (GetOrCreate w now rt url' username' password')) = logins rt"
proof -
  from assms obtain e where e: "clients (pool rt) (hashCredentials (sha256 w) url' username' password') = Some e"
    and c: "client e = c" and h: "credHash e = hashCredentials (sha256 w) url' username' password'"
    by (auto simp: cached_def split: option.splits)
  show ?thesis
    using assms(2) by (simp add: GetOrCreate_hit [OF e h] c h cached_def)
qed

lemma cached_other_call:
  assumes "cached rt key c latest"
    and "hashCredentials (sha256 w) url' username' password' \<noteq> key"
    and "\<not> (url' = url \<and> username' = username \<and> password' = password)"
  shows "cached (snd (GetOrCreate w now rt url' username' password')) key c latest
         \<and> ttl (pool (snd (GetOrCreate w now rt url' username' password'))) = ttl (pool rt)
         \<and> logins_for url username password (logins (snd (GetOrCreate w now rt url' username' password')))
             = logins_for url username password (logins rt)"
  using assms
  by (auto simp: GetOrCreate_def Let_def scheduleRemove_def cached_def NewClient_def logins_for_def
      split: option.splits)

lemma cached_sweep:
  assumes "cached rt key c latest" and "Sub now latest \<le> ttl (pool rt)"
  shows "cached (rt\<lparr>pool := Cleanup now keys (pool rt)\<rparr>) key c latest"
  using assms by (auto simp: cached_def Cleanup_clients split: option.splits)

lemma cached_fire:
  assumes "cached rt key c latest" and "Sub now latest \<le> ttl (pool rt)"
  shows "cached (rt\<lparr>pool := timerFired now (pool rt) k, timers := ts\<rparr>) key c latest
         \<and> ttl (timerFired now (pool rt) k) = ttl (pool rt)"
  using assms by (auto simp: cached_def timerFired_def Remove_def split: option.splits)

lemma pool_run_cached:
  assumes "cached rt (hashCredentials (sha256 w) url username password) c latest"
    and "in_window (sha256 w) (ttl (pool rt)) url username password latest xs"
  shows "answers_to url username password xs (fst (pool_run w xs rt))
           = replicate (length (filter (for_triple url username password) xs)) (Inr c)
         \<and> length (fst (pool_run w xs rt)) = length (filter is_Call xs)
         \<and> logins_for url username password (logins (snd (pool_run w xs rt)))
             = logins_for url username password (logins rt)"
  using assms
proof (induction xs arbitrary: rt latest)
  case Nil
  show ?case by simp
next
  case (Cons x xs)
  let ?key = "hashCredentials (sha256 w) url username password"
  show ?case
  proof (cases x)
    case (Call url' username' password' now)
    define rt1 where "rt1 = snd (GetOrCreate w now rt url' username' password')"
    define r where "r = fst (GetOrCreate w now rt url' username' password')"
    have g: "GetOrCreate w now rt url' username' password' = (r, rt1)"
      by (simp add: rt1_def r_def)
    show ?thesis
    proof (cases "hashCredentials (sha256 w) url' username' password' = ?key")
      case True
      with Cons.prems(2) Call
      have win: "in_window (sha256 w) (ttl (pool rt)) url username password now xs" by simp
      note cc = cached_call [OF Cons.prems(1) True, where now = now]
      have r: "r = Inr c" and c1: "cached rt1 ?key c now" and t1: "ttl (pool rt1) = ttl (pool rt)"
        and l1: "logins rt1 = logins rt"
        using cc by (simp_all add: rt1_def r_def)
      from win t1 have win1: "in_window (sha256 w) (ttl (pool rt1)) url username password now xs" by simp
      note ih = Cons.IH [OF c1 win1]
      show ?thesis
        using ih by (simp add: Call g r l1 split_beta)
    next
      case False
      with Cons.prems(2) Call
      have win: "in_window (sha256 w) (ttl (pool rt)) url username password latest xs" by simp
      from False have ne: "\<not> (url' = url \<and> username' = username \<and> password' = password)" by auto
      note cc = cached_other_call [OF Cons.prems(1) False ne, where now = now]
      have c1: "cached rt1 ?key c latest" and t1: "ttl (pool rt1) = ttl (pool rt)"
        and l1: "logins_for url username password (logins rt1) = logins_for url username password (logins rt)"
        using cc by (simp_all add: rt1_def)
      from win t1 have win1: "in_window (sha256 w) (ttl (pool rt1)) url username password latest xs" by simp
      note ih = Cons.IH [OF c1 win1]
      show ?thesis
        using ih ne by (auto simp: Call g l1 split_beta)
    qed
  next
    case (Sweep keys now)
    with Cons.prems(2) have s: "Sub now latest \<le> ttl (pool rt)"
      and win: "in_window (sha256 w) (ttl (pool rt)) url username password latest xs" by simp_all
    define rt1 where "rt1 = rt\<lparr>pool := Cleanup now keys (pool rt)\<rparr>"
    have c1: "cached rt1 ?key c latest" unfolding rt1_def by (rule cached_sweep [OF Cons.prems(1) s])
    have t1: "ttl (pool rt1) = ttl (pool rt)" by (simp add: rt1_def Cleanup_ttl)
    from win t1 have win1: "in_window (sha256 w) (ttl (pool rt1)) url username password latest xs" by simp
    note ih = Cons.IH [OF c1 win1]
    show ?thesis
      using ih by (simp add: Sweep rt1_def [symmetric] split_beta) (simp add: rt1_def)
  next
    case (Fire k due now)
    with Cons.prems(2) have s: "Sub now latest \<le> ttl (pool rt)"
      and win: "in_window (sha256 w) (ttl (pool rt)) url username password latest xs" by simp_all
    show ?thesis
    proof (cases "(k, due) \<in> set (timers rt) \<and> due \<le> now")
      case True
      define rt1 where "rt1 = rt\<lparr>pool := timerFired now (pool rt) k, timers := remove1 (k, due) (timers rt)\<rparr>"
      note cf = cached_fire [OF Cons.prems(1) s, where k = k and ts = "remove1 (k, due) (timers rt)"]
      have c1: "cached rt1 ?key c latest" unfolding rt1_def using cf by simp
      have t1: "ttl (pool rt1) = ttl (pool rt)" using cf by (simp add: rt1_def)
      from win t1 have win1: "in_window (sha256 w) (ttl (pool rt1)) url username password latest xs" by simp
      note ih = Cons.IH [OF c1 win1]
      show ?thesis
        using ih True by (simp add: Fire rt1_def [symmetric] split_beta) (simp add: rt1_def)
    next
      case False
      note ih = Cons.IH [OF Cons.prems(1) win]
      show ?thesis using ih False by (auto simp: Fire split_beta)
    qed
  qed
qed

text \<open>
  C3.  After a \<open>GetOrCreate\<close> call for a triple has returned a session handle, every
  further call for the same triple returns that same handle, and no \<open>Login\<close> is made
  and no client constructed for the triple, whatever calls for other triples, sweeps
  and timer firings the shared pool sees in between, as long as every step of the
  history happens no later than the TTL after the latest call that used the triple's
  pool key.  A call that finds the entry changes nothing of the pool but the
  entry's \<open>lastUsed\<close>; it also arms an eviction timer.
\<close>

theorem GetOrCreate_reuses_session:
  assumes "GetOrCreate w t0 rt0 url username password = (Inr c, rt1)"
    and "in_window (sha256 w) (ttl (pool rt0)) url username password t0 xs"
  shows "answers_to url username password xs (fst (pool_run w xs rt1))
           = replicate (length (filter (for_triple url username password) xs)) (Inr c)
         \<and> length (fst (pool_run w xs rt1)) = length (filter is_Call xs)
         \<and> logins_for url username password (logins (snd (pool_run w xs rt1)))
             = logins_for url username password (logins rt1)
         \<and> (\<exists>e. clients (pool rt1) (hashCredentials (sha256 w) url username password) = Some e
               \<and> client e = c
               \<and> GetOrCreate w now rt1 url username password =
                   (Inr c,
                    rt1\<lparr>pool := (pool rt1)\<lparr>clients := (clients (pool rt1))
                           (hashCredentials (sha256 w) url username password \<mapsto> e\<lparr>lastUsed := now\<rparr>)\<rparr>,
                        timers := timers rt1 @ [(hashCredentials (sha256 w) url username password,
                                                 now + ttl (pool rt1))]\<rparr>))"
proof -
  let ?key = "hashCredentials (sha256 w) url username password"
  from GetOrCreate_success_cached [OF assms(1)]
  have c: "cached rt1 ?key c t0" and t: "ttl (pool rt1) = ttl (pool rt0)" by simp_all
  from assms(2) t have win: "in_window (sha256 w) (ttl (pool rt1)) url username password t0 xs" by simp
  note run = pool_run_cached [OF c win]
  from c obtain e where e: "clients (pool rt1) ?key = Some e"
    and ce: "client e = c" and h: "credHash e = ?key"
    by (auto simp: cached_def split: option.splits)
  have "GetOrCreate w now rt1 url username password =
          (Inr c, rt1\<lparr>pool := (pool rt1)\<lparr>clients := (clients (pool rt1))(?key \<mapsto> e\<lparr>lastUsed := now\<rparr>)\<rparr>,
                      timers := timers rt1 @ [(?key, now + ttl (pool rt1))]\<rparr>)"
    using GetOrCreate_hit [OF e h] ce by simp
  with e ce run show ?thesis by blast
qed

lemma demo_keys_differ:
  "hashCredentials (\<lambda>s. s) ''http://r:8080'' ''root'' ''secret''
     \<noteq> hashCredentials (\<lambda>s. s) ''http://q:8080'' ''admin'' ''pw''"
  by (simp add: hashCredentials_def hex_def hexdigit_def)

theorem GetOrCreate_reuses_session_witness:
  "fst (GetOrCreate quiet_world 0 (fresh_runtime (300 * Second)) ''http://q:8080'' ''admin'' ''pw'')
     = Inr demo_client
   \<and> in_window (sha256 quiet_world) (300 * Second) ''http://q:8080'' ''admin'' ''pw'' 0 demo_history
   \<and> answers_to ''http://q:8080'' ''admin'' ''pw'' demo_history
        (fst (pool_run quiet_world demo_history
           (snd (GetOrCreate quiet_world 0 (fresh_runtime (300 * Second)) ''http://q:8080'' ''admin'' ''pw''))))
       = [Inr demo_client, Inr demo_client]
   \<and> length (fst (pool_run quiet_world demo_history
        (snd (GetOrCreate quiet_world 0 (fresh_runtime (300 * Second)) ''http://q:8080'' ''admin'' ''pw''))))
       = 3
   \<and> logins_for ''http://q:8080'' ''admin'' ''pw'' (logins (snd (pool_run quiet_world demo_history
        (snd (GetOrCreate quiet_world 0 (fresh_runtime (300 * Second)) ''http://q:8080'' ''admin'' ''pw'')))))
       = [(demo_client, ''admin'', ''pw'')]"
proof -
  let ?rt0 = "fresh_runtime (300 * Second)"
  let ?g = "GetOrCreate quiet_world 0 ?rt0 ''http://q:8080'' ''admin'' ''pw''"
  have f: "fst ?g = Inr demo_client"
    by (simp add: GetOrCreate_def quiet_world_def fresh_runtime_def NewClientPool_def
        NewClient_def demo_client_def Let_def)
  have l: "logins (snd ?g) = [(demo_client, ''admin'', ''pw'')]"
    by (simp add: GetOrCreate_def quiet_world_def fresh_runtime_def NewClientPool_def
        NewClient_def demo_client_def Let_def scheduleRemove_def)
  have g: "?g = (Inr demo_client, snd ?g)" using f by (simp add: prod_eq_iff)
  have t: "ttl (pool ?rt0) = 300 * Second" by (simp add: fresh_runtime_def NewClientPool_def)
  have s: "sha256 quiet_world = (\<lambda>s. s)" by (simp add: quiet_world_def)
  have win: "in_window (sha256 quiet_world) (300 * Second) ''http://q:8080'' ''admin'' ''pw'' 0 demo_history"
    unfolding s
    by (simp add: demo_history_def demo_keys_differ Sub_def Second_def maxDuration_def
        minDuration_def Let_def)
  from win t have win': "in_window (sha256 quiet_world) (ttl (pool ?rt0)) ''http://q:8080'' ''admin'' ''pw'' 0 demo_history"
    by simp
  note r = GetOrCreate_reuses_session [OF g win', of 0]
  have n: "length (filter (for_triple ''http://q:8080'' ''admin'' ''pw'') demo_history) = 2"
    "length (filter is_Call demo_history) = 3"
    by (simp_all add: demo_history_def)
  have rep: "replicate 2 (Inr demo_client :: error + Client) = [Inr demo_client, Inr demo_client]"
    by (simp add: numeral_2_eq_2)
  have lf: "logins_for ''http://q:8080'' ''admin'' ''pw'' [(demo_client, ''admin'', ''pw'')]
              = [(demo_client, ''admin'', ''pw'')]"
    by (simp add: logins_for_def demo_client_def)
  from r n rep l lf f win show ?thesis by simp
qed

text \<open>
  C4 (as amended).  A sweep at the instant \<open>now\<close>, whatever the order in which it
  visits the keys of the map, removes an entry if and only if the time since its
  last use is strictly greater than the TTL; every other entry, so also one whose
  idle time equals the TTL exactly, is kept unchanged.  The TTL is unchanged.
\<close>

theorem Cleanup_removes_exactly_the_expired:
  assumes "set keys = dom (clients p)"
  shows "clients (Cleanup now keys p) k =
           (case clients p k of
              None \<Rightarrow> None
            | Some e \<Rightarrow> if Sub now (lastUsed e) > ttl p then None else Some e)
         \<and> ttl (Cleanup now keys p) = ttl p"
proof (cases "clients p k")
  case None
  then show ?thesis by (simp add: Cleanup_clients Cleanup_ttl)
next
  case (Some e)
  then have "k \<in> set keys" using assms by auto
  with Some show ?thesis by (simp add: Cleanup_clients Cleanup_ttl)
qed

theorem Cleanup_removes_exactly_the_expired_witness:
  "set [''old'', ''new''] = dom (clients test_pool)
   \<and> clients (Cleanup 0 [''old'', ''new''] test_pool) ''old'' = None
   \<and> clients (Cleanup 0 [''old'', ''new''] test_pool) ''new'' =
       Some \<lparr>client = demo_client, credHash = ''hash2'', lastUsed = 0\<rparr>
   \<and> set [''k''] = dom (clients boundary_pool)
   \<and> clients (Cleanup (5 * Second) [''k''] boundary_pool) ''k'' =
       Some \<lparr>client = demo_client, credHash = ''k'', lastUsed = 0\<rparr>"
proof -
  have d: "set [''old'', ''new''] = dom (clients test_pool)"
    by (auto simp: test_pool_def)
  have d2: "set [''k''] = dom (clients boundary_pool)"
    by (auto simp: boundary_pool_def)
  have a: "clients (Cleanup 0 [''old'', ''new''] test_pool) ''old'' = None"
    using Cleanup_removes_exactly_the_expired [OF d, of 0 "''old''"]
    by (simp add: test_pool_def Sub_def Second_def maxDuration_def minDuration_def Let_def)
  have b: "clients (Cleanup 0 [''old'', ''new''] test_pool) ''new'' =
       Some \<lparr>client = demo_client, credHash = ''hash2'', lastUsed = 0\<rparr>"
    using Cleanup_removes_exactly_the_expired [OF d, of 0 "''new''"]
    by (simp add: test_pool_def Sub_def Second_def maxDuration_def minDuration_def Let_def)
  have c: "clients (Cleanup (5 * Second) [''k''] boundary_pool) ''k'' =
       Some \<lparr>client = demo_client, credHash = ''k'', lastUsed = 0\<rparr>"
    using Cleanup_removes_exactly_the_expired [OF d2, of "5 * Second" "''k''"]
    by (simp add: boundary_pool_def Sub_def Second_def maxDuration_def minDuration_def Let_def)
  from d d2 a b c show ?thesis by blast
qed

text \<open>
  C4 as stated fails: an entry idle for exactly the TTL survives the sweep.
\<close>

theorem Cleanup_keeps_idle_equal_ttl_counterexample:
  "Sub (5 * Second) 0 = ttl boundary_pool
   \<and> clients boundary_pool ''k'' = Some \<lparr>client = demo_client, credHash = ''k'', lastUsed = 0\<rparr>
   \<and> clients (Cleanup (5 * Second) [''k''] boundary_pool) ''k''
       = Some \<lparr>client = demo_client, credHash = ''k'', lastUsed = 0\<rparr>"
  by (simp add: boundary_pool_def Sub_def Second_def maxDuration_def minDuration_def Let_def)

text \<open>
  C5 as stated fails: the error \<open>GetOrCreate\<close> returns is not the error of \<open>Login\<close>
  but a new error that wraps it, with a message naming the credentials and the URL.
\<close>

theorem GetOrCreate_wraps_login_error_counterexample:
  "Login refusing_world (NewClient 0 ''http://q:8080'') ''admin'' ''pw'' = Some (New ''Forbidden'')
   \<and> fst (GetOrCreate refusing_world 0 (fresh_runtime (300 * Second)) ''http://q:8080'' ''admin'' ''pw'')
     = Inl (Wrap ''failed to login for credentials[admin, pw] url[http://q:8080]: Forbidden''
              (New ''Forbidden''))
   \<and> fst (GetOrCreate refusing_world 0 (fresh_runtime (300 * Second)) ''http://q:8080'' ''admin'' ''pw'')
     \<noteq> Inl (New ''Forbidden'')"
  by (simp add: GetOrCreate_def refusing_world_def quiet_world_def fresh_runtime_def
      NewClientPool_def NewClient_def Let_def)

text \<open>
  C5 (as amended).  Whenever \<open>GetOrCreate\<close> returns an error, the pool (its map and
  TTL) and the armed timers are as before the call, and the error wraps the error
  of the \<open>Login\<close> it made: its message is
  \<open>failed to login for credentials[username, password] url[url]: \<close> followed by that
  error's message.  Whenever the key is not in the pool and \<open>Login\<close> fails, this is
  what happens; the process state differs only by the client constructed and the
  \<open>Login\<close> call made.
\<close>

theorem GetOrCreate_failure_not_cached:
  "(fst (GetOrCreate w now rt url username password) = Inl e' \<longrightarrow>
      pool (snd (GetOrCreate w now rt url username password)) = pool rt
      \<and> timers (snd (GetOrCreate w now rt url username password)) = timers rt
      \<and> (\<exists>e. Login w (NewClient (next_ptr rt) url) username password = Some e
              \<and> e' = Wrap (''failed to login for credentials['' @ username @ '', '' @ password
                             @ ''] url['' @ url @ '']: '' @ Error e) e))
   \<and> ((case clients (pool rt) (hashCredentials (sha256 w) url username password) of
          None \<Rightarrow> True
        | Some entry \<Rightarrow> credHash entry \<noteq> hashCredentials (sha256 w) url username password)
       \<and> Login w (NewClient (next_ptr rt) url) username password = Some e \<longrightarrow>
      GetOrCreate w now rt url username password =
        (Inl (Wrap (''failed to login for credentials['' @ username @ '', '' @ password
                    @ ''] url['' @ url @ '']: '' @ Error e) e),
         rt\<lparr>next_ptr := Suc (next_ptr rt),
            logins := logins rt @ [(NewClient (next_ptr rt) url, username, password)]\<rparr>))"
  by (auto simp: GetOrCreate_def Let_def scheduleRemove_def split: option.splits if_splits)

theorem GetOrCreate_failure_not_cached_witness:
  "clients (pool (fresh_runtime (300 * Second)))
       (hashCredentials (sha256 refusing_world) ''http://q:8080'' ''admin'' ''pw'') = None
   \<and> Login refusing_world (NewClient 0 ''http://q:8080'') ''admin'' ''pw'' = Some (New ''Forbidden'')
   \<and> fst (GetOrCreate refusing_world 0 (fresh_runtime (300 * Second)) ''http://q:8080'' ''admin'' ''pw'')
       = Inl (Wrap ''failed to login for credentials[admin, pw] url[http://q:8080]: Forbidden''
                (New ''Forbidden''))
   \<and> pool (snd (GetOrCreate refusing_world 0 (fresh_runtime (300 * Second))
                  ''http://q:8080'' ''admin'' ''pw''))
       = NewClientPool (300 * Second)"
proof -
  let ?rt = "fresh_runtime (300 * Second)"
  have m: "clients (pool ?rt) (hashCredentials (sha256 refusing_world) ''http://q:8080'' ''admin'' ''pw'') = None"
    by (simp add: fresh_runtime_def NewClientPool_def)
  have n: "next_ptr ?rt = 0" by (simp add: fresh_runtime_def)
  have l: "Login refusing_world (NewClient 0 ''http://q:8080'') ''admin'' ''pw'' = Some (New ''Forbidden'')"
    by (simp add: refusing_world_def quiet_world_def)
  have h: "(case clients (pool ?rt) (hashCredentials (sha256 refusing_world) ''http://q:8080'' ''admin'' ''pw'') of
          None \<Rightarrow> True
        | Some entry \<Rightarrow> credHash entry \<noteq> hashCredentials (sha256 refusing_world) ''http://q:8080'' ''admin'' ''pw'')
       \<and> Login refusing_world (NewClient (next_ptr ?rt) ''http://q:8080'') ''admin'' ''pw'' = Some (New ''Forbidden'')"
    using m l n by simp
  note inst = GetOrCreate_failure_not_cached
    [where w = refusing_world and now = 0 and rt = ?rt and url = "''http://q:8080''"
       and username = "''admin''" and password = "''pw''" and e = "New ''Forbidden''"
       and e' = "Wrap ''failed to login for credentials[admin, pw] url[http://q:8080]: Forbidden''
                (New ''Forbidden'')"]
  from inst h have g: "GetOrCreate refusing_world 0 ?rt ''http://q:8080'' ''admin'' ''pw'' =
        (Inl (Wrap (''failed to login for credentials['' @ ''admin'' @ '', '' @ ''pw''
                    @ ''] url['' @ ''http://q:8080'' @ '']: '' @ Error (New ''Forbidden'')) (New ''Forbidden'')),
         ?rt\<lparr>next_ptr := Suc (next_ptr ?rt),
            logins := logins ?rt @ [(NewClient (next_ptr ?rt) ''http://q:8080'', ''admin'', ''pw'')]\<rparr>)"
    by blast
  have f: "fst (GetOrCreate refusing_world 0 ?rt ''http://q:8080'' ''admin'' ''pw'')
       = Inl (Wrap ''failed to login for credentials[admin, pw] url[http://q:8080]: Forbidden''
                (New ''Forbidden''))"
    by (simp add: g)
  from inst f have p: "pool (snd (GetOrCreate refusing_world 0 ?rt ''http://q:8080'' ''admin'' ''pw'')) = pool ?rt"
    by blast
  have "pool ?rt = NewClientPool (300 * Second)" by (simp add: fresh_runtime_def)
  with m l f p show ?thesis by simp
qed

section \<open>Status conditions\<close>

lemma updateExisting_Type: "Type (updateExisting now c n) = Type c"
  by (simp add: updateExisting_def Let_def)

lemma SetStatusCondition_types:
  "map Type (SetStatusCondition now cs n) =
     (if Type n \<in> set (map Type cs) then map Type cs else map Type cs @ [Type n])"
  by (induction cs) (auto simp: updateExisting_Type)

lemma RemoveStatusCondition_types:
  "map Type (RemoveStatusCondition cs t) = filter (\<lambda>x. x \<noteq> t) (map Type cs)"
  by (simp add: RemoveStatusCondition_def filter_map comp_def)

lemma types_SetAvailable:
  "map Type (call_conditions (SetAvailable now reason message) cs) =
     filter (\<lambda>x. x \<noteq> ''Degraded'')
       (if ''Available'' \<in> set (map Type cs) then map Type cs else map Type cs @ [''Available''])"
  by (simp only: call_conditions.simps RemoveStatusCondition_types
        SetStatusCondition_types newCondition_def Condition.simps)

lemma types_SetDegraded:
  "map Type (call_conditions (SetDegraded now reason message) cs) =
     filter (\<lambda>x. x \<noteq> ''Available'')
       (if ''Degraded'' \<in> set (map Type cs) then map Type cs else map Type cs @ [''Degraded''])"
  by (simp only: call_conditions.simps RemoveStatusCondition_types
        SetStatusCondition_types newCondition_def Condition.simps)

lemmas call_conditions_types = types_SetAvailable types_SetDegraded

lemma distinct_subset_single:
  "distinct xs \<Longrightarrow> set xs \<subseteq> {d} \<Longrightarrow> xs = [] \<or> xs = [d]"
proof (induction xs)
  case Nil
  then show ?case by simp
next
  case (Cons a xs)
  then have "a = d" by simp
  moreover from Cons have "xs = [] \<or> xs = [d]" by simp
  moreover from Cons.prems \<open>a = d\<close> have "d \<notin> set xs" by simp
  ultimately show ?case by auto
qed

lemma call_conditions_present:
  "call_type call \<in> set (map Type (call_conditions call cs))
   \<and> (if call_type call = ''Available'' then ''Degraded'' else ''Available'')
       \<notin> set (map Type (call_conditions call cs))"
  by (cases call) (auto simp del: call_conditions.simps set_map simp add: call_conditions_types)

lemma call_conditions_single:
  assumes "availability_only cs"
  shows "map Type (call_conditions call cs) = [call_type call]"
proof -
  from assms have d: "distinct (map Type cs)" and s: "set (map Type cs) \<subseteq> {''Available'', ''Degraded''}"
    by (simp_all add: availability_only_def)
  let ?ts = "map Type (call_conditions call cs)"
  have d': "distinct ?ts" using d by (cases call) (auto simp del: call_conditions.simps set_map simp add: call_conditions_types)
  have s': "set ?ts \<subseteq> {call_type call}" using s by (cases call) (auto simp del: call_conditions.simps set_map simp add: call_conditions_types)
  from distinct_subset_single [OF d' s'] call_conditions_present [of call cs]
  show ?thesis by auto
qed

lemma availability_only_single: "map Type cs = [t] \<Longrightarrow> t = ''Available'' \<or> t = ''Degraded'' \<Longrightarrow> availability_only cs"
  by (auto simp: availability_only_def)

lemma call_type_cases: "call_type call = ''Available'' \<or> call_type call = ''Degraded''"
  by (cases call) simp_all

lemma call_conditions_keeps: "availability_only cs \<Longrightarrow> availability_only (call_conditions call cs)"
  using call_conditions_single availability_only_single call_type_cases by blast

lemma fold_call_conditions_keeps:
  "availability_only cs \<Longrightarrow> availability_only (fold call_conditions calls cs)"
  by (induction calls arbitrary: cs) (simp_all add: call_conditions_keeps)

lemma fold_call_conditions_last:
  assumes "availability_only cs" and "calls \<noteq> []"
  shows "map Type (fold call_conditions calls cs) = [call_type (last calls)]"
proof -
  from assms(2) obtain ys y where c: "calls = ys @ [y]" by (metis rev_exhaust)
  have "availability_only (fold call_conditions ys cs)"
    by (rule fold_call_conditions_keeps [OF assms(1)])
  then show ?thesis by (simp add: c call_conditions_single)
qed

lemma fold_call_conditions_present:
  assumes "calls \<noteq> []"
  shows "call_type (last calls) \<in> set (map Type (fold call_conditions calls cs))
   \<and> (if call_type (last calls) = ''Available'' then ''Degraded'' else ''Available'')
       \<notin> set (map Type (fold call_conditions calls cs))"
proof -
  from assms obtain ys y where c: "calls = ys @ [y]" by (metis rev_exhaust)
  show ?thesis using call_conditions_present [of y "fold call_conditions ys cs"] by (simp add: c)
qed

lemma call_Torrent_conditions:
  "TorrentStatus.Conditions (Torrent.Status (call_Torrent call torrent)) =
     call_conditions call (TorrentStatus.Conditions (Torrent.Status torrent))"
  by (cases call)
     (simp_all add: TorrentReconciler_setAvailableCondition_def
        TorrentReconciler_setDegradedCondition_def Let_def
        TypeAvailableTorrent_def TypeDegradedTorrent_def)

lemma call_TCC_conditions:
  "TorrentClientConfigurationStatus.Conditions (TorrentClientConfiguration.Status (call_TCC call tcc)) =
     call_conditions call (TorrentClientConfigurationStatus.Conditions (TorrentClientConfiguration.Status tcc))"
  by (cases call)
     (simp_all add: TorrentClientConfigurationReconciler_setAvailableCondition_def
        TorrentClientConfigurationReconciler_setDegradedCondition_def Let_def
        TypeAvailableTCC_def TypeDegradedTCC_def)

lemma call_TorrentServer_conditions:
  "TorrentServerStatus.Conditions (TorrentServer.Status (call_TorrentServer call ts)) =
     call_conditions call (TorrentServerStatus.Conditions (TorrentServer.Status ts))"
  by (cases call)
     (simp_all add: TorrentServerReconciler_setAvailableCondition_def
        TorrentServerReconciler_setDegradedCondition_def Let_def
        TypeAvailableTorrentServer_def TypeDegradedTorrentServer_def)

lemma fold_call_Torrent:
  "TorrentStatus.Conditions (Torrent.Status (fold call_Torrent calls torrent)) =
     fold call_conditions calls (TorrentStatus.Conditions (Torrent.Status torrent))"
  by (induction calls arbitrary: torrent) (simp_all add: call_Torrent_conditions)

lemma fold_call_TCC:
  "TorrentClientConfigurationStatus.Conditions (TorrentClientConfiguration.Status (fold call_TCC calls tcc)) =
     fold call_conditions calls (TorrentClientConfigurationStatus.Conditions (TorrentClientConfiguration.Status tcc))"
  by (induction calls arbitrary: tcc) (simp_all add: call_TCC_conditions)

lemma fold_call_TorrentServer:
  "TorrentServerStatus.Conditions (TorrentServer.Status (fold call_TorrentServer calls ts)) =
     fold call_conditions calls (TorrentServerStatus.Conditions (TorrentServer.Status ts))"
  by (induction calls arbitrary: ts) (simp_all add: call_TorrentServer_conditions)

text \<open>
  C6.  Take an object of any of the three kinds (work item, configuration, managed
  server) and any non-empty sequence of \<open>setAvailableCondition\<close> and
  \<open>setDegradedCondition\<close> calls on it.  After the last call the type of that call
  is in the condition list and the other of \<open>Available\<close> and \<open>Degraded\<close> is not:
  the two never co-exist.  If the list the sequence started from held no type twice
  and no type but these two (the empty list of a new object does), the list now has
  length exactly 1, and its one condition has the type of the last call.
\<close>

theorem setting_a_condition_leaves_exactly_one:
  assumes "calls \<noteq> []"
  shows
    "(availability_only (TorrentStatus.Conditions (Torrent.Status torrent)) \<longrightarrow>
        length (TorrentStatus.Conditions (Torrent.Status (fold call_Torrent calls torrent))) = 1
        \<and> map Type (TorrentStatus.Conditions (Torrent.Status (fold call_Torrent calls torrent)))
            = [call_type (last calls)])
     \<and> (availability_only
          (TorrentClientConfigurationStatus.Conditions (TorrentClientConfiguration.Status tcc)) \<longrightarrow>
        length (TorrentClientConfigurationStatus.Conditions
                  (TorrentClientConfiguration.Status (fold call_TCC calls tcc))) = 1
        \<and> map Type (TorrentClientConfigurationStatus.Conditions
                      (TorrentClientConfiguration.Status (fold call_TCC calls tcc)))
            = [call_type (last calls)])
     \<and> (availability_only (TorrentServerStatus.Conditions (TorrentServer.Status ts)) \<longrightarrow>
        length (TorrentServerStatus.Conditions
                  (TorrentServer.Status (fold call_TorrentServer calls ts))) = 1
        \<and> map Type (TorrentServerStatus.Conditions
                      (TorrentServer.Status (fold call_TorrentServer calls ts)))
            = [call_type (last calls)])
     \<and> call_type (last calls)
          \<in> set (map Type (TorrentStatus.Conditions (Torrent.Status (fold call_Torrent calls torrent))))
     \<and> (if call_type (last calls) = ''Available'' then ''Degraded'' else ''Available'')
          \<notin> set (map Type (TorrentStatus.Conditions (Torrent.Status (fold call_Torrent calls torrent))))
     \<and> call_type (last calls)
          \<in> set (map Type (TorrentClientConfigurationStatus.Conditions
                              (TorrentClientConfiguration.Status (fold call_TCC calls tcc))))
     \<and> (if call_type (last calls) = ''Available'' then ''Degraded'' else ''Available'')
          \<notin> set (map Type (TorrentClientConfigurationStatus.Conditions
                              (TorrentClientConfiguration.Status (fold call_TCC calls tcc))))
     \<and> call_type (last calls)
          \<in> set (map Type (TorrentServerStatus.Conditions
                              (TorrentServer.Status (fold call_TorrentServer calls ts))))
     \<and> (if call_type (last calls) = ''Available'' then ''Degraded'' else ''Available'')
          \<notin> set (map Type (TorrentServerStatus.Conditions
                              (TorrentServer.Status (fold call_TorrentServer calls ts))))"
proof -
  have one: "\<And>cs. availability_only cs \<Longrightarrow>
      length (fold call_conditions calls cs) = 1
      \<and> map Type (fold call_conditions calls cs) = [call_type (last calls)]"
  proof -
    fix cs assume "availability_only cs"
    then have m: "map Type (fold call_conditions calls cs) = [call_type (last calls)]"
      using assms by (rule fold_call_conditions_last)
    have "length (fold call_conditions calls cs) = length (map Type (fold call_conditions calls cs))"
      by simp
    also have "\<dots> = 1" unfolding m by simp
    finally have "length (fold call_conditions calls cs) = 1" .
    with m show "length (fold call_conditions calls cs) = 1
      \<and> map Type (fold call_conditions calls cs) = [call_type (last calls)]" by simp
  qed
  note pres = fold_call_conditions_present [OF assms]
  show ?thesis
    unfolding fold_call_Torrent fold_call_TCC fold_call_TorrentServer
    using one pres by blast
qed

theorem setting_a_condition_leaves_exactly_one_witness:
  "demo_calls \<noteq> []
   \<and> availability_only (TorrentStatus.Conditions (Torrent.Status demo_torrent))
   \<and> availability_only
       (TorrentClientConfigurationStatus.Conditions (TorrentClientConfiguration.Status (demo_tcc ''qb'')))
   \<and> availability_only (TorrentServerStatus.Conditions (TorrentServer.Status demo_ts))
   \<and> length (TorrentStatus.Conditions (Torrent.Status (fold call_Torrent demo_calls demo_torrent))) = 1
   \<and> map Type (TorrentStatus.Conditions (Torrent.Status (fold call_Torrent demo_calls demo_torrent)))
       = [''Available'']
   \<and> map Type (TorrentClientConfigurationStatus.Conditions
                 (TorrentClientConfiguration.Status (fold call_TCC demo_calls (demo_tcc ''qb''))))
       = [''Available'']
   \<and> map Type (TorrentServerStatus.Conditions
                 (TorrentServer.Status (fold call_TorrentServer demo_calls demo_ts)))
       = [''Available'']"
proof -
  have n: "demo_calls \<noteq> []" by (simp add: demo_calls_def)
  have l: "call_type (last demo_calls) = ''Available''" by (simp add: demo_calls_def)
  have a1: "availability_only (TorrentStatus.Conditions (Torrent.Status demo_torrent))"
    by (simp add: availability_only_def demo_torrent_def)
  have a2: "availability_only
       (TorrentClientConfigurationStatus.Conditions (TorrentClientConfiguration.Status (demo_tcc ''qb'')))"
    by (simp add: availability_only_def demo_tcc_def)
  have a3: "availability_only (TorrentServerStatus.Conditions (TorrentServer.Status demo_ts))"
    by (simp add: availability_only_def demo_ts_def)
  note inst = setting_a_condition_leaves_exactly_one
    [OF n, where torrent = demo_torrent and tcc = "demo_tcc ''qb''" and ts = demo_ts]
  from inst n a1 a2 a3 show ?thesis unfolding l by blast
qed

section \<open>Identifier extraction\<close>

lemma occurs_at_0: "occurs_at s substr 0 \<longleftrightarrow> take (length substr) s = substr"
proof
  assume "occurs_at s substr 0"
  then show "take (length substr) s = substr" by (simp add: occurs_at_def)
next
  assume a: "take (length substr) s = substr"
  have "length (take (length substr) s) = min (length substr) (length s)" by simp
  with a have "length substr \<le> length s" by simp
  with a show "occurs_at s substr 0" by (simp add: occurs_at_def)
qed

lemma occurs_at_Suc: "occurs_at (c # s) substr (Suc i) \<longleftrightarrow> occurs_at s substr i"
  by (simp add: occurs_at_def)

lemma Index_ge: "- 1 \<le> Index s substr"
  by (induction s) (simp_all add: Let_def)

lemma Index_Cons_miss:
  "take (length substr) (c # s) \<noteq> substr \<Longrightarrow>
   Index (c # s) substr = (if Index s substr = - 1 then - 1 else Index s substr + 1)"
  by (simp add: Let_def)

lemma Index_first:
  "Index s substr = int n \<longleftrightarrow> occurs_at s substr n \<and> (\<forall>i<n. \<not> occurs_at s substr i)"
proof (induction s arbitrary: n)
  case Nil
  show ?case by (cases "substr = []") (auto simp: occurs_at_def)
next
  case (Cons c s)
  show ?case
  proof (cases "take (length substr) (c # s) = substr")
    case True
    then have o: "occurs_at (c # s) substr 0" using occurs_at_0 by blast
    have i0: "Index (c # s) substr = 0" using True by simp
    show ?thesis
    proof (cases n)
      case 0
      with o i0 show ?thesis by simp
    next
      case (Suc m)
      with o i0 show ?thesis by auto
    qed
  next
    case False
    then have no0: "\<not> occurs_at (c # s) substr 0" using occurs_at_0 by blast
    note ix = Index_Cons_miss [OF False]
    show ?thesis
    proof (cases n)
      case 0
      have "Index (c # s) substr \<noteq> 0"
        using Index_ge [of s substr] by (simp only: ix split: if_splits) presburger
      with no0 0 show ?thesis by simp
    next
      case (Suc m)
      have "Index (c # s) substr = int (Suc m) \<longleftrightarrow> Index s substr = int m"
        by (simp only: ix split: if_splits) auto
      also have "\<dots> \<longleftrightarrow> occurs_at s substr m \<and> (\<forall>i<m. \<not> occurs_at s substr i)"
        by (rule Cons.IH)
      also have "\<dots> \<longleftrightarrow> occurs_at (c # s) substr (Suc m) \<and> (\<forall>i<Suc m. \<not> occurs_at (c # s) substr i)"
        using no0 by (simp add: occurs_at_Suc All_less_Suc2)
      finally show ?thesis using Suc by simp
    qed
  qed
qed


lemma Index_none: "Index s substr = - 1 \<longleftrightarrow> (\<forall>i. \<not> occurs_at s substr i)"
proof
  assume a: "Index s substr = - 1"
  show "\<forall>i. \<not> occurs_at s substr i"
  proof (rule ccontr)
    assume "\<not> (\<forall>i. \<not> occurs_at s substr i)"
    then have ex: "\<exists>i. occurs_at s substr i" by blast
    define n where "n = (LEAST i. occurs_at s substr i)"
    have "occurs_at s substr n" unfolding n_def using ex by (rule LeastI_ex)
    moreover have "\<forall>i<n. \<not> occurs_at s substr i"
      unfolding n_def using not_less_Least by blast
    ultimately have "Index s substr = int n" by (simp only: Index_first)
    with a show False by simp
  qed
next
  assume a: "\<forall>i. \<not> occurs_at s substr i"
  have "Index s substr < 0"
  proof (rule ccontr)
    assume "\<not> Index s substr < 0"
    then have "Index s substr = int (nat (Index s substr))" by simp
    then have "occurs_at s substr (nat (Index s substr))" by (simp only: Index_first)
    with a show False by blast
  qed
  with Index_ge [of s substr] show "Index s substr = - 1" by simp
qed

lemma Index_single:
  "Index t [c] = (if c \<in> set t then int (length (takeWhile (\<lambda>x. x \<noteq> c) t)) else - 1)"
  by (induction t) (auto simp: Let_def)

lemma GetTorrentHash_absent:
  assumes "\<forall>i. \<not> occurs_at uri ''btih:'' i"
  shows "GetTorrentHash uri = Some (Inl (New (CHR 0x27 # ''btih:'' @ CHR 0x27 # '' not found'')))"
proof -
  from assms have "Index uri ''btih:'' = - 1" using Index_none by blast
  then show ?thesis by (simp add: GetTorrentHash_def)
qed

lemma GetTorrentHash_found:
  assumes o: "occurs_at uri ''btih:'' n" and f: "\<forall>i<n. \<not> occurs_at uri ''btih:'' i"
  shows "GetTorrentHash uri =
     (if n + 5 = length uri
      then Some (Inl (New (''no hash after '' @ CHR 0x27 # ''btih:'' @ [CHR 0x27])))
      else Some (Inr (takeWhile (\<lambda>c. c \<noteq> CHR ''&'') (drop (n + 5) uri))))"
proof -
  from o f have ix: "Index uri ''btih:'' = int n" by (simp only: Index_first)
  from o have len: "n + 5 \<le> length uri" by (simp add: occurs_at_def)
  show ?thesis
  proof (cases "n + 5 = length uri")
    case True
    with ix show ?thesis by (simp add: GetTorrentHash_def)
  next
    case False
    with len have lt: "n + 5 < length uri" by simp
    define t where "t = drop (n + 5) uri"
    have sl: "slice uri (int n + 5) (int (length uri)) = Some t"
      using lt by (simp add: slice_def t_def nat_add_distrib)
    have ne: "n + 5 \<noteq> length uri" using lt by simp
    show ?thesis
    proof (cases "CHR ''&'' \<in> set t")
      case False
      then have i1: "Index t ''&'' = - 1" by (simp add: Index_single)
      from False have tw: "takeWhile (\<lambda>c. c \<noteq> CHR ''&'') t = t" by auto
      have "GetTorrentHash uri = Some (Inr t)"
        using ix lt sl i1 by (simp add: GetTorrentHash_def)
      also have "\<dots> = Some (Inr (takeWhile (\<lambda>c. c \<noteq> CHR ''&'') t))"
        by (simp only: tw)
      finally show ?thesis using ne by (simp only: t_def if_False)
    next
      case True
      define k where "k = length (takeWhile (\<lambda>c. c \<noteq> CHR ''&'') t)"
      from True have ik: "Index t ''&'' = int k" by (simp add: Index_single k_def)
      have kl: "k \<le> length t" unfolding k_def by (rule length_takeWhile_le)
      have lt': "length t = length uri - (n + 5)" by (simp add: t_def)
      have tk: "take k t = takeWhile (\<lambda>c. c \<noteq> CHR ''&'') t"
        unfolding k_def by (rule takeWhile_eq_take [symmetric])
      have s2: "slice uri (int n + 5) (int n + 5 + int k) = Some (take k t)"
        using kl lt lt' by (simp add: slice_def t_def nat_add_distrib)
      have "GetTorrentHash uri = Some (Inr (take k t))"
        using ix lt sl ik s2 by (simp add: GetTorrentHash_def)
      also have "\<dots> = Some (Inr (takeWhile (\<lambda>c. c \<noteq> CHR ''&'') t))"
        by (simp only: tk)
      finally show ?thesis using ne by (simp only: t_def if_False)
    qed
  qed
qed

lemma GetTorrentHash_total: "GetTorrentHash uri \<noteq> None"
proof (cases "\<forall>i. \<not> occurs_at uri ''btih:'' i")
  case True
  show ?thesis using GetTorrentHash_absent [OF True] by simp
next
  case False
  then have ex: "\<exists>i. occurs_at uri ''btih:'' i" by blast
  define m where "m = (LEAST i. occurs_at uri ''btih:'' i)"
  have o: "occurs_at uri ''btih:'' m" unfolding m_def using ex by (rule LeastI_ex)
  have f: "\<forall>i<m. \<not> occurs_at uri ''btih:'' i"
    unfolding m_def using not_less_Least by blast
  show ?thesis using GetTorrentHash_found [OF o f] by simp
qed

text \<open>
  C7.  For every descriptor URI, \<open>GetTorrentHash\<close> never panics; when the marker
  \<open>btih:\<close> does not occur it returns the error "'btih:' not found"; when the first
  occurrence of the marker starts at byte \<open>n\<close>, it returns the error
  "no hash after 'btih:'" if the URI ends right after the marker, and otherwise the
  bytes strictly after the marker up to the next \<open>&\<close> or the end of the string.
  The descriptor \<open>magnet:?xt=urn:btih:ABCD&dn=x\<close> yields \<open>ABCD\<close>.
\<close>

theorem GetTorrentHash_extracts:
  "GetTorrentHash uri \<noteq> None
   \<and> ((\<forall>i. \<not> occurs_at uri ''btih:'' i) \<longrightarrow>
        GetTorrentHash uri = Some (Inl (New (CHR 0x27 # ''btih:'' @ CHR 0x27 # '' not found''))))
   \<and> (occurs_at uri ''btih:'' n \<and> (\<forall>i<n. \<not> occurs_at uri ''btih:'' i) \<longrightarrow>
        GetTorrentHash uri =
          (if n + 5 = length uri
           then Some (Inl (New (''no hash after '' @ CHR 0x27 # ''btih:'' @ [CHR 0x27])))
           else Some (Inr (takeWhile (\<lambda>c. c \<noteq> CHR ''&'') (drop (n + 5) uri)))))
   \<and> GetTorrentHash ''magnet:?xt=urn:btih:ABCD&dn=x'' = Some (Inr ''ABCD'')"
proof (intro conjI impI)
  show "GetTorrentHash uri \<noteq> None"
  proof (cases "\<forall>i. \<not> occurs_at uri ''btih:'' i")
    case True
    show ?thesis using GetTorrentHash_absent [OF True] by simp
  next
    case False
    then have ex: "\<exists>i. occurs_at uri ''btih:'' i" by blast
    define m where "m = (LEAST i. occurs_at uri ''btih:'' i)"
    have o: "occurs_at uri ''btih:'' m" unfolding m_def using ex by (rule LeastI_ex)
    have f: "\<forall>i<m. \<not> occurs_at uri ''btih:'' i"
      unfolding m_def using not_less_Least by blast
    show ?thesis using GetTorrentHash_found [OF o f] by simp
  qed
next
  assume "\<forall>i. \<not> occurs_at uri ''btih:'' i"
  then show "GetTorrentHash uri = Some (Inl (New (CHR 0x27 # ''btih:'' @ CHR 0x27 # '' not found'')))"
    by (rule GetTorrentHash_absent)
next
  assume "occurs_at uri ''btih:'' n \<and> (\<forall>i<n. \<not> occurs_at uri ''btih:'' i)"
  then show "GetTorrentHash uri =
          (if n + 5 = length uri
           then Some (Inl (New (''no hash after '' @ CHR 0x27 # ''btih:'' @ [CHR 0x27])))
           else Some (Inr (takeWhile (\<lambda>c. c \<noteq> CHR ''&'') (drop (n + 5) uri))))"
    using GetTorrentHash_found by blast
next
  show "GetTorrentHash ''magnet:?xt=urn:btih:ABCD&dn=x'' = Some (Inr ''ABCD'')"
    by (simp add: GetTorrentHash_def slice_def)
qed

theorem GetTorrentHash_extracts_witness:
  "occurs_at ''magnet:?xt=urn:btih:ABCD&dn=x'' ''btih:'' 15
   \<and> GetTorrentHash ''magnet:?xt=urn:btih:ABCD&dn=x'' = Some (Inr ''ABCD'')
   \<and> occurs_at ''magnet:?xt=urn:btih:'' ''btih:'' 15
   \<and> GetTorrentHash ''magnet:?xt=urn:btih:'' =
        Some (Inl (New (''no hash after '' @ CHR 0x27 # ''btih:'' @ [CHR 0x27])))
   \<and> Index ''magnet:?xt=urn:sha1:ABCD'' ''btih:'' = - 1
   \<and> GetTorrentHash ''magnet:?xt=urn:sha1:ABCD'' =
        Some (Inl (New (CHR 0x27 # ''btih:'' @ CHR 0x27 # '' not found'')))"
proof -
  have i1: "Index ''magnet:?xt=urn:btih:ABCD&dn=x'' ''btih:'' = int 15" by simp
  have h1: "occurs_at ''magnet:?xt=urn:btih:ABCD&dn=x'' ''btih:'' 15
     \<and> (\<forall>i<15. \<not> occurs_at ''magnet:?xt=urn:btih:ABCD&dn=x'' ''btih:'' i)"
    using i1 Index_first by blast
  have i2: "Index ''magnet:?xt=urn:btih:'' ''btih:'' = int 15" by simp
  have h2: "occurs_at ''magnet:?xt=urn:btih:'' ''btih:'' 15
     \<and> (\<forall>i<15. \<not> occurs_at ''magnet:?xt=urn:btih:'' ''btih:'' i)"
    using i2 Index_first by blast
  have i3: "Index ''magnet:?xt=urn:sha1:ABCD'' ''btih:'' = - 1" by simp
  have h3: "\<forall>i. \<not> occurs_at ''magnet:?xt=urn:sha1:ABCD'' ''btih:'' i"
    using i3 Index_none by blast
  have r1: "GetTorrentHash ''magnet:?xt=urn:btih:ABCD&dn=x'' = Some (Inr ''ABCD'')"
    using GetTorrentHash_extracts [of "''magnet:?xt=urn:btih:ABCD&dn=x''" 15] h1 by simp
  have r2: "GetTorrentHash ''magnet:?xt=urn:btih:'' =
        Some (Inl (New (''no hash after '' @ CHR 0x27 # ''btih:'' @ [CHR 0x27])))"
    using GetTorrentHash_extracts [of "''magnet:?xt=urn:btih:''" 15] h2 by simp
  have r3: "GetTorrentHash ''magnet:?xt=urn:sha1:ABCD'' =
        Some (Inl (New (CHR 0x27 # ''btih:'' @ CHR 0x27 # '' not found'')))"
    using GetTorrentHash_extracts [of "''magnet:?xt=urn:sha1:ABCD''" 0] h3 by blast
  from h1 h2 i3 r1 r2 r3 show ?thesis by blast
qed

section \<open>The Torrent controller\<close>

lemma Find_SetStatusCondition:
  "\<exists>c. FindStatusCondition (SetStatusCondition now cs n) (Type n) = Some c
       \<and> Type c = Type n \<and> Condition.Status c = Condition.Status n
       \<and> Reason c = Reason n \<and> Message c = Message n"
  by (induction cs) (auto simp: updateExisting_def Let_def)

lemma Find_RemoveStatusCondition_other:
  "t \<noteq> t' \<Longrightarrow> FindStatusCondition (RemoveStatusCondition cs t') t = FindStatusCondition cs t"
  by (induction cs) (auto simp: RemoveStatusCondition_def)

lemma Find_RemoveStatusCondition_same:
  "FindStatusCondition (RemoveStatusCondition cs t) t = None"
  by (induction cs) (auto simp: RemoveStatusCondition_def)

lemma Find_SetDegraded:
  "(\<exists>c. FindStatusCondition (call_conditions (SetDegraded now reason message) cs) ''Degraded'' = Some c
        \<and> Condition.Status c = ConditionTrue \<and> Reason c = reason \<and> Message c = message)
   \<and> FindStatusCondition (call_conditions (SetDegraded now reason message) cs) ''Available'' = None"
proof -
  let ?n = "newCondition ''Degraded'' now reason message"
  have t: "Type ?n = ''Degraded''" by (simp add: newCondition_def)
  from Find_SetStatusCondition [of now cs ?n]
  obtain c where "FindStatusCondition (SetStatusCondition now cs ?n) ''Degraded'' = Some c"
    and "Condition.Status c = ConditionTrue" and "Reason c = reason" and "Message c = message"
    by (auto simp: newCondition_def)
  then show ?thesis
    by (simp add: Find_RemoveStatusCondition_other Find_RemoveStatusCondition_same)
qed

lemma Find_SetAvailable:
  "(\<exists>c. FindStatusCondition (call_conditions (SetAvailable now reason message) cs) ''Available'' = Some c
        \<and> Condition.Status c = ConditionTrue \<and> Reason c = reason \<and> Message c = message)
   \<and> FindStatusCondition (call_conditions (SetAvailable now reason message) cs) ''Degraded'' = None"
proof -
  let ?n = "newCondition ''Available'' now reason message"
  from Find_SetStatusCondition [of now cs ?n]
  obtain c where "FindStatusCondition (SetStatusCondition now cs ?n) ''Available'' = Some c"
    and "Condition.Status c = ConditionTrue" and "Reason c = reason" and "Message c = message"
    by (auto simp: newCondition_def)
  then show ?thesis
    by (simp add: Find_RemoveStatusCondition_other Find_RemoveStatusCondition_same)
qed

lemma setDegraded_Torrent_as_call:
  "TorrentReconciler_setDegradedCondition now torrent reason message =
     torrent\<lparr>Torrent.Status := (Torrent.Status torrent)
       \<lparr>TorrentStatus.Conditions :=
          call_conditions (SetDegraded now reason message)
            (TorrentStatus.Conditions (Torrent.Status torrent))\<rparr>\<rparr>"
  by (simp add: TorrentReconciler_setDegradedCondition_def Let_def
      TypeAvailableTorrent_def TypeDegradedTorrent_def)

lemma setAvailable_Torrent_as_call:
  "TorrentReconciler_setAvailableCondition now torrent reason message =
     torrent\<lparr>Torrent.Status := (Torrent.Status torrent)
       \<lparr>TorrentStatus.Conditions :=
          call_conditions (SetAvailable now reason message)
            (TorrentStatus.Conditions (Torrent.Status torrent))\<rparr>\<rparr>"
  by (simp add: TorrentReconciler_setAvailableCondition_def Let_def
      TypeAvailableTorrent_def TypeDegradedTorrent_def)

lemma Find_map_same_type:
  assumes "\<And>c. Type (f c) = Type c"
  shows "FindStatusCondition (map f cs) conditionType = map_option f (FindStatusCondition cs conditionType)"
  by (induction cs) (simp_all add: assms)

lemma Find_wire:
  "FindStatusCondition (map wire_condition cs) conditionType
     = map_option wire_condition (FindStatusCondition cs conditionType)"
  by (rule Find_map_same_type) (simp add: wire_condition_def)

lemma StatusUpdate_logged_status:
  "Torrent.Status (fst (StatusUpdate_logged w line cl torrent)) = Torrent.Status torrent
   \<or> Torrent.Status (fst (StatusUpdate_logged w line cl torrent))
       = wire_Torrent_status (Torrent.Status torrent)"
  by (simp add: StatusUpdate_logged_def StatusUpdate_Torrent_def Let_def
      split: option.split)

lemma StatusUpdate_logged_condition:
  assumes "FindStatusCondition (TorrentStatus.Conditions (Torrent.Status t)) conditionType = Some c"
  shows "\<exists>c'. FindStatusCondition
                (TorrentStatus.Conditions (Torrent.Status (fst (StatusUpdate_logged w line cl t))))
                conditionType = Some c'
             \<and> Condition.Status c' = Condition.Status c
             \<and> Reason c' = Reason c \<and> Message c' = Message c"
  using StatusUpdate_logged_status [of w line cl t] assms
  by (auto simp: wire_Torrent_status_def Find_wire wire_condition_def)

lemma StatusUpdate_logged_no_condition:
  assumes "FindStatusCondition (TorrentStatus.Conditions (Torrent.Status t)) conditionType = None"
  shows "FindStatusCondition
           (TorrentStatus.Conditions (Torrent.Status (fst (StatusUpdate_logged w line cl t))))
           conditionType = None"
  using StatusUpdate_logged_status [of w line cl t] assms
  by (auto simp: wire_Torrent_status_def Find_wire)

lemma StatusUpdate_logged_name:
  "TorrentStatus.ClientConfigurationName (Torrent.Status (fst (StatusUpdate_logged w line cl t)))
     = TorrentStatus.ClientConfigurationName (Torrent.Status t)"
  using StatusUpdate_logged_status [of w line cl t]
  by (auto simp: wire_Torrent_status_def)

lemma Reconcile_resolution_failure:
  assumes "apiGet w 51 (torrents cl) torrents_resource ns name = Inr torrent"
    and "DeletionTimestamp_IsZero (DeletionTimestamp torrent)"
    and "ContainsFinalizer torrent TorrentFinalizer"
    and "getQBTClient w now cl rt torrent = (Inl e, torrent1, rt1)"
  shows "Reconcile w now cl rt ns name =
     Some \<lparr>result = Result_after (15 * Second), failure = None,
           object = Some (fst (StatusUpdate_logged w 77 cl
                      (TorrentReconciler_setDegradedCondition now torrent1
                          ''ClientResolutionFailed'' (Error e)))),
           store = snd (StatusUpdate_logged w 77 cl
                      (TorrentReconciler_setDegradedCondition now torrent1
                          ''ClientResolutionFailed'' (Error e))),
           proc = rt1\<rparr>"
  using assms by (simp add: Reconcile_def Let_def split_beta)

lemma Reconcile_parse_error:
  assumes "apiGet w 51 (torrents cl) torrents_resource ns name = Inr torrent"
    and "DeletionTimestamp_IsZero (DeletionTimestamp torrent)"
    and "ContainsFinalizer torrent TorrentFinalizer"
    and "getQBTClient w now cl rt torrent = (Inr qbtClient, torrent1, rt1)"
    and "GetTorrentHash (MagnetURI (Torrent.Spec torrent1)) = Some (Inl e)"
  shows "Reconcile w now cl rt ns name =
     Some \<lparr>result = Result_empty, failure = Some e, object = Some torrent1,
           store = cl, proc = rt1\<rparr>"
  using assms by (simp add: Reconcile_def Let_def split_beta)


lemma getQBTClient_torrent:
  "fst (snd (getQBTClient w now cl rt torrent)) =
     torrent\<lparr>Torrent.Status := (Torrent.Status torrent)
       \<lparr>TorrentStatus.ClientConfigurationName :=
          TorrentStatus.ClientConfigurationName
            (Torrent.Status (fst (snd (getQBTClient w now cl rt torrent))))\<rparr>\<rparr>"
  by (simp add: getQBTClient_def Let_def split_beta
        split: option.split sum.split list.split)

lemma getQBTClient_keeps:
  assumes "getQBTClient w now cl rt torrent = (r, torrent1, rt1)"
  shows "TorrentStatus.Conditions (Torrent.Status torrent1) = TorrentStatus.Conditions (Torrent.Status torrent)"
    and "Torrent.Spec torrent1 = Torrent.Spec torrent"
    and "Finalizers torrent1 = Finalizers torrent"
    and "ObjectMeta.Name torrent1 = ObjectMeta.Name torrent"
    and "Namespace torrent1 = Namespace torrent"
    and "DeletionTimestamp torrent1 = DeletionTimestamp torrent"
    and "TorrentStatus.Hash (Torrent.Status torrent1) = TorrentStatus.Hash (Torrent.Status torrent)"
proof -
  from assms have t: "torrent1 = fst (snd (getQBTClient w now cl rt torrent))" by simp
  note g = getQBTClient_torrent [of w now cl rt torrent, folded t]
  show "TorrentStatus.Conditions (Torrent.Status torrent1) = TorrentStatus.Conditions (Torrent.Status torrent)"
    by (subst g) simp
  show "Torrent.Spec torrent1 = Torrent.Spec torrent" by (subst g) simp
  show "Finalizers torrent1 = Finalizers torrent" by (subst g) simp
  show "ObjectMeta.Name torrent1 = ObjectMeta.Name torrent" by (subst g) simp
  show "Namespace torrent1 = Namespace torrent" by (subst g) simp
  show "DeletionTimestamp torrent1 = DeletionTimestamp torrent" by (subst g) simp
  show "TorrentStatus.Hash (Torrent.Status torrent1) = TorrentStatus.Hash (Torrent.Status torrent)"
    by (subst g) simp
qed

lemma StatusUpdate_logged_store:
  "snd (StatusUpdate_logged w line cl torrent) = snd (StatusUpdate_Torrent w line cl torrent)"
  by (simp add: StatusUpdate_logged_def split: prod.split sum.split)

lemma setDegraded_Torrent_conditions:
  "(\<exists>c. FindStatusCondition
           (TorrentStatus.Conditions
              (Torrent.Status (TorrentReconciler_setDegradedCondition now torrent reason message)))
           ''Degraded'' = Some c
        \<and> Condition.Status c = ConditionTrue \<and> Reason c = reason \<and> Message c = message)
   \<and> FindStatusCondition
         (TorrentStatus.Conditions
            (Torrent.Status (TorrentReconciler_setDegradedCondition now torrent reason message)))
         ''Available'' = None"
  using Find_SetDegraded [of now reason message "TorrentStatus.Conditions (Torrent.Status torrent)"]
  by (simp add: setDegraded_Torrent_as_call)

text \<open>
  C8.  Steady state: the request names a work item of the cluster that is not being
  deleted and carries the finalizer.  If \<open>getQBTClient\<close> fails with any error \<open>e\<close>
  (no, ambiguous, missing or unavailable configuration, missing secret, failed
  login), the reconcile sets the condition \<open>Degraded\<close> with reason
  \<open>ClientResolutionFailed\<close> and message \<open>e\<close> (and no \<open>Available\<close> condition), issues
  the status write, and returns a re-queue after 15 seconds with a nil error.  If
  \<open>getQBTClient\<close> succeeds and the descriptor cannot be parsed, the reconcile returns
  the parse error itself with the empty result, issues no write to the cluster, and
  leaves the condition list of the object as it was.
\<close>

theorem Reconcile_error_policy:
  assumes "apiGet w 51 (torrents cl) torrents_resource ns name = Inr torrent"
    and "DeletionTimestamp_IsZero (DeletionTimestamp torrent)"
    and "ContainsFinalizer torrent TorrentFinalizer"
  shows
    "(getQBTClient w now cl rt torrent = (Inl e, torrent1, rt1) \<longrightarrow>
        (\<exists>out obj c.
            Reconcile w now cl rt ns name = Some out
          \<and> result out = Result_after (15 * Second)
          \<and> failure out = None
          \<and> object out = Some obj
          \<and> FindStatusCondition (TorrentStatus.Conditions (Torrent.Status obj)) ''Degraded'' = Some c
          \<and> Condition.Status c = ConditionTrue
          \<and> Reason c = ''ClientResolutionFailed''
          \<and> Message c = Error e
          \<and> FindStatusCondition (TorrentStatus.Conditions (Torrent.Status obj)) ''Available'' = None
          \<and> store out =
              snd (StatusUpdate_Torrent w 77 cl
                     (TorrentReconciler_setDegradedCondition now torrent1
                        ''ClientResolutionFailed'' (Error e)))
          \<and> proc out = rt1))
     \<and> (getQBTClient w now cl rt torrent = (Inr qbtClient, torrent1, rt1)
          \<and> GetTorrentHash (MagnetURI (Torrent.Spec torrent)) = Some (Inl e') \<longrightarrow>
          Reconcile w now cl rt ns name =
            Some \<lparr>result = Result_empty, failure = Some e', object = Some torrent1,
                  store = cl, proc = rt1\<rparr>
          \<and> TorrentStatus.Conditions (Torrent.Status torrent1)
              = TorrentStatus.Conditions (Torrent.Status torrent))"
proof (intro conjI impI)
  assume g: "getQBTClient w now cl rt torrent = (Inl e, torrent1, rt1)"
  let ?t2 = "TorrentReconciler_setDegradedCondition now torrent1 ''ClientResolutionFailed'' (Error e)"
  let ?out = "\<lparr>result = Result_after (15 * Second), failure = None,
           object = Some (fst (StatusUpdate_logged w 77 cl ?t2)),
           store = snd (StatusUpdate_logged w 77 cl ?t2), proc = rt1\<rparr>"
  have r: "Reconcile w now cl rt ns name = Some ?out"
    by (rule Reconcile_resolution_failure [OF assms g])
  from setDegraded_Torrent_conditions [of now torrent1 "''ClientResolutionFailed''" "Error e"]
  obtain c0 where c0: "FindStatusCondition (TorrentStatus.Conditions (Torrent.Status ?t2)) ''Degraded'' = Some c0"
    "Condition.Status c0 = ConditionTrue" "Reason c0 = ''ClientResolutionFailed''" "Message c0 = Error e"
    and a0: "FindStatusCondition (TorrentStatus.Conditions (Torrent.Status ?t2)) ''Available'' = None"
    by blast
  from StatusUpdate_logged_condition [OF c0(1), of w 77 cl] c0(2,3,4)
  obtain c where c: "FindStatusCondition
        (TorrentStatus.Conditions (Torrent.Status (fst (StatusUpdate_logged w 77 cl ?t2)))) ''Degraded'' = Some c"
    "Condition.Status c = ConditionTrue" "Reason c = ''ClientResolutionFailed''" "Message c = Error e"
    by auto
  have a: "FindStatusCondition
        (TorrentStatus.Conditions (Torrent.Status (fst (StatusUpdate_logged w 77 cl ?t2)))) ''Available'' = None"
    by (rule StatusUpdate_logged_no_condition [OF a0])
  show "\<exists>out obj c.
            Reconcile w now cl rt ns name = Some out
          \<and> result out = Result_after (15 * Second)
          \<and> failure out = None
          \<and> object out = Some obj
          \<and> FindStatusCondition (TorrentStatus.Conditions (Torrent.Status obj)) ''Degraded'' = Some c
          \<and> Condition.Status c = ConditionTrue
          \<and> Reason c = ''ClientResolutionFailed''
          \<and> Message c = Error e
          \<and> FindStatusCondition (TorrentStatus.Conditions (Torrent.Status obj)) ''Available'' = None
          \<and> store out = snd (StatusUpdate_Torrent w 77 cl ?t2)
          \<and> proc out = rt1"
    apply (rule exI [of _ ?out])
    apply (rule exI [of _ "fst (StatusUpdate_logged w 77 cl ?t2)"])
    apply (rule exI [of _ c])
    using r c a by (simp add: StatusUpdate_logged_store)
next
  assume h: "getQBTClient w now cl rt torrent = (Inr qbtClient, torrent1, rt1)
          \<and> GetTorrentHash (MagnetURI (Torrent.Spec torrent)) = Some (Inl e')"
  then have g: "getQBTClient w now cl rt torrent = (Inr qbtClient, torrent1, rt1)" by simp
  note k = getQBTClient_keeps [OF g]
  from h k(2) have p: "GetTorrentHash (MagnetURI (Torrent.Spec torrent1)) = Some (Inl e')" by simp
  show "Reconcile w now cl rt ns name =
            Some \<lparr>result = Result_empty, failure = Some e', object = Some torrent1,
                  store = cl, proc = rt1\<rparr>"
    by (rule Reconcile_parse_error [OF assms g p])
  show "TorrentStatus.Conditions (Torrent.Status torrent1)
              = TorrentStatus.Conditions (Torrent.Status torrent)"
    by (rule k(1))
qed

theorem Reconcile_error_policy_witness:
  "apiGet quiet_world 51 (torrents lonely_cluster) torrents_resource ''default'' ''bunny'' = Inr demo_torrent
   \<and> DeletionTimestamp_IsZero (DeletionTimestamp demo_torrent)
   \<and> ContainsFinalizer demo_torrent TorrentFinalizer
   \<and> getQBTClient quiet_world 0 lonely_cluster (fresh_runtime (300 * Second)) demo_torrent
       = (Inl (New ''no TorrentClientConfiguration found in namespace default''), demo_torrent,
          fresh_runtime (300 * Second))
   \<and> (\<exists>out obj c.
          Reconcile quiet_world 0 lonely_cluster (fresh_runtime (300 * Second)) ''default'' ''bunny'' = Some out
        \<and> result out = Result_after (15 * Second)
        \<and> failure out = None
        \<and> object out = Some obj
        \<and> FindStatusCondition (TorrentStatus.Conditions (Torrent.Status obj)) ''Degraded'' = Some c
        \<and> Reason c = ''ClientResolutionFailed''
        \<and> Message c = ''no TorrentClientConfiguration found in namespace default'')
   \<and> apiGet quiet_world 51 (torrents (served_cluster bad_uri_torrent)) torrents_resource
         ''default'' ''bunny'' = Inr bad_uri_torrent
   \<and> fst (getQBTClient quiet_world 0 (served_cluster bad_uri_torrent) (fresh_runtime (300 * Second))
             bad_uri_torrent) = Inr demo_client
   \<and> GetTorrentHash (MagnetURI (Torrent.Spec bad_uri_torrent))
       = Some (Inl (New (CHR 0x27 # ''btih:'' @ CHR 0x27 # '' not found'')))
   \<and> (\<exists>out.
          Reconcile quiet_world 0 (served_cluster bad_uri_torrent) (fresh_runtime (300 * Second))
            ''default'' ''bunny'' = Some out
        \<and> result out = Result_empty
        \<and> failure out = Some (New (CHR 0x27 # ''btih:'' @ CHR 0x27 # '' not found''))
        \<and> store out = served_cluster bad_uri_torrent)"
proof -
  let ?rt = "fresh_runtime (300 * Second)"
  have a1: "apiGet quiet_world 51 (torrents lonely_cluster) torrents_resource ''default'' ''bunny'' = Inr demo_torrent"
    by (simp add: apiGet_def quiet_world_def lonely_cluster_def demo_torrent_def)
  have a2: "DeletionTimestamp_IsZero (DeletionTimestamp demo_torrent)"
    by (simp add: DeletionTimestamp_IsZero_def demo_torrent_def)
  have a3: "ContainsFinalizer demo_torrent TorrentFinalizer"
    by (simp add: ContainsFinalizer_def demo_torrent_def)
  have a4: "getQBTClient quiet_world 0 lonely_cluster ?rt demo_torrent
       = (Inl (New ''no TorrentClientConfiguration found in namespace default''), demo_torrent, ?rt)"
    by (simp add: getQBTClient_def apiList_def quiet_world_def lonely_cluster_def demo_torrent_def)
  note i1 = Reconcile_error_policy [OF a1 a2 a3,
      where now = 0 and rt = ?rt
        and e = "New ''no TorrentClientConfiguration found in namespace default''"
        and ?torrent1.0 = demo_torrent and ?rt1.0 = ?rt]
  from i1 a4 have r1: "\<exists>out obj c.
          Reconcile quiet_world 0 lonely_cluster ?rt ''default'' ''bunny'' = Some out
        \<and> result out = Result_after (15 * Second)
        \<and> failure out = None
        \<and> object out = Some obj
        \<and> FindStatusCondition (TorrentStatus.Conditions (Torrent.Status obj)) ''Degraded'' = Some c
        \<and> Reason c = ''ClientResolutionFailed''
        \<and> Message c = ''no TorrentClientConfiguration found in namespace default''"
    by (simp only: Error.simps) blast
  let ?cl = "served_cluster bad_uri_torrent"
  let ?g = "getQBTClient quiet_world 0 ?cl ?rt bad_uri_torrent"
  have b1: "apiGet quiet_world 51 (torrents ?cl) torrents_resource ''default'' ''bunny'' = Inr bad_uri_torrent"
    by (simp add: apiGet_def quiet_world_def served_cluster_def bad_uri_torrent_def demo_torrent_def)
  have b2: "DeletionTimestamp_IsZero (DeletionTimestamp bad_uri_torrent)"
    by (simp add: DeletionTimestamp_IsZero_def bad_uri_torrent_def demo_torrent_def)
  have b3: "ContainsFinalizer bad_uri_torrent TorrentFinalizer"
    by (simp add: ContainsFinalizer_def bad_uri_torrent_def demo_torrent_def)
  have b4: "fst ?g = Inr demo_client"
    by (simp add: getQBTClient_def apiList_def apiGet_def quiet_world_def served_cluster_def
        bad_uri_torrent_def demo_torrent_def available_tcc_def demo_tcc_def demo_secret_def
        newCondition_def TypeAvailableTCC_def secret_string_def GetOrCreate_def fresh_runtime_def
        NewClientPool_def NewClient_def demo_client_def Let_def split_beta)
  have b4': "?g = (Inr demo_client, fst (snd ?g), snd (snd ?g))"
    using b4 by (simp add: prod_eq_iff)
  have b5: "GetTorrentHash (MagnetURI (Torrent.Spec bad_uri_torrent))
       = Some (Inl (New (CHR 0x27 # ''btih:'' @ CHR 0x27 # '' not found'')))"
    by (simp add: GetTorrentHash_def bad_uri_torrent_def demo_torrent_def)
  note i2 = Reconcile_error_policy [OF b1 b2 b3,
      where now = 0 and rt = ?rt and qbtClient = demo_client
        and ?torrent1.0 = "fst (snd ?g)" and ?rt1.0 = "snd (snd ?g)"
        and e' = "New (CHR 0x27 # ''btih:'' @ CHR 0x27 # '' not found'')"]
  from i2 b4' b5 have "Reconcile quiet_world 0 ?cl ?rt ''default'' ''bunny'' =
            Some \<lparr>result = Result_empty,
                  failure = Some (New (CHR 0x27 # ''btih:'' @ CHR 0x27 # '' not found'')),
                  object = Some (fst (snd ?g)), store = ?cl, proc = snd (snd ?g)\<rparr>"
    by blast
  then have r2: "\<exists>out.
          Reconcile quiet_world 0 ?cl ?rt ''default'' ''bunny'' = Some out
        \<and> result out = Result_empty
        \<and> failure out = Some (New (CHR 0x27 # ''btih:'' @ CHR 0x27 # '' not found''))
        \<and> store out = ?cl"
    by simp
  from a1 a2 a3 a4 r1 b1 b4 b5 r2 show ?thesis by blast
qed

lemma same_object_RemoveFinalizer: "same_object (RemoveFinalizer t f) = same_object t"
  by (rule ext) (simp add: same_object_def RemoveFinalizer_def)

lemma Name_RemoveFinalizer: "ObjectMeta.Name (RemoveFinalizer t f) = ObjectMeta.Name t"
  by (simp add: RemoveFinalizer_def)

lemma rFU_cases:
  "removeFinalizerAndUpdate w cl rt t =
     (case api_fault w 168 of
        Some e \<Rightarrow> \<lparr>result = Result_empty, failure = Some e,
                   object = Some (RemoveFinalizer t TorrentFinalizer), store = cl, proc = rt\<rparr>
      | None \<Rightarrow>
         (case find (same_object t) (torrents cl) of
            None \<Rightarrow> \<lparr>result = Result_empty,
                      failure = Some (NotFound (torrents_resource @ '' '' @ Quote (ObjectMeta.Name t)
                               @ '' not found'')),
                      object = Some (RemoveFinalizer t TorrentFinalizer), store = cl, proc = rt\<rparr>
          | Some stored \<Rightarrow>
              \<lparr>result = Result_empty, failure = None,
               object = Some ((RemoveFinalizer t TorrentFinalizer)\<lparr>Torrent.Status := Torrent.Status stored\<rparr>),
               store = snd (Update_Torrent w 168 cl (RemoveFinalizer t TorrentFinalizer)),
               proc = rt\<rparr>))"
proof (cases "api_fault w 168")
  case (Some e)
  then show ?thesis
    by (simp add: removeFinalizerAndUpdate_def Update_Torrent_def Let_def)
next
  case None
  note nofault = None
  show ?thesis
  proof (cases "find (same_object t) (torrents cl)")
    case None
    with nofault show ?thesis
      by (simp add: removeFinalizerAndUpdate_def Update_Torrent_def Let_def
          same_object_RemoveFinalizer Name_RemoveFinalizer)
  next
    case (Some stored)
    with nofault show ?thesis
      by (simp add: removeFinalizerAndUpdate_def Update_Torrent_def Let_def
          same_object_RemoveFinalizer)
  qed
qed

lemma rFU_basic:
  "result (removeFinalizerAndUpdate w cl rt t) = Result_empty
   \<and> proc (removeFinalizerAndUpdate w cl rt t) = rt
   \<and> (\<exists>obj. object (removeFinalizerAndUpdate w cl rt t) = Some obj
          \<and> Finalizers obj = filter (\<lambda>f. f \<noteq> TorrentFinalizer) (Finalizers t))
   \<and> (failure (removeFinalizerAndUpdate w cl rt t) = None
        \<longleftrightarrow> api_fault w 168 = None \<and> find (same_object t) (torrents cl) \<noteq> None)"
  by (auto simp: rFU_cases RemoveFinalizer_def split: option.split)

lemma rFU_store_failed:
  "failure (removeFinalizerAndUpdate w cl rt t) \<noteq> None \<Longrightarrow>
   store (removeFinalizerAndUpdate w cl rt t) = cl"
  by (auto simp: rFU_cases split: option.splits)

lemma rFU_store_written:
  assumes "failure (removeFinalizerAndUpdate w cl rt t) = None"
    and "obj \<in> set (torrents (store (removeFinalizerAndUpdate w cl rt t)))"
    and "same_object t obj"
  shows "TorrentFinalizer \<notin> set (Finalizers obj)"
proof -
  from assms(1) obtain stored where f: "api_fault w 168 = None"
    and s: "find (same_object t) (torrents cl) = Some stored"
    using rFU_basic [of w cl rt t] by auto
  let ?t' = "RemoveFinalizer t TorrentFinalizer"
  have st: "store (removeFinalizerAndUpdate w cl rt t) = snd (Update_Torrent w 168 cl ?t')"
    by (simp add: rFU_cases f s)
  have nf: "TorrentFinalizer \<notin> set (Finalizers ?t')" by (simp add: RemoveFinalizer_def)
  from assms(2) st have m: "obj \<in> set (torrents (snd (Update_Torrent w 168 cl ?t')))" by simp
  show ?thesis
    using m assms(3) nf s f
    by (auto simp: Update_Torrent_def Let_def same_object_RemoveFinalizer split: if_splits)
qed

lemma StatusUpdate_Torrent_finalizers:
  "map Finalizers (torrents (snd (StatusUpdate_Torrent w line cl t))) = map Finalizers (torrents cl)"
  by (simp add: StatusUpdate_Torrent_def comp_def split: option.split)

lemma StatusUpdate_Torrent_response:
  assumes "fst (StatusUpdate_Torrent w line cl t) = Inr response"
  shows "Torrent.Status response = wire_Torrent_status (Torrent.Status t)"
    and "response \<in> set (torrents (snd (StatusUpdate_Torrent w line cl t)))"
proof -
  from assms obtain stored where f: "api_fault w line = None"
    and s: "find (same_object t) (torrents cl) = Some stored"
    and r: "response = stored\<lparr>Torrent.Status := wire_Torrent_status (Torrent.Status t)\<rparr>"
    by (auto simp: StatusUpdate_Torrent_def split: option.splits)
  from s have "stored \<in> set (torrents cl)" and "same_object t stored"
    by (auto simp: find_Some_iff)
  then show "response \<in> set (torrents (snd (StatusUpdate_Torrent w line cl t)))"
    by (simp add: StatusUpdate_Torrent_def f s r)
  show "Torrent.Status response = wire_Torrent_status (Torrent.Status t)" by (simp add: r)
qed

lemma handleDeletion_no_hash:
  "TorrentStatus.Hash (Torrent.Status torrent) = [] \<Longrightarrow>
   handleDeletion w now cl rt torrent = removeFinalizerAndUpdate w cl rt torrent"
  by (simp add: handleDeletion_def)

lemma handleDeletion_unresolved:
  "TorrentStatus.Hash (Torrent.Status torrent) \<noteq> [] \<Longrightarrow>
   getQBTClient w now cl rt torrent = (Inl e, torrent1, rt1) \<Longrightarrow>
   handleDeletion w now cl rt torrent = removeFinalizerAndUpdate w cl rt1 torrent1"
  by (simp add: handleDeletion_def)

lemma handleDeletion_deleted:
  assumes "TorrentStatus.Hash (Torrent.Status torrent) \<noteq> []"
    and g: "getQBTClient w now cl rt torrent = (Inr qbtClient, torrent1, rt1)"
    and "DeleteTorrent w qbtClient (TorrentStatus.Hash (Torrent.Status torrent))
           (case DeleteFilesOnRemoval (Torrent.Spec torrent) of None \<Rightarrow> True | Some b \<Rightarrow> b) = None"
  shows "handleDeletion w now cl rt torrent = removeFinalizerAndUpdate w cl rt1 torrent1"
  using assms getQBTClient_keeps(2) [OF g] getQBTClient_keeps(7) [OF g]
  by (simp add: handleDeletion_def Let_def)

lemma handleDeletion_delete_failed:
  assumes "TorrentStatus.Hash (Torrent.Status torrent) \<noteq> []"
    and g: "getQBTClient w now cl rt torrent = (Inr qbtClient, torrent1, rt1)"
    and "DeleteTorrent w qbtClient (TorrentStatus.Hash (Torrent.Status torrent))
           (case DeleteFilesOnRemoval (Torrent.Spec torrent) of None \<Rightarrow> True | Some b \<Rightarrow> b) = Some e"
  shows "handleDeletion w now cl rt torrent =
     \<lparr>result = Result_after (10 * Second), failure = None,
      object = Some (fst (StatusUpdate_logged w 158 cl
                 (TorrentReconciler_setDegradedCondition now torrent1 ''FailedToDeleteTorrent'' (Error e)))),
      store = snd (StatusUpdate_Torrent w 158 cl
                 (TorrentReconciler_setDegradedCondition now torrent1 ''FailedToDeleteTorrent'' (Error e))),
      proc = rt1\<rparr>"
  using assms getQBTClient_keeps(2) [OF g] getQBTClient_keeps(7) [OF g]
  by (simp add: handleDeletion_def Let_def StatusUpdate_logged_def split: prod.split sum.split)

lemma StatusUpdate_logged_object:
  "fst (StatusUpdate_logged w line cl t) = t
   \<or> fst (StatusUpdate_logged w line cl t) \<in> set (torrents (snd (StatusUpdate_Torrent w line cl t)))"
proof (cases "fst (StatusUpdate_Torrent w line cl t)")
  case (Inl e)
  then show ?thesis by (simp add: StatusUpdate_logged_def split_beta)
next
  case (Inr response)
  from StatusUpdate_Torrent_response(2) [OF Inr] Inr show ?thesis
    by (simp add: StatusUpdate_logged_def split_beta)
qed

lemma setDegraded_Torrent_finalizers:
  "Finalizers (TorrentReconciler_setDegradedCondition now t reason message) = Finalizers t"
  by (simp add: setDegraded_Torrent_as_call)

text \<open>
  C2.  \<open>handleDeletion\<close> of a work item.  With a recorded hash: if \<open>getQBTClient\<close>
  fails, or if it succeeds and the remote delete succeeds, the function ends in
  \<open>removeFinalizerAndUpdate\<close>; so it does with no recorded hash.  If the remote
  delete fails, the function sets \<open>Degraded\<close> with reason \<open>FailedToDeleteTorrent\<close> and
  the error's message, returns a re-queue after 10 seconds with a nil error, issues
  only the status write, and the finalizers of every object of the cluster, and of
  the caller's object, are as before.  \<open>removeFinalizerAndUpdate\<close> removes the
  finalizer from the caller's object and returns the empty result; its error is nil
  exactly when the write goes through (no fault, the object is in the cluster), and
  then no object of that name in the cluster carries the finalizer; when the write
  fails the cluster is unchanged and the write's error is returned.
\<close>

theorem handleDeletion_finalizer_policy:
  "(TorrentStatus.Hash (Torrent.Status torrent) \<noteq> []
      \<and> getQBTClient w now cl rt torrent = (Inl e, torrent1, rt1) \<longrightarrow>
      handleDeletion w now cl rt torrent = removeFinalizerAndUpdate w cl rt1 torrent1)
   \<and> (TorrentStatus.Hash (Torrent.Status torrent) \<noteq> []
      \<and> getQBTClient w now cl rt torrent = (Inr qbtClient, torrent1, rt1)
      \<and> DeleteTorrent w qbtClient (TorrentStatus.Hash (Torrent.Status torrent))
           (case DeleteFilesOnRemoval (Torrent.Spec torrent) of None \<Rightarrow> True | Some b \<Rightarrow> b) = None \<longrightarrow>
      handleDeletion w now cl rt torrent = removeFinalizerAndUpdate w cl rt1 torrent1)
   \<and> (TorrentStatus.Hash (Torrent.Status torrent) = [] \<longrightarrow>
      handleDeletion w now cl rt torrent = removeFinalizerAndUpdate w cl rt torrent)
   \<and> (TorrentStatus.Hash (Torrent.Status torrent) \<noteq> []
      \<and> getQBTClient w now cl rt torrent = (Inr qbtClient, torrent1, rt1)
      \<and> DeleteTorrent w qbtClient (TorrentStatus.Hash (Torrent.Status torrent))
           (case DeleteFilesOnRemoval (Torrent.Spec torrent) of None \<Rightarrow> True | Some b \<Rightarrow> b) = Some e' \<longrightarrow>
      (\<exists>obj c.
          result (handleDeletion w now cl rt torrent) = Result_after (10 * Second)
        \<and> failure (handleDeletion w now cl rt torrent) = None
        \<and> object (handleDeletion w now cl rt torrent) = Some obj
        \<and> FindStatusCondition (TorrentStatus.Conditions (Torrent.Status obj)) ''Degraded'' = Some c
        \<and> Condition.Status c = ConditionTrue
        \<and> Reason c = ''FailedToDeleteTorrent''
        \<and> Message c = Error e'
        \<and> (Finalizers obj = Finalizers torrent
            \<or> obj \<in> set (torrents (store (handleDeletion w now cl rt torrent))))
        \<and> map Finalizers (torrents (store (handleDeletion w now cl rt torrent)))
            = map Finalizers (torrents cl)
        \<and> store (handleDeletion w now cl rt torrent) =
            snd (StatusUpdate_Torrent w 158 cl
                   (TorrentReconciler_setDegradedCondition now torrent1
                      ''FailedToDeleteTorrent'' (Error e')))))
   \<and> result (removeFinalizerAndUpdate w cl rt' torrent') = Result_empty
   \<and> (\<exists>obj. object (removeFinalizerAndUpdate w cl rt' torrent') = Some obj
          \<and> Finalizers obj = filter (\<lambda>f. f \<noteq> TorrentFinalizer) (Finalizers torrent'))
   \<and> (failure (removeFinalizerAndUpdate w cl rt' torrent') = None
        \<longleftrightarrow> api_fault w 168 = None \<and> find (same_object torrent') (torrents cl) \<noteq> None)
   \<and> (failure (removeFinalizerAndUpdate w cl rt' torrent') = None \<longrightarrow>
        (\<forall>obj \<in> set (torrents (store (removeFinalizerAndUpdate w cl rt' torrent'))).
            same_object torrent' obj \<longrightarrow> TorrentFinalizer \<notin> set (Finalizers obj)))
   \<and> (failure (removeFinalizerAndUpdate w cl rt' torrent') \<noteq> None \<longrightarrow>
        store (removeFinalizerAndUpdate w cl rt' torrent') = cl)"
proof (intro conjI impI ballI)
  assume "TorrentStatus.Hash (Torrent.Status torrent) \<noteq> []
      \<and> getQBTClient w now cl rt torrent = (Inl e, torrent1, rt1)"
  then show "handleDeletion w now cl rt torrent = removeFinalizerAndUpdate w cl rt1 torrent1"
    using handleDeletion_unresolved by blast
next
  assume "TorrentStatus.Hash (Torrent.Status torrent) \<noteq> []
      \<and> getQBTClient w now cl rt torrent = (Inr qbtClient, torrent1, rt1)
      \<and> DeleteTorrent w qbtClient (TorrentStatus.Hash (Torrent.Status torrent))
           (case DeleteFilesOnRemoval (Torrent.Spec torrent) of None \<Rightarrow> True | Some b \<Rightarrow> b) = None"
  then show "handleDeletion w now cl rt torrent = removeFinalizerAndUpdate w cl rt1 torrent1"
    using handleDeletion_deleted by blast
next
  assume "TorrentStatus.Hash (Torrent.Status torrent) = []"
  then show "handleDeletion w now cl rt torrent = removeFinalizerAndUpdate w cl rt torrent"
    by (rule handleDeletion_no_hash)
next
  assume h: "TorrentStatus.Hash (Torrent.Status torrent) \<noteq> []
      \<and> getQBTClient w now cl rt torrent = (Inr qbtClient, torrent1, rt1)
      \<and> DeleteTorrent w qbtClient (TorrentStatus.Hash (Torrent.Status torrent))
           (case DeleteFilesOnRemoval (Torrent.Spec torrent) of None \<Rightarrow> True | Some b \<Rightarrow> b) = Some e'"
  let ?t2 = "TorrentReconciler_setDegradedCondition now torrent1 ''FailedToDeleteTorrent'' (Error e')"
  let ?obj = "fst (StatusUpdate_logged w 158 cl ?t2)"
  from h have g: "getQBTClient w now cl rt torrent = (Inr qbtClient, torrent1, rt1)" by simp
  have hd: "handleDeletion w now cl rt torrent =
     \<lparr>result = Result_after (10 * Second), failure = None, object = Some ?obj,
      store = snd (StatusUpdate_Torrent w 158 cl ?t2), proc = rt1\<rparr>"
    using h handleDeletion_delete_failed by blast
  from setDegraded_Torrent_conditions [of now torrent1 "''FailedToDeleteTorrent''" "Error e'"]
  obtain c0 where c0: "FindStatusCondition (TorrentStatus.Conditions (Torrent.Status ?t2)) ''Degraded'' = Some c0"
    "Condition.Status c0 = ConditionTrue" "Reason c0 = ''FailedToDeleteTorrent''" "Message c0 = Error e'"
    by blast
  from StatusUpdate_logged_condition [OF c0(1), of w 158 cl] c0(2,3,4)
  obtain c where c: "FindStatusCondition (TorrentStatus.Conditions (Torrent.Status ?obj)) ''Degraded'' = Some c"
    "Condition.Status c = ConditionTrue" "Reason c = ''FailedToDeleteTorrent''" "Message c = Error e'"
    by auto
  have f: "Finalizers ?t2 = Finalizers torrent"
    by (simp add: setDegraded_Torrent_finalizers getQBTClient_keeps(3) [OF g])
  have o: "Finalizers ?obj = Finalizers torrent
            \<or> ?obj \<in> set (torrents (snd (StatusUpdate_Torrent w 158 cl ?t2)))"
    using StatusUpdate_logged_object [of w 158 cl ?t2] f by auto
  show "\<exists>obj c.
          result (handleDeletion w now cl rt torrent) = Result_after (10 * Second)
        \<and> failure (handleDeletion w now cl rt torrent) = None
        \<and> object (handleDeletion w now cl rt torrent) = Some obj
        \<and> FindStatusCondition (TorrentStatus.Conditions (Torrent.Status obj)) ''Degraded'' = Some c
        \<and> Condition.Status c = ConditionTrue
        \<and> Reason c = ''FailedToDeleteTorrent''
        \<and> Message c = Error e'
        \<and> (Finalizers obj = Finalizers torrent
            \<or> obj \<in> set (torrents (store (handleDeletion w now cl rt torrent))))
        \<and> map Finalizers (torrents (store (handleDeletion w now cl rt torrent)))
            = map Finalizers (torrents cl)
        \<and> store (handleDeletion w now cl rt torrent) = snd (StatusUpdate_Torrent w 158 cl ?t2)"
    apply (rule exI [of _ ?obj])
    apply (rule exI [of _ c])
    using c o by (simp add: hd StatusUpdate_Torrent_finalizers)
next
  show "result (removeFinalizerAndUpdate w cl rt' torrent') = Result_empty"
    using rFU_basic by blast
  show "\<exists>obj. object (removeFinalizerAndUpdate w cl rt' torrent') = Some obj
          \<and> Finalizers obj = filter (\<lambda>f. f \<noteq> TorrentFinalizer) (Finalizers torrent')"
    using rFU_basic by blast
  show "failure (removeFinalizerAndUpdate w cl rt' torrent') = None
        \<longleftrightarrow> api_fault w 168 = None \<and> find (same_object torrent') (torrents cl) \<noteq> None"
    using rFU_basic by blast
next
  fix obj
  assume "failure (removeFinalizerAndUpdate w cl rt' torrent') = None"
    and "obj \<in> set (torrents (store (removeFinalizerAndUpdate w cl rt' torrent')))"
    and "same_object torrent' obj"
  then show "TorrentFinalizer \<notin> set (Finalizers obj)" by (rule rFU_store_written)
next
  assume "failure (removeFinalizerAndUpdate w cl rt' torrent') \<noteq> None"
  then show "store (removeFinalizerAndUpdate w cl rt' torrent') = cl" by (rule rFU_store_failed)
qed

theorem handleDeletion_finalizer_policy_witness:
  "TorrentStatus.Hash (Torrent.Status deleting_torrent) \<noteq> []
   \<and> getQBTClient quiet_world 9 (lonely_cluster\<lparr>torrents := [deleting_torrent]\<rparr>)
         (fresh_runtime (300 * Second)) deleting_torrent
       = (Inl (New ''no TorrentClientConfiguration found in namespace default''), deleting_torrent,
          fresh_runtime (300 * Second))
   \<and> failure (handleDeletion quiet_world 9 (lonely_cluster\<lparr>torrents := [deleting_torrent]\<rparr>)
         (fresh_runtime (300 * Second)) deleting_torrent) = None
   \<and> torrents (store (handleDeletion quiet_world 9 (lonely_cluster\<lparr>torrents := [deleting_torrent]\<rparr>)
         (fresh_runtime (300 * Second)) deleting_torrent)) = []
   \<and> fst (getQBTClient stubborn_world 9 (served_cluster deleting_torrent)
         (fresh_runtime (300 * Second)) deleting_torrent) = Inr demo_client
   \<and> DeleteTorrent stubborn_world demo_client (TorrentStatus.Hash (Torrent.Status deleting_torrent)) True
       = Some (New ''engine unreachable'')
   \<and> (\<exists>obj c.
          result (handleDeletion stubborn_world 9 (served_cluster deleting_torrent)
                    (fresh_runtime (300 * Second)) deleting_torrent) = Result_after (10 * Second)
        \<and> failure (handleDeletion stubborn_world 9 (served_cluster deleting_torrent)
                    (fresh_runtime (300 * Second)) deleting_torrent) = None
        \<and> object (handleDeletion stubborn_world 9 (served_cluster deleting_torrent)
                    (fresh_runtime (300 * Second)) deleting_torrent) = Some obj
        \<and> FindStatusCondition (TorrentStatus.Conditions (Torrent.Status obj)) ''Degraded'' = Some c
        \<and> Reason c = ''FailedToDeleteTorrent''
        \<and> Message c = ''engine unreachable'')
   \<and> map Finalizers (torrents (store (handleDeletion stubborn_world 9 (served_cluster deleting_torrent)
                    (fresh_runtime (300 * Second)) deleting_torrent))) = [[TorrentFinalizer]]
   \<and> fst (getQBTClient quiet_world 9 (served_cluster deleting_torrent)
         (fresh_runtime (300 * Second)) deleting_torrent) = Inr demo_client
   \<and> DeleteTorrent quiet_world demo_client (TorrentStatus.Hash (Torrent.Status deleting_torrent)) True = None
   \<and> failure (handleDeletion quiet_world 9 (served_cluster deleting_torrent)
         (fresh_runtime (300 * Second)) deleting_torrent) = None
   \<and> TorrentStatus.Hash (Torrent.Status (demo_torrent\<lparr>DeletionTimestamp := Some 5\<rparr>)) = []
   \<and> failure (handleDeletion quiet_world 9 lonely_cluster (fresh_runtime (300 * Second))
         (demo_torrent\<lparr>DeletionTimestamp := Some 5\<rparr>)) = None
   \<and> failure (removeFinalizerAndUpdate quiet_world (lonely_cluster\<lparr>torrents := []\<rparr>)
         (fresh_runtime (300 * Second)) deleting_torrent) \<noteq> None
   \<and> store (removeFinalizerAndUpdate quiet_world (lonely_cluster\<lparr>torrents := []\<rparr>)
         (fresh_runtime (300 * Second)) deleting_torrent) = lonely_cluster\<lparr>torrents := []\<rparr>"
proof -
  let ?rt = "fresh_runtime (300 * Second)"
  let ?clA = "lonely_cluster\<lparr>torrents := [deleting_torrent]\<rparr>"
  let ?clB = "served_cluster deleting_torrent"
  let ?clE = "lonely_cluster\<lparr>torrents := []\<rparr>"
  let ?tD = "demo_torrent\<lparr>DeletionTimestamp := Some 5\<rparr>"
  have h: "TorrentStatus.Hash (Torrent.Status deleting_torrent) \<noteq> []"
    by (simp add: deleting_torrent_def demo_torrent_def)
  have df: "(case DeleteFilesOnRemoval (Torrent.Spec deleting_torrent) of None \<Rightarrow> True | Some b \<Rightarrow> b) = True"
    by (simp add: deleting_torrent_def demo_torrent_def)
  \<comment> \<open>resolution fails\<close>
  have gA: "getQBTClient quiet_world 9 ?clA ?rt deleting_torrent
       = (Inl (New ''no TorrentClientConfiguration found in namespace default''), deleting_torrent, ?rt)"
    by (simp add: getQBTClient_def apiList_def quiet_world_def lonely_cluster_def
        deleting_torrent_def demo_torrent_def)
  note iA = handleDeletion_finalizer_policy
    [where w = quiet_world and now = 9 and cl = ?clA and rt = ?rt and torrent = deleting_torrent
       and e = "New ''no TorrentClientConfiguration found in namespace default''"
       and ?torrent1.0 = deleting_torrent and ?rt1.0 = ?rt
       and rt' = ?rt and torrent' = deleting_torrent]
  from iA h gA have eA: "handleDeletion quiet_world 9 ?clA ?rt deleting_torrent
      = removeFinalizerAndUpdate quiet_world ?clA ?rt deleting_torrent" by blast
  have fA0: "api_fault quiet_world 168 = None \<and> find (same_object deleting_torrent) (torrents ?clA) \<noteq> None"
    by (simp add: quiet_world_def same_object_def)
  from iA fA0 have fA1: "failure (removeFinalizerAndUpdate quiet_world ?clA ?rt deleting_torrent) = None"
    by blast
  have sA1: "torrents (store (removeFinalizerAndUpdate quiet_world ?clA ?rt deleting_torrent)) = []"
    by (simp add: removeFinalizerAndUpdate_def Update_Torrent_def RemoveFinalizer_def Let_def
        quiet_world_def same_object_def deleting_torrent_def demo_torrent_def
        DeletionTimestamp_IsZero_def IsZero_def)
  from eA fA1 sA1 have rA: "failure (handleDeletion quiet_world 9 ?clA ?rt deleting_torrent) = None"
    "torrents (store (handleDeletion quiet_world 9 ?clA ?rt deleting_torrent)) = []" by simp_all
  \<comment> \<open>the remote delete fails\<close>
  let ?gB = "getQBTClient stubborn_world 9 ?clB ?rt deleting_torrent"
  have gB: "fst ?gB = Inr demo_client"
    by (simp add: getQBTClient_def apiList_def apiGet_def stubborn_world_def quiet_world_def
        served_cluster_def deleting_torrent_def demo_torrent_def available_tcc_def demo_tcc_def
        demo_secret_def newCondition_def TypeAvailableTCC_def secret_string_def GetOrCreate_def
        fresh_runtime_def NewClientPool_def NewClient_def demo_client_def Let_def split_beta)
  have gB': "?gB = (Inr demo_client, fst (snd ?gB), snd (snd ?gB))" using gB by (simp add: prod_eq_iff)
  have dB: "DeleteTorrent stubborn_world demo_client (TorrentStatus.Hash (Torrent.Status deleting_torrent)) True
       = Some (New ''engine unreachable'')"
    by (simp add: stubborn_world_def quiet_world_def)
  note iB = handleDeletion_finalizer_policy
    [where w = stubborn_world and now = 9 and cl = ?clB and rt = ?rt and torrent = deleting_torrent
       and qbtClient = demo_client and ?torrent1.0 = "fst (snd ?gB)" and ?rt1.0 = "snd (snd ?gB)"
       and e' = "New ''engine unreachable''"]
  from iB h gB' dB df have "\<exists>obj c.
          result (handleDeletion stubborn_world 9 ?clB ?rt deleting_torrent) = Result_after (10 * Second)
        \<and> failure (handleDeletion stubborn_world 9 ?clB ?rt deleting_torrent) = None
        \<and> object (handleDeletion stubborn_world 9 ?clB ?rt deleting_torrent) = Some obj
        \<and> FindStatusCondition (TorrentStatus.Conditions (Torrent.Status obj)) ''Degraded'' = Some c
        \<and> Condition.Status c = ConditionTrue
        \<and> Reason c = ''FailedToDeleteTorrent''
        \<and> Message c = Error (New ''engine unreachable'')
        \<and> (Finalizers obj = Finalizers deleting_torrent
            \<or> obj \<in> set (torrents (store (handleDeletion stubborn_world 9 ?clB ?rt deleting_torrent))))
        \<and> map Finalizers (torrents (store (handleDeletion stubborn_world 9 ?clB ?rt deleting_torrent)))
            = map Finalizers (torrents ?clB)
        \<and> store (handleDeletion stubborn_world 9 ?clB ?rt deleting_torrent) =
            snd (StatusUpdate_Torrent stubborn_world 158 ?clB
                   (TorrentReconciler_setDegradedCondition 9 (fst (snd ?gB))
                      ''FailedToDeleteTorrent'' (Error (New ''engine unreachable''))))"
    by simp
  then obtain obj c where
      b1: "result (handleDeletion stubborn_world 9 ?clB ?rt deleting_torrent) = Result_after (10 * Second)"
    and b2: "failure (handleDeletion stubborn_world 9 ?clB ?rt deleting_torrent) = None"
    and b3: "object (handleDeletion stubborn_world 9 ?clB ?rt deleting_torrent) = Some obj"
    and b4: "FindStatusCondition (TorrentStatus.Conditions (Torrent.Status obj)) ''Degraded'' = Some c"
    and b5: "Reason c = ''FailedToDeleteTorrent''"
    and b6: "Message c = Error (New ''engine unreachable'')"
    and b7: "map Finalizers (torrents (store (handleDeletion stubborn_world 9 ?clB ?rt deleting_torrent)))
            = map Finalizers (torrents ?clB)"
    by blast
  have mB: "map Finalizers (torrents ?clB) = [[TorrentFinalizer]]"
    by (simp add: served_cluster_def deleting_torrent_def demo_torrent_def)
  from b1 b2 b3 b4 b5 b6 have rB: "\<exists>obj c.
          result (handleDeletion stubborn_world 9 ?clB ?rt deleting_torrent) = Result_after (10 * Second)
        \<and> failure (handleDeletion stubborn_world 9 ?clB ?rt deleting_torrent) = None
        \<and> object (handleDeletion stubborn_world 9 ?clB ?rt deleting_torrent) = Some obj
        \<and> FindStatusCondition (TorrentStatus.Conditions (Torrent.Status obj)) ''Degraded'' = Some c
        \<and> Reason c = ''FailedToDeleteTorrent''
        \<and> Message c = ''engine unreachable''"
    by auto
  from b7 mB have rB2: "map Finalizers (torrents (store (handleDeletion stubborn_world 9 ?clB ?rt deleting_torrent)))
      = [[TorrentFinalizer]]" by simp
  \<comment> \<open>the remote delete succeeds\<close>
  let ?gC = "getQBTClient quiet_world 9 ?clB ?rt deleting_torrent"
  have gC: "fst ?gC = Inr demo_client"
    by (simp add: getQBTClient_def apiList_def apiGet_def quiet_world_def
        served_cluster_def deleting_torrent_def demo_torrent_def available_tcc_def demo_tcc_def
        demo_secret_def newCondition_def TypeAvailableTCC_def secret_string_def GetOrCreate_def
        fresh_runtime_def NewClientPool_def NewClient_def demo_client_def Let_def split_beta)
  have gC': "?gC = (Inr demo_client, fst (snd ?gC), snd (snd ?gC))" using gC by (simp add: prod_eq_iff)
  have dC: "DeleteTorrent quiet_world demo_client (TorrentStatus.Hash (Torrent.Status deleting_torrent)) True = None"
    by (simp add: quiet_world_def)
  note iC = handleDeletion_finalizer_policy
    [where w = quiet_world and now = 9 and cl = ?clB and rt = ?rt and torrent = deleting_torrent
       and qbtClient = demo_client and ?torrent1.0 = "fst (snd ?gC)" and ?rt1.0 = "snd (snd ?gC)"
       and rt' = "snd (snd ?gC)" and torrent' = "fst (snd ?gC)"]
  from iC h gC' dC df have eC: "handleDeletion quiet_world 9 ?clB ?rt deleting_torrent
      = removeFinalizerAndUpdate quiet_world ?clB (snd (snd ?gC)) (fst (snd ?gC))" by simp
  have sC: "same_object (fst (snd ?gC)) = same_object deleting_torrent"
    using getQBTClient_keeps(4,5) [OF gC'] by (intro ext) (simp add: same_object_def)
  have fC0: "api_fault quiet_world 168 = None \<and> find (same_object (fst (snd ?gC))) (torrents ?clB) \<noteq> None"
    unfolding sC by (simp add: quiet_world_def same_object_def served_cluster_def)
  from iC fC0 have "failure (removeFinalizerAndUpdate quiet_world ?clB (snd (snd ?gC)) (fst (snd ?gC))) = None"
    by blast
  with eC have rC: "failure (handleDeletion quiet_world 9 ?clB ?rt deleting_torrent) = None" by simp
  \<comment> \<open>no hash was recorded\<close>
  have hD: "TorrentStatus.Hash (Torrent.Status ?tD) = []" by (simp add: demo_torrent_def)
  note iD = handleDeletion_finalizer_policy
    [where w = quiet_world and now = 9 and cl = lonely_cluster and rt = ?rt and torrent = ?tD
       and rt' = ?rt and torrent' = ?tD]
  from iD hD have eD: "handleDeletion quiet_world 9 lonely_cluster ?rt ?tD
      = removeFinalizerAndUpdate quiet_world lonely_cluster ?rt ?tD" by blast
  have fD0: "api_fault quiet_world 168 = None \<and> find (same_object ?tD) (torrents lonely_cluster) \<noteq> None"
    by (simp add: quiet_world_def same_object_def lonely_cluster_def)
  from iD fD0 have "failure (removeFinalizerAndUpdate quiet_world lonely_cluster ?rt ?tD) = None" by blast
  with eD have rD: "failure (handleDeletion quiet_world 9 lonely_cluster ?rt ?tD) = None" by simp
  \<comment> \<open>the write fails\<close>
  note iE = handleDeletion_finalizer_policy
    [where w = quiet_world and cl = ?clE and rt' = ?rt and torrent' = deleting_torrent]
  have fE0: "\<not> (api_fault quiet_world 168 = None \<and> find (same_object deleting_torrent) (torrents ?clE) \<noteq> None)"
    by simp
  from iE fE0 have rE1: "failure (removeFinalizerAndUpdate quiet_world ?clE ?rt deleting_torrent) \<noteq> None"
    by blast
  with iE have rE2: "store (removeFinalizerAndUpdate quiet_world ?clE ?rt deleting_torrent) = ?clE"
    by blast
  from h gA rA gB dB rB rB2 gC dC rC hD rD rE1 rE2 show ?thesis by blast
qed

section \<open>Explicit references\<close>

lemma getQBTClient_multiple:
  assumes "ClientConfigRef (Torrent.Spec torrent) = Some refName"
    and "apiGet w 186 (tccs cl) tccs_resource (Namespace torrent) refName = Inr referenced"
    and "apiList w 197 (tccs cl) (Namespace torrent) = Inr (a # b # items)"
  shows "getQBTClient w now cl rt torrent =
           (Inl (New (''multiple TorrentClientConfigurations found in namespace ''
                      @ Namespace torrent @ ''; set spec.clientConfigRef to select one'')),
            torrent, rt)"
  using assms by (simp add: getQBTClient_def)

lemma getQBTClient_not_found:
  assumes "ClientConfigRef (Torrent.Spec torrent) = Some refName"
    and "apiGet w 186 (tccs cl) tccs_resource (Namespace torrent) refName = Inl err"
  shows "getQBTClient w now cl rt torrent =
           (Inl (Wrap (''referenced TorrentClientConfiguration '' @ Quote refName
                       @ '' not found: '' @ Error err) err), torrent, rt)"
  using assms by (simp add: getQBTClient_def)

lemma getQBTClient_ignores_reference:
  assumes "ClientConfigRef (Torrent.Spec torrent) = Some refName"
    and "apiGet w 186 (tccs cl) tccs_resource (Namespace torrent) refName = Inr referenced"
  shows "getQBTClient w now cl rt torrent =
           (case getQBTClient w now cl rt
                   (torrent\<lparr>Torrent.Spec := (Torrent.Spec torrent)\<lparr>ClientConfigRef := None\<rparr>\<rparr>) of
              (r, discovered, rt') \<Rightarrow>
                (r, discovered\<lparr>Torrent.Spec := Torrent.Spec torrent\<rparr>, rt'))"
  using assms
  by (simp add: getQBTClient_def Let_def split_beta split: sum.split list.split option.split)

lemma apiGet_member:
  "apiGet w line objs resource ns name = Inr obj \<Longrightarrow> obj \<in> set objs"
  by (auto simp: apiGet_def find_Some_iff split: option.splits)

lemma StatusUpdate_Torrent_names:
  assumes "t \<in> set (torrents cl)"
    and "TorrentStatus.ClientConfigurationName (Torrent.Status t2)
           = TorrentStatus.ClientConfigurationName (Torrent.Status t)"
  shows "set (map (\<lambda>obj. TorrentStatus.ClientConfigurationName (Torrent.Status obj))
                (torrents (snd (StatusUpdate_Torrent w line cl t2))))
         \<subseteq> set (map (\<lambda>obj. TorrentStatus.ClientConfigurationName (Torrent.Status obj))
                  (torrents cl))"
  using assms by (auto simp: StatusUpdate_Torrent_def wire_Torrent_status_def split: option.splits)

lemma CCN_setDegraded:
  "TorrentStatus.ClientConfigurationName
     (Torrent.Status (TorrentReconciler_setDegradedCondition now t reason message))
   = TorrentStatus.ClientConfigurationName (Torrent.Status t)"
  by (simp add: setDegraded_Torrent_as_call)

text \<open>
  C9.  The name of an explicitly selected configuration is not recorded.  Steady
  state: the request names a work item of the cluster that is not being deleted and
  carries the finalizer.  If the work item has an explicit reference, the referenced
  configuration exists, and the namespace holds two or more configurations, then
  the reconcile reports \<open>Degraded\<close> with reason \<open>ClientResolutionFailed\<close> and the
  message that multiple configurations were found, returns a re-queue after 15
  seconds with a nil error, and records nothing: the object it returns has the
  \<open>Status.ClientConfigurationName\<close> the fetched object had, and the work items of
  the cluster carry no configuration name that they did not carry before.
\<close>

theorem Reconcile_explicit_reference_not_recorded:
  assumes "apiGet w 51 (torrents cl) torrents_resource ns name = Inr torrent"
    and "DeletionTimestamp_IsZero (DeletionTimestamp torrent)"
    and "ContainsFinalizer torrent TorrentFinalizer"
    and "ClientConfigRef (Torrent.Spec torrent) = Some refName"
    and "apiGet w 186 (tccs cl) tccs_resource (Namespace torrent) refName = Inr referenced"
    and "apiList w 197 (tccs cl) (Namespace torrent) = Inr (a # b # items)"
  shows "\<exists>out obj c.
            Reconcile w now cl rt ns name = Some out
          \<and> result out = Result_after (15 * Second)
          \<and> failure out = None
          \<and> object out = Some obj
          \<and> TorrentStatus.ClientConfigurationName (Torrent.Status obj)
              = TorrentStatus.ClientConfigurationName (Torrent.Status torrent)
          \<and> FindStatusCondition (TorrentStatus.Conditions (Torrent.Status obj)) ''Degraded'' = Some c
          \<and> Reason c = ''ClientResolutionFailed''
          \<and> Message c = ''multiple TorrentClientConfigurations found in namespace ''
                          @ Namespace torrent @ ''; set spec.clientConfigRef to select one''
          \<and> set (map (\<lambda>obj. TorrentStatus.ClientConfigurationName (Torrent.Status obj))
                    (torrents (store out)))
              \<subseteq> set (map (\<lambda>obj. TorrentStatus.ClientConfigurationName (Torrent.Status obj))
                      (torrents cl))"
proof -
  let ?e = "New (''multiple TorrentClientConfigurations found in namespace ''
                      @ Namespace torrent @ ''; set spec.clientConfigRef to select one'')"
  let ?t2 = "TorrentReconciler_setDegradedCondition now torrent ''ClientResolutionFailed'' (Error ?e)"
  let ?out = "\<lparr>result = Result_after (15 * Second), failure = None,
           object = Some (fst (StatusUpdate_logged w 77 cl ?t2)),
           store = snd (StatusUpdate_logged w 77 cl ?t2), proc = rt\<rparr>"
  have g: "getQBTClient w now cl rt torrent = (Inl ?e, torrent, rt)"
    by (rule getQBTClient_multiple [OF assms(4,5,6)])
  have r: "Reconcile w now cl rt ns name = Some ?out"
    by (rule Reconcile_resolution_failure [OF assms(1,2,3) g])
  have n: "TorrentStatus.ClientConfigurationName (Torrent.Status ?t2)
             = TorrentStatus.ClientConfigurationName (Torrent.Status torrent)"
    by (rule CCN_setDegraded)
  have s: "TorrentStatus.ClientConfigurationName
             (Torrent.Status (fst (StatusUpdate_logged w 77 cl ?t2)))
             = TorrentStatus.ClientConfigurationName (Torrent.Status torrent)"
    by (simp only: StatusUpdate_logged_name n)
  from setDegraded_Torrent_conditions [of now torrent "''ClientResolutionFailed''" "Error ?e"]
  obtain c0 where c0: "FindStatusCondition (TorrentStatus.Conditions (Torrent.Status ?t2)) ''Degraded'' = Some c0"
    "Reason c0 = ''ClientResolutionFailed''" "Message c0 = Error ?e"
    by blast
  from StatusUpdate_logged_condition [OF c0(1), of w 77 cl] c0(2,3)
  obtain c where c: "FindStatusCondition
        (TorrentStatus.Conditions (Torrent.Status (fst (StatusUpdate_logged w 77 cl ?t2)))) ''Degraded'' = Some c"
    "Reason c = ''ClientResolutionFailed''" "Message c = Error ?e"
    by auto
  have m: "torrent \<in> set (torrents cl)" by (rule apiGet_member [OF assms(1)])
  have st: "set (map (\<lambda>obj. TorrentStatus.ClientConfigurationName (Torrent.Status obj))
                    (torrents (store ?out)))
              \<subseteq> set (map (\<lambda>obj. TorrentStatus.ClientConfigurationName (Torrent.Status obj))
                      (torrents cl))"
    using StatusUpdate_Torrent_names [OF m n, of w 77]
    by (simp only: outcome.simps StatusUpdate_logged_store)
  have e: "Error ?e = ''multiple TorrentClientConfigurations found in namespace ''
                          @ Namespace torrent @ ''; set spec.clientConfigRef to select one''"
    by simp
  show ?thesis
    apply (rule exI [of _ ?out])
    apply (rule exI [of _ "fst (StatusUpdate_logged w 77 cl ?t2)"])
    apply (rule exI [of _ c])
    using r s c st unfolding e by simp
qed

theorem Reconcile_explicit_reference_not_recorded_witness:
  "apiGet quiet_world 51 (torrents two_tcc_cluster) torrents_resource ''default'' ''bunny''
     = Inr (ref_torrent ''a'')
   \<and> DeletionTimestamp_IsZero (DeletionTimestamp (ref_torrent ''a''))
   \<and> ContainsFinalizer (ref_torrent ''a'') TorrentFinalizer
   \<and> ClientConfigRef (Torrent.Spec (ref_torrent ''a'')) = Some ''a''
   \<and> apiGet quiet_world 186 (tccs two_tcc_cluster) tccs_resource (Namespace (ref_torrent ''a'')) ''a''
       = Inr (available_tcc ''a'' 0)
   \<and> (\<exists>c. FindStatusCondition
              (TorrentClientConfigurationStatus.Conditions
                 (TorrentClientConfiguration.Status (available_tcc ''a'' 0))) TypeAvailableTCC = Some c
          \<and> Condition.Status c = ConditionTrue)
   \<and> apiList quiet_world 197 (tccs two_tcc_cluster) (Namespace (ref_torrent ''a''))
       = Inr [available_tcc ''a'' 0, available_tcc ''b'' 0]
   \<and> (\<exists>out obj c.
          Reconcile quiet_world 0 two_tcc_cluster (fresh_runtime (300 * Second)) ''default'' ''bunny''
            = Some out
        \<and> result out = Result_after (15 * Second)
        \<and> failure out = None
        \<and> object out = Some obj
        \<and> TorrentStatus.ClientConfigurationName (Torrent.Status obj) = []
        \<and> FindStatusCondition (TorrentStatus.Conditions (Torrent.Status obj)) ''Degraded'' = Some c
        \<and> Reason c = ''ClientResolutionFailed''
        \<and> Message c = ''multiple TorrentClientConfigurations found in namespace default; set spec.clientConfigRef to select one''
        \<and> set (map (\<lambda>obj. TorrentStatus.ClientConfigurationName (Torrent.Status obj))
                  (torrents (store out))) \<subseteq> {[]})"
proof -
  let ?rt = "fresh_runtime (300 * Second)"
  have a1: "apiGet quiet_world 51 (torrents two_tcc_cluster) torrents_resource ''default'' ''bunny''
     = Inr (ref_torrent ''a'')"
    by (simp add: apiGet_def quiet_world_def two_tcc_cluster_def ref_torrent_def demo_torrent_def)
  have a2: "DeletionTimestamp_IsZero (DeletionTimestamp (ref_torrent ''a''))"
    by (simp add: DeletionTimestamp_IsZero_def ref_torrent_def demo_torrent_def)
  have a3: "ContainsFinalizer (ref_torrent ''a'') TorrentFinalizer"
    by (simp add: ContainsFinalizer_def ref_torrent_def demo_torrent_def)
  have a4: "ClientConfigRef (Torrent.Spec (ref_torrent ''a'')) = Some ''a''"
    by (simp add: ref_torrent_def)
  have a5: "apiGet quiet_world 186 (tccs two_tcc_cluster) tccs_resource (Namespace (ref_torrent ''a'')) ''a''
       = Inr (available_tcc ''a'' 0)"
    by (simp add: apiGet_def quiet_world_def two_tcc_cluster_def ref_torrent_def demo_torrent_def
        available_tcc_def demo_tcc_def)
  have av: "\<exists>c. FindStatusCondition
              (TorrentClientConfigurationStatus.Conditions
                 (TorrentClientConfiguration.Status (available_tcc ''a'' 0))) TypeAvailableTCC = Some c
          \<and> Condition.Status c = ConditionTrue"
    by (simp add: available_tcc_def demo_tcc_def newCondition_def TypeAvailableTCC_def)
  have a6: "apiList quiet_world 197 (tccs two_tcc_cluster) (Namespace (ref_torrent ''a''))
       = Inr [available_tcc ''a'' 0, available_tcc ''b'' 0]"
    by (simp add: apiList_def quiet_world_def two_tcc_cluster_def ref_torrent_def demo_torrent_def
        available_tcc_def demo_tcc_def)
  have n0: "TorrentStatus.ClientConfigurationName (Torrent.Status (ref_torrent ''a'')) = []"
    by (simp add: ref_torrent_def demo_torrent_def)
  have ns: "Namespace (ref_torrent ''a'') = ''default''"
    by (simp add: ref_torrent_def demo_torrent_def)
  have names: "set (map (\<lambda>obj. TorrentStatus.ClientConfigurationName (Torrent.Status obj))
                  (torrents two_tcc_cluster)) = {[]}"
    by (simp add: two_tcc_cluster_def n0)
  note i = Reconcile_explicit_reference_not_recorded [OF a1 a2 a3 a4 a5 a6, of 0 ?rt]
  have r: "\<exists>out obj c.
          Reconcile quiet_world 0 two_tcc_cluster ?rt ''default'' ''bunny'' = Some out
        \<and> result out = Result_after (15 * Second)
        \<and> failure out = None
        \<and> object out = Some obj
        \<and> TorrentStatus.ClientConfigurationName (Torrent.Status obj) = []
        \<and> FindStatusCondition (TorrentStatus.Conditions (Torrent.Status obj)) ''Degraded'' = Some c
        \<and> Reason c = ''ClientResolutionFailed''
        \<and> Message c = ''multiple TorrentClientConfigurations found in namespace default; set spec.clientConfigRef to select one''
        \<and> set (map (\<lambda>obj. TorrentStatus.ClientConfigurationName (Torrent.Status obj))
                  (torrents (store out))) \<subseteq> {[]}"
    using i unfolding n0 ns names by simp
  from a1 a2 a3 a4 a5 av a6 r show ?thesis by blast
qed

section \<open>Resolution with an explicit reference\<close>

text \<open>
  C1.  For a work item with an explicit reference: when the referenced configuration
  cannot be fetched, \<open>getQBTClient\<close> returns at once with an error that wraps the
  fetch error (a not-found error when the object does not exist), whatever else the
  namespace holds.  When the referenced configuration exists, it is not the one
  selected: \<open>getQBTClient\<close> goes on to the list of the namespace and returns what
  it returns for the same work item without the reference; with two or more
  configurations in the namespace that is the error that multiple configurations
  were found.
\<close>

theorem getQBTClient_explicit_reference:
  assumes "ClientConfigRef (Torrent.Spec torrent) = Some refName"
  shows "(apiGet w 186 (tccs cl) tccs_resource (Namespace torrent) refName = Inl err \<longrightarrow>
            getQBTClient w now cl rt torrent =
              (Inl (Wrap (''referenced TorrentClientConfiguration '' @ Quote refName
                          @ '' not found: '' @ Error err) err), torrent, rt))
         \<and> (apiGet w 186 (tccs cl) tccs_resource (Namespace torrent) refName = Inr referenced \<longrightarrow>
              getQBTClient w now cl rt torrent =
                (case getQBTClient w now cl rt
                        (torrent\<lparr>Torrent.Spec := (Torrent.Spec torrent)\<lparr>ClientConfigRef := None\<rparr>\<rparr>) of
                   (r, discovered, rt') \<Rightarrow>
                     (r, discovered\<lparr>Torrent.Spec := Torrent.Spec torrent\<rparr>, rt')))
         \<and> (apiGet w 186 (tccs cl) tccs_resource (Namespace torrent) refName = Inr referenced
              \<and> apiList w 197 (tccs cl) (Namespace torrent) = Inr (a # b # items) \<longrightarrow>
              getQBTClient w now cl rt torrent =
                (Inl (New (''multiple TorrentClientConfigurations found in namespace ''
                           @ Namespace torrent @ ''; set spec.clientConfigRef to select one'')),
                 torrent, rt))"
  using getQBTClient_not_found [OF assms] getQBTClient_ignores_reference [OF assms]
    getQBTClient_multiple [OF assms]
  by blast

theorem getQBTClient_explicit_reference_witness:
  "ClientConfigRef (Torrent.Spec (ref_torrent ''a'')) = Some ''a''
   \<and> apiGet quiet_world 186 (tccs two_tcc_cluster) tccs_resource (Namespace (ref_torrent ''a'')) ''a''
       = Inr (available_tcc ''a'' 0)
   \<and> apiList quiet_world 197 (tccs two_tcc_cluster) (Namespace (ref_torrent ''a''))
       = Inr [available_tcc ''a'' 0, available_tcc ''b'' 0]
   \<and> getQBTClient quiet_world 0 two_tcc_cluster (fresh_runtime (300 * Second)) (ref_torrent ''a'')
       = (Inl (New ''multiple TorrentClientConfigurations found in namespace default; set spec.clientConfigRef to select one''),
          ref_torrent ''a'', fresh_runtime (300 * Second))
   \<and> ClientConfigRef (Torrent.Spec (ref_torrent ''ghost'')) = Some ''ghost''
   \<and> apiGet quiet_world 186 (tccs (served_cluster (ref_torrent ''ghost''))) tccs_resource
         (Namespace (ref_torrent ''ghost'')) ''ghost''
       = Inl (NotFound (tccs_resource @ '' '' @ Quote ''ghost'' @ '' not found''))
   \<and> (\<exists>e. getQBTClient quiet_world 0 (served_cluster (ref_torrent ''ghost''))
              (fresh_runtime (300 * Second)) (ref_torrent ''ghost'')
            = (Inl e, ref_torrent ''ghost'', fresh_runtime (300 * Second))
          \<and> IsNotFound e)"
proof -
  let ?rt = "fresh_runtime (300 * Second)"
  have a4: "ClientConfigRef (Torrent.Spec (ref_torrent ''a'')) = Some ''a''"
    by (simp add: ref_torrent_def)
  have a5: "apiGet quiet_world 186 (tccs two_tcc_cluster) tccs_resource (Namespace (ref_torrent ''a'')) ''a''
       = Inr (available_tcc ''a'' 0)"
    by (simp add: apiGet_def quiet_world_def two_tcc_cluster_def ref_torrent_def demo_torrent_def
        available_tcc_def demo_tcc_def)
  have a6: "apiList quiet_world 197 (tccs two_tcc_cluster) (Namespace (ref_torrent ''a''))
       = Inr [available_tcc ''a'' 0, available_tcc ''b'' 0]"
    by (simp add: apiList_def quiet_world_def two_tcc_cluster_def ref_torrent_def demo_torrent_def
        available_tcc_def demo_tcc_def)
  have ns: "Namespace (ref_torrent ''a'') = ''default''"
    by (simp add: ref_torrent_def demo_torrent_def)
  note i = getQBTClient_explicit_reference [OF a4, where w = quiet_world and cl = two_tcc_cluster
      and now = 0 and rt = ?rt and referenced = "available_tcc ''a'' 0"
      and a = "available_tcc ''a'' 0" and b = "available_tcc ''b'' 0" and items = "[]"]
  from i a5 a6 have "getQBTClient quiet_world 0 two_tcc_cluster ?rt (ref_torrent ''a'')
       = (Inl (New (''multiple TorrentClientConfigurations found in namespace ''
                    @ Namespace (ref_torrent ''a'') @ ''; set spec.clientConfigRef to select one'')),
          ref_torrent ''a'', ?rt)"
    by blast
  then have r1: "getQBTClient quiet_world 0 two_tcc_cluster ?rt (ref_torrent ''a'')
       = (Inl (New ''multiple TorrentClientConfigurations found in namespace default; set spec.clientConfigRef to select one''),
          ref_torrent ''a'', ?rt)"
    by (simp add: ns)
  have b4: "ClientConfigRef (Torrent.Spec (ref_torrent ''ghost'')) = Some ''ghost''"
    by (simp add: ref_torrent_def)
  have b5: "apiGet quiet_world 186 (tccs (served_cluster (ref_torrent ''ghost''))) tccs_resource
         (Namespace (ref_torrent ''ghost'')) ''ghost''
       = Inl (NotFound (tccs_resource @ '' '' @ Quote ''ghost'' @ '' not found''))"
    by (simp add: apiGet_def quiet_world_def served_cluster_def ref_torrent_def demo_torrent_def
        available_tcc_def demo_tcc_def)
  note j = getQBTClient_explicit_reference [OF b4, where w = quiet_world
      and cl = "served_cluster (ref_torrent ''ghost'')" and now = 0 and rt = ?rt
      and err = "NotFound (tccs_resource @ '' '' @ Quote ''ghost'' @ '' not found'')"]
  from j b5 have "getQBTClient quiet_world 0 (served_cluster (ref_torrent ''ghost''))
              ?rt (ref_torrent ''ghost'')
            = (Inl (Wrap (''referenced TorrentClientConfiguration '' @ Quote ''ghost''
                          @ '' not found: ''
                          @ Error (NotFound (tccs_resource @ '' '' @ Quote ''ghost'' @ '' not found'')))
                      (NotFound (tccs_resource @ '' '' @ Quote ''ghost'' @ '' not found''))),
               ref_torrent ''ghost'', ?rt)"
    by blast
  then have r2: "\<exists>e. getQBTClient quiet_world 0 (served_cluster (ref_torrent ''ghost''))
              ?rt (ref_torrent ''ghost'')
            = (Inl e, ref_torrent ''ghost'', ?rt) \<and> IsNotFound e"
    by simp
  from a4 a5 a6 r1 b4 b5 r2 show ?thesis by blast
qed

section \<open>The configuration reconcile\<close>

lemma setDegraded_TCC_as_call:
  "TorrentClientConfigurationReconciler_setDegradedCondition now tcc reason message =
     tcc\<lparr>TorrentClientConfiguration.Status := (TorrentClientConfiguration.Status tcc)
       \<lparr>TorrentClientConfigurationStatus.Conditions :=
          call_conditions (SetDegraded now reason message)
            (TorrentClientConfigurationStatus.Conditions (TorrentClientConfiguration.Status tcc))\<rparr>\<rparr>"
  by (simp add: TorrentClientConfigurationReconciler_setDegradedCondition_def Let_def
      TypeAvailableTCC_def TypeDegradedTCC_def)

lemma setAvailable_TCC_as_call:
  "TorrentClientConfigurationReconciler_setAvailableCondition now tcc reason message =
     tcc\<lparr>TorrentClientConfiguration.Status := (TorrentClientConfiguration.Status tcc)
       \<lparr>TorrentClientConfigurationStatus.Conditions :=
          call_conditions (SetAvailable now reason message)
            (TorrentClientConfigurationStatus.Conditions (TorrentClientConfiguration.Status tcc))\<rparr>\<rparr>"
  by (simp add: TorrentClientConfigurationReconciler_setAvailableCondition_def Let_def
      TypeAvailableTCC_def TypeDegradedTCC_def)

lemma if_flip: "(if a \<noteq> b then x else y) = (if a = b then y else x)"
  by simp

lemma find_map_key:
  assumes "find P xs = Some x" and "\<And>y. P (f y) = P y"
  shows "find P (map f xs) = Some (f x)"
  using assms(1) by (induction xs) (auto simp: assms(2) split: if_splits)

lemma apiGet_found:
  assumes "apiGet w line objs resource ns name = Inr obj"
  shows "find (\<lambda>obj. Namespace obj = ns \<and> ObjectMeta.Name obj = name) objs = Some obj"
    and "Namespace obj = ns" and "ObjectMeta.Name obj = name"
  using assms by (auto simp: apiGet_def find_Some_iff split: option.splits)

lemma wire_status_reports:
  assumes "LastChecked s = Some now" and "\<not> IsZero now"
    and "status_reports s now connected reason"
  shows "status_reports (wire_TCC_status s) now connected reason"
  using assms
  by (auto simp: status_reports_def wire_TCC_status_def Find_wire wire_condition_def
      split: option.splits)

lemma wire_status_length:
  "length (TorrentClientConfigurationStatus.Conditions (wire_TCC_status s))
     = length (TorrentClientConfigurationStatus.Conditions s)"
  by (simp add: wire_TCC_status_def)

lemma StatusUpdate_TCC_found:
  assumes f: "stored_tcc cl ns name = Some stored"
    and n: "Namespace t = ns" "ObjectMeta.Name t = name"
  shows "\<exists>cl'. StatusUpdate_TCC w line cl t =
           (case api_fault w line of
              Some e \<Rightarrow> (Inl e, cl)
            | None \<Rightarrow>
                (Inr (stored\<lparr>TorrentClientConfiguration.Status :=
                               wire_TCC_status (TorrentClientConfiguration.Status t)\<rparr>),
                 cl'))
         \<and> stored_tcc cl' ns name =
             Some (stored\<lparr>TorrentClientConfiguration.Status :=
                            wire_TCC_status (TorrentClientConfiguration.Status t)\<rparr>)"
proof -
  have k: "same_object t = (\<lambda>obj. Namespace obj = ns \<and> ObjectMeta.Name obj = name)"
    using n by (auto simp: same_object_def fun_eq_iff)
  from f have fs: "find (same_object t) (tccs cl) = Some stored"
    by (simp add: k stored_tcc_def)
  let ?f = "\<lambda>obj. if same_object t obj
                    then obj\<lparr>TorrentClientConfiguration.Status :=
                               wire_TCC_status (TorrentClientConfiguration.Status t)\<rparr>
                    else obj"
  let ?cl' = "cl\<lparr>tccs := map ?f (tccs cl)\<rparr>"
  have u: "StatusUpdate_TCC w line cl t =
           (case api_fault w line of
              Some e \<Rightarrow> (Inl e, cl)
            | None \<Rightarrow>
                (Inr (stored\<lparr>TorrentClientConfiguration.Status :=
                               wire_TCC_status (TorrentClientConfiguration.Status t)\<rparr>),
                 ?cl'))"
    by (simp add: StatusUpdate_TCC_def fs split: option.split)
  from f have f': "find (\<lambda>obj. Namespace obj = ns \<and> ObjectMeta.Name obj = name) (tccs cl) = Some stored"
    by (simp add: stored_tcc_def)
  from f' have st: "same_object t stored" by (auto simp: k find_Some_iff)
  have "find (\<lambda>obj. Namespace obj = ns \<and> ObjectMeta.Name obj = name) (map ?f (tccs cl)) = Some (?f stored)"
    using f' by (rule find_map_key [where f = ?f]) simp
  then have "stored_tcc ?cl' ns name =
             Some (stored\<lparr>TorrentClientConfiguration.Status :=
                            wire_TCC_status (TorrentClientConfiguration.Status t)\<rparr>)"
    using st by (simp add: stored_tcc_def)
  with u show ?thesis by blast
qed

text \<open>
  What a degraded branch leaves, for a fetched object \<open>tcc\<close> that is the stored one:
  the outcome when the status write goes through, and when it does not.
\<close>

lemma degraded_return_cases:
  assumes f: "stored_tcc cl ns name = Some stored"
    and n: "Namespace tcc1 = ns" "ObjectMeta.Name tcc1 = name"
  shows "\<exists>cl'.
      stored_tcc cl' ns name =
        Some (stored\<lparr>TorrentClientConfiguration.Status :=
           wire_TCC_status ((TorrentClientConfiguration.Status tcc1)
                              \<lparr>Connected := False, LastChecked := Some now\<rparr>)\<rparr>)
    \<and> degraded_return w line now cl rt ci tcc1 =
        (case api_fault w line of
           None \<Rightarrow>
             \<lparr>result = Result_after ci, failure = None,
              object = Some (stored\<lparr>TorrentClientConfiguration.Status :=
                 wire_TCC_status ((TorrentClientConfiguration.Status tcc1)
                                    \<lparr>Connected := False, LastChecked := Some now\<rparr>)\<rparr>),
              store = cl', proc = rt\<rparr>
         | Some e \<Rightarrow>
             \<lparr>result = Result_after ci, failure = None,
              object = Some (tcc1\<lparr>TorrentClientConfiguration.Status :=
                 (TorrentClientConfiguration.Status tcc1)
                    \<lparr>Connected := False, LastChecked := Some now\<rparr>\<rparr>),
              store = cl, proc = rt\<rparr>)"
proof -
  let ?t3 = "tcc1\<lparr>TorrentClientConfiguration.Status := (TorrentClientConfiguration.Status tcc1)
                   \<lparr>Connected := False, LastChecked := Some now\<rparr>\<rparr>"
  have n3: "Namespace ?t3 = ns" "ObjectMeta.Name ?t3 = name" using n by simp_all
  from StatusUpdate_TCC_found [OF f n3, of w line]
  obtain cl' where u: "StatusUpdate_TCC w line cl ?t3 =
           (case api_fault w line of
              Some e \<Rightarrow> (Inl e, cl)
            | None \<Rightarrow>
                (Inr (stored\<lparr>TorrentClientConfiguration.Status :=
                               wire_TCC_status (TorrentClientConfiguration.Status ?t3)\<rparr>),
                 cl'))"
    and s: "stored_tcc cl' ns name =
             Some (stored\<lparr>TorrentClientConfiguration.Status :=
                            wire_TCC_status (TorrentClientConfiguration.Status ?t3)\<rparr>)"
    by blast
  have d: "degraded_return w line now cl rt ci tcc1 =
        (case api_fault w line of
           None \<Rightarrow>
             \<lparr>result = Result_after ci, failure = None,
              object = Some (stored\<lparr>TorrentClientConfiguration.Status :=
                 wire_TCC_status ((TorrentClientConfiguration.Status tcc1)
                                    \<lparr>Connected := False, LastChecked := Some now\<rparr>)\<rparr>),
              store = cl', proc = rt\<rparr>
         | Some e \<Rightarrow>
             \<lparr>result = Result_after ci, failure = None, object = Some ?t3, store = cl, proc = rt\<rparr>)"
  proof (cases "api_fault w line")
    case None
    with u have e: "StatusUpdate_TCC w line cl ?t3 =
        (Inr (stored\<lparr>TorrentClientConfiguration.Status :=
                       wire_TCC_status (TorrentClientConfiguration.Status ?t3)\<rparr>), cl')"
      by simp
    show ?thesis using None by (simp add: degraded_return_def Let_def e)
  next
    case (Some e)
    with u have e: "StatusUpdate_TCC w line cl ?t3 = (Inl e, cl)" by simp
    show ?thesis using Some by (simp add: degraded_return_def Let_def e)
  qed
  from s d show ?thesis
    apply (intro exI [of _ cl'])
    apply simp
    done
qed

lemma TCC_path_no_secret:
  assumes "apiGet w 46 (tccs cl) tccs_resource ns name = Inr tcc"
    and "apiGet w 63 (secrets cl) ''secrets'' (Namespace tcc)
           (CredentialsSecret (TorrentClientConfiguration.Spec tcc)) = Inl e"
  shows "TCC_Reconcile w now cl rt ns name =
     degraded_return w 69 now cl rt (effective_interval w tcc)
       (TorrentClientConfigurationReconciler_setDegradedCondition now tcc ''SecretNotFound''
          (''Credentials secret '' @ Quote (CredentialsSecret (TorrentClientConfiguration.Spec tcc))
           @ '' not found: '' @ Error e))"
  using assms by (simp add: TCC_Reconcile_def Let_def effective_interval_def if_flip)

lemma TCC_path_bad_secret:
  assumes "apiGet w 46 (tccs cl) tccs_resource ns name = Inr tcc"
    and "apiGet w 63 (secrets cl) ''secrets'' (Namespace tcc)
           (CredentialsSecret (TorrentClientConfiguration.Spec tcc)) = Inr secret"
    and "Data secret ''username'' = None \<or> Data secret ''password'' = None"
  shows "TCC_Reconcile w now cl rt ns name =
     degraded_return w 83 now cl rt (effective_interval w tcc)
       (TorrentClientConfigurationReconciler_setDegradedCondition now tcc ''SecretInvalid''
          (''Credentials secret '' @ Quote (CredentialsSecret (TorrentClientConfiguration.Spec tcc))
           @ '' missing '' @ CHR 0x27 # ''username'' @ CHR 0x27 # '' or ''
           @ CHR 0x27 # ''password'' @ CHR 0x27 # '' key''))"
proof -
  from assms(3) have i: "(if Data secret ''username'' = None \<or> Data secret ''password'' = None
       then x else y) = x" for x y :: "TorrentClientConfiguration outcome"
    by simp
  show ?thesis
    by (simp only: TCC_Reconcile_def Let_def assms(1,2) sum.case i effective_interval_def if_flip)
qed

lemma TCC_path_no_client:
  assumes "apiGet w 46 (tccs cl) tccs_resource ns name = Inr tcc"
    and "apiGet w 63 (secrets cl) ''secrets'' (Namespace tcc)
           (CredentialsSecret (TorrentClientConfiguration.Spec tcc)) = Inr secret"
    and "\<not> (Data secret ''username'' = None \<or> Data secret ''password'' = None)"
    and "GetOrCreate w now rt (TorrentClientConfigurationSpec.URL (TorrentClientConfiguration.Spec tcc))
           (secret_string secret ''username'') (secret_string secret ''password'') = (Inl e, rt1)"
  shows "TCC_Reconcile w now cl rt ns name =
     degraded_return w 102 now cl rt1 (effective_interval w tcc)
       (TorrentClientConfigurationReconciler_setDegradedCondition now tcc ''ClientCreationFailed''
          (''Failed to create qBittorrent client for ''
           @ TorrentClientConfigurationSpec.URL (TorrentClientConfiguration.Spec tcc)
           @ '': '' @ Error e))"
proof -
  from assms(3) have i: "(if Data secret ''username'' = None \<or> Data secret ''password'' = None
       then x else y) = y" for x y :: "TorrentClientConfiguration outcome"
    by (rule if_not_P)
  show ?thesis
    by (simp only: TCC_Reconcile_def Let_def assms(1,2,4) sum.case prod.case i
        effective_interval_def if_flip)
qed

lemma TCC_path_unhealthy:
  assumes "apiGet w 46 (tccs cl) tccs_resource ns name = Inr tcc"
    and "apiGet w 63 (secrets cl) ''secrets'' (Namespace tcc)
           (CredentialsSecret (TorrentClientConfiguration.Spec tcc)) = Inr secret"
    and "\<not> (Data secret ''username'' = None \<or> Data secret ''password'' = None)"
    and "GetOrCreate w now rt (TorrentClientConfigurationSpec.URL (TorrentClientConfiguration.Spec tcc))
           (secret_string secret ''username'') (secret_string secret ''password'') = (Inr qbtClient, rt1)"
    and "Ping w qbtClient = Some e"
  shows "TCC_Reconcile w now cl rt ns name =
     degraded_return w 115 now cl rt1 (effective_interval w tcc)
       (TorrentClientConfigurationReconciler_setDegradedCondition now tcc ''HealthCheckFailed''
          (''qBittorrent health check failed at ''
           @ TorrentClientConfigurationSpec.URL (TorrentClientConfiguration.Spec tcc)
           @ '': '' @ Error e))"
proof -
  from assms(3) have i: "(if Data secret ''username'' = None \<or> Data secret ''password'' = None
       then x else y) = y" for x y :: "TorrentClientConfiguration outcome"
    by (rule if_not_P)
  show ?thesis
    by (simp only: TCC_Reconcile_def Let_def assms(1,2,4,5) sum.case prod.case option.case i
        effective_interval_def if_flip)
qed

lemma TCC_path_connected:
  assumes "apiGet w 46 (tccs cl) tccs_resource ns name = Inr tcc"
    and "apiGet w 63 (secrets cl) ''secrets'' (Namespace tcc)
           (CredentialsSecret (TorrentClientConfiguration.Spec tcc)) = Inr secret"
    and "\<not> (Data secret ''username'' = None \<or> Data secret ''password'' = None)"
    and "GetOrCreate w now rt (TorrentClientConfigurationSpec.URL (TorrentClientConfiguration.Spec tcc))
           (secret_string secret ''username'') (secret_string secret ''password'') = (Inr qbtClient, rt1)"
    and "Ping w qbtClient = None"
  shows "TCC_Reconcile w now cl rt ns name =
     (let tcc1 = TorrentClientConfigurationReconciler_setAvailableCondition now tcc ''Connected''
                   (''Successfully connected to qBittorrent at ''
                    @ TorrentClientConfigurationSpec.URL (TorrentClientConfiguration.Spec tcc));
          tcc2 = tcc1\<lparr>TorrentClientConfiguration.Status :=
                   (TorrentClientConfiguration.Status tcc1)\<lparr>Connected := True\<rparr>\<rparr>;
          tcc3 = tcc2\<lparr>TorrentClientConfiguration.Status :=
                   (TorrentClientConfiguration.Status tcc2)\<lparr>LastChecked := Some now\<rparr>\<rparr>
      in case StatusUpdate_TCC w 128 cl tcc3 of
           (Inl e, cl') \<Rightarrow>
             \<lparr>result = Result_empty, failure = Some e, object = Some tcc3, store = cl', proc = rt1\<rparr>
         | (Inr response, cl') \<Rightarrow>
             \<lparr>result = Result_after (effective_interval w tcc), failure = None,
              object = Some response, store = cl', proc = rt1\<rparr>)"
proof -
  from assms(3) have i: "(if Data secret ''username'' = None \<or> Data secret ''password'' = None
       then x else y) = y" for x y :: "TorrentClientConfiguration outcome"
    by (rule if_not_P)
  show ?thesis
    by (simp only: TCC_Reconcile_def Let_def assms(1,2,4,5) sum.case prod.case option.case i
        effective_interval_def if_flip)
qed

lemma degraded_branch:
  assumes r: "TCC_Reconcile w now cl rt ns name =
       degraded_return w line now cl rt' (effective_interval w tcc)
         (TorrentClientConfigurationReconciler_setDegradedCondition now tcc reason message)"
    and p: "probe_reason w now cl rt tcc = reason"
    and n: "reason \<noteq> ''Connected''"
    and l: "status_write_line reason = line"
    and f: "stored_tcc cl ns name = Some tcc"
    and k: "Namespace tcc = ns" "ObjectMeta.Name tcc = name"
    and z: "\<not> IsZero now"
  shows "reports (TCC_Reconcile w now cl rt ns name) now
       (probe_reason w now cl rt tcc = ''Connected'') (probe_reason w now cl rt tcc)
     \<and> (api_fault w (status_write_line (probe_reason w now cl rt tcc)) = None \<longrightarrow>
          stored_tcc (store (TCC_Reconcile w now cl rt ns name)) ns name
            = object (TCC_Reconcile w now cl rt ns name))
     \<and> (api_fault w (status_write_line (probe_reason w now cl rt tcc)) \<noteq> None \<longrightarrow>
          store (TCC_Reconcile w now cl rt ns name) = cl)
     \<and> (probe_reason w now cl rt tcc \<noteq> ''Connected'' \<longrightarrow>
          failure (TCC_Reconcile w now cl rt ns name) = None
          \<and> result (TCC_Reconcile w now cl rt ns name) = Result_after (effective_interval w tcc))
     \<and> (probe_reason w now cl rt tcc = ''Connected'' \<longrightarrow>
          failure (TCC_Reconcile w now cl rt ns name) = api_fault w 128
          \<and> result (TCC_Reconcile w now cl rt ns name)
              = (if api_fault w 128 = None then Result_after (effective_interval w tcc)
                 else Result_empty))
     \<and> (availability_only
           (TorrentClientConfigurationStatus.Conditions (TorrentClientConfiguration.Status tcc)) \<longrightarrow>
          (\<exists>obj. object (TCC_Reconcile w now cl rt ns name) = Some obj
             \<and> length (TorrentClientConfigurationStatus.Conditions
                          (TorrentClientConfiguration.Status obj)) = 1))"
proof -
  let ?cs = "TorrentClientConfigurationStatus.Conditions (TorrentClientConfiguration.Status tcc)"
  let ?t1 = "TorrentClientConfigurationReconciler_setDegradedCondition now tcc reason message"
  let ?s3 = "(TorrentClientConfiguration.Status ?t1)\<lparr>Connected := False, LastChecked := Some now\<rparr>"
  have k1: "Namespace ?t1 = ns" "ObjectMeta.Name ?t1 = name"
    using k by (simp_all add: setDegraded_TCC_as_call)
  from degraded_return_cases [OF f k1, of now w line rt' "effective_interval w tcc"]
  obtain cl' where s: "stored_tcc cl' ns name =
        Some (tcc\<lparr>TorrentClientConfiguration.Status := wire_TCC_status ?s3\<rparr>)"
    and d: "degraded_return w line now cl rt' (effective_interval w tcc) ?t1 =
        (case api_fault w line of
           None \<Rightarrow>
             \<lparr>result = Result_after (effective_interval w tcc), failure = None,
              object = Some (tcc\<lparr>TorrentClientConfiguration.Status := wire_TCC_status ?s3\<rparr>),
              store = cl', proc = rt'\<rparr>
         | Some e \<Rightarrow>
             \<lparr>result = Result_after (effective_interval w tcc), failure = None,
              object = Some (?t1\<lparr>TorrentClientConfiguration.Status := ?s3\<rparr>),
              store = cl, proc = rt'\<rparr>)"
    by blast
  from Find_SetDegraded [of now reason message ?cs]
  obtain c where c: "FindStatusCondition (call_conditions (SetDegraded now reason message) ?cs)
        ''Degraded'' = Some c" "Condition.Status c = ConditionTrue" "Reason c = reason"
    and a: "FindStatusCondition (call_conditions (SetDegraded now reason message) ?cs)
        ''Available'' = None"
    by blast
  have sr: "status_reports ?s3 now False reason"
    using c a by (simp add: status_reports_def setDegraded_TCC_as_call)
  have lc: "LastChecked ?s3 = Some now" by simp
  note srw = wire_status_reports [OF lc z sr]
  have single: "availability_only ?cs \<longrightarrow>
      length (TorrentClientConfigurationStatus.Conditions ?s3) = 1
      \<and> length (TorrentClientConfigurationStatus.Conditions (wire_TCC_status ?s3)) = 1"
  proof
    assume av: "availability_only ?cs"
    have "map Type (call_conditions (SetDegraded now reason message) ?cs) = [''Degraded'']"
      using call_conditions_single [OF av, of "SetDegraded now reason message"] by simp
    then have "length (map Type (call_conditions (SetDegraded now reason message) ?cs)) = 1"
      by simp
    then have "length (TorrentClientConfigurationStatus.Conditions ?s3) = 1"
      by (simp add: setDegraded_TCC_as_call)
    then show "length (TorrentClientConfigurationStatus.Conditions ?s3) = 1
      \<and> length (TorrentClientConfigurationStatus.Conditions (wire_TCC_status ?s3)) = 1"
      by (simp only: wire_status_length)
  qed
  show ?thesis
  proof (cases "api_fault w line")
    case None
    with d have out: "TCC_Reconcile w now cl rt ns name =
             \<lparr>result = Result_after (effective_interval w tcc), failure = None,
              object = Some (tcc\<lparr>TorrentClientConfiguration.Status := wire_TCC_status ?s3\<rparr>),
              store = cl', proc = rt'\<rparr>"
      by (simp add: r)
    show ?thesis
      unfolding p l out using None n s srw single
      by (simp add: reports_def)
  next
    case (Some e)
    with d have out: "TCC_Reconcile w now cl rt ns name =
             \<lparr>result = Result_after (effective_interval w tcc), failure = None,
              object = Some (?t1\<lparr>TorrentClientConfiguration.Status := ?s3\<rparr>),
              store = cl, proc = rt'\<rparr>"
      by (simp add: r)
    show ?thesis
      unfolding p l out using Some n sr single
      by (simp add: reports_def)
  qed
qed

lemma connected_branch:
  assumes r: "TCC_Reconcile w now cl rt ns name =
     (let tcc1 = TorrentClientConfigurationReconciler_setAvailableCondition now tcc ''Connected'' message;
          tcc2 = tcc1\<lparr>TorrentClientConfiguration.Status :=
                   (TorrentClientConfiguration.Status tcc1)\<lparr>Connected := True\<rparr>\<rparr>;
          tcc3 = tcc2\<lparr>TorrentClientConfiguration.Status :=
                   (TorrentClientConfiguration.Status tcc2)\<lparr>LastChecked := Some now\<rparr>\<rparr>
      in case StatusUpdate_TCC w 128 cl tcc3 of
           (Inl e, cl') \<Rightarrow>
             \<lparr>result = Result_empty, failure = Some e, object = Some tcc3, store = cl', proc = rt1\<rparr>
         | (Inr response, cl') \<Rightarrow>
             \<lparr>result = Result_after (effective_interval w tcc), failure = None,
              object = Some response, store = cl', proc = rt1\<rparr>)"
    and p: "probe_reason w now cl rt tcc = ''Connected''"
    and f: "stored_tcc cl ns name = Some tcc"
    and k: "Namespace tcc = ns" "ObjectMeta.Name tcc = name"
    and z: "\<not> IsZero now"
  shows "reports (TCC_Reconcile w now cl rt ns name) now
       (probe_reason w now cl rt tcc = ''Connected'') (probe_reason w now cl rt tcc)
     \<and> (api_fault w (status_write_line (probe_reason w now cl rt tcc)) = None \<longrightarrow>
          stored_tcc (store (TCC_Reconcile w now cl rt ns name)) ns name
            = object (TCC_Reconcile w now cl rt ns name))
     \<and> (api_fault w (status_write_line (probe_reason w now cl rt tcc)) \<noteq> None \<longrightarrow>
          store (TCC_Reconcile w now cl rt ns name) = cl)
     \<and> (probe_reason w now cl rt tcc \<noteq> ''Connected'' \<longrightarrow>
          failure (TCC_Reconcile w now cl rt ns name) = None
          \<and> result (TCC_Reconcile w now cl rt ns name) = Result_after (effective_interval w tcc))
     \<and> (probe_reason w now cl rt tcc = ''Connected'' \<longrightarrow>
          failure (TCC_Reconcile w now cl rt ns name) = api_fault w 128
          \<and> result (TCC_Reconcile w now cl rt ns name)
              = (if api_fault w 128 = None then Result_after (effective_interval w tcc)
                 else Result_empty))
     \<and> (availability_only
           (TorrentClientConfigurationStatus.Conditions (TorrentClientConfiguration.Status tcc)) \<longrightarrow>
          (\<exists>obj. object (TCC_Reconcile w now cl rt ns name) = Some obj
             \<and> length (TorrentClientConfigurationStatus.Conditions
                          (TorrentClientConfiguration.Status obj)) = 1))"
proof -
  let ?out = "TCC_Reconcile w now cl rt ns name"
  let ?cs = "TorrentClientConfigurationStatus.Conditions (TorrentClientConfiguration.Status tcc)"
  let ?t1 = "TorrentClientConfigurationReconciler_setAvailableCondition now tcc ''Connected'' message"
  let ?s3 = "(TorrentClientConfiguration.Status ?t1)\<lparr>Connected := True, LastChecked := Some now\<rparr>"
  let ?t3 = "?t1\<lparr>TorrentClientConfiguration.Status := ?s3\<rparr>"
  have n3: "Namespace ?t3 = ns" "ObjectMeta.Name ?t3 = name"
    using k by (simp_all add: setAvailable_TCC_as_call)
  have s3: "TorrentClientConfiguration.Status ?t3 = ?s3" by simp
  from StatusUpdate_TCC_found [OF f n3, of w 128]
  obtain cl' where u: "StatusUpdate_TCC w 128 cl ?t3 =
           (case api_fault w 128 of
              Some e \<Rightarrow> (Inl e, cl)
            | None \<Rightarrow>
                (Inr (tcc\<lparr>TorrentClientConfiguration.Status := wire_TCC_status ?s3\<rparr>), cl'))"
    and s: "stored_tcc cl' ns name =
             Some (tcc\<lparr>TorrentClientConfiguration.Status := wire_TCC_status ?s3\<rparr>)"
    unfolding s3 by blast
  have l: "status_write_line ''Connected'' = 128" by (simp add: status_write_line_def)
  from Find_SetAvailable [of now "''Connected''" message ?cs]
  obtain c where c: "FindStatusCondition (call_conditions (SetAvailable now ''Connected'' message) ?cs)
        ''Available'' = Some c" "Condition.Status c = ConditionTrue" "Reason c = ''Connected''"
    and d: "FindStatusCondition (call_conditions (SetAvailable now ''Connected'' message) ?cs)
        ''Degraded'' = None"
    by blast
  have sr: "status_reports ?s3 now True ''Connected''"
    using c d by (simp add: status_reports_def setAvailable_TCC_as_call)
  have lc: "LastChecked ?s3 = Some now" by simp
  note srw = wire_status_reports [OF lc z sr]
  have single: "availability_only ?cs \<longrightarrow>
      length (TorrentClientConfigurationStatus.Conditions ?s3) = 1
      \<and> length (TorrentClientConfigurationStatus.Conditions (wire_TCC_status ?s3)) = 1"
  proof
    assume a: "availability_only ?cs"
    have "map Type (call_conditions (SetAvailable now ''Connected'' message) ?cs) = [''Available'']"
      using call_conditions_single [OF a, of "SetAvailable now ''Connected'' message"] by simp
    then have "length (map Type (call_conditions (SetAvailable now ''Connected'' message) ?cs)) = 1"
      by simp
    then have "length (TorrentClientConfigurationStatus.Conditions ?s3) = 1"
      by (simp add: setAvailable_TCC_as_call)
    then show "length (TorrentClientConfigurationStatus.Conditions ?s3) = 1
      \<and> length (TorrentClientConfigurationStatus.Conditions (wire_TCC_status ?s3)) = 1"
      by (simp only: wire_status_length)
  qed
  show ?thesis
  proof (cases "api_fault w 128")
    case None
    with u have e: "StatusUpdate_TCC w 128 cl ?t3 =
        (Inr (tcc\<lparr>TorrentClientConfiguration.Status := wire_TCC_status ?s3\<rparr>), cl')"
      by simp
    have out: "?out = \<lparr>result = Result_after (effective_interval w tcc), failure = None,
         object = Some (tcc\<lparr>TorrentClientConfiguration.Status := wire_TCC_status ?s3\<rparr>),
         store = cl', proc = rt1\<rparr>"
      using e by (simp add: r Let_def)
    show ?thesis
      unfolding p l out using None s srw single
      by (simp add: reports_def)
  next
    case (Some e)
    with u have e: "StatusUpdate_TCC w 128 cl ?t3 = (Inl e, cl)" by simp
    have out: "?out = \<lparr>result = Result_empty, failure = Some e, object = Some ?t3,
         store = cl, proc = rt1\<rparr>"
      using e by (simp add: r Let_def)
    show ?thesis
      unfolding p l out using Some sr single
      by (simp add: reports_def)
  qed
qed

text \<open>
  C10.  A configuration reconcile that has fetched its object ends in one of five
  branches, named by the reason code it reports: \<open>SecretNotFound\<close>, \<open>SecretInvalid\<close>,
  \<open>ClientCreationFailed\<close>, \<open>HealthCheckFailed\<close> (degraded) and \<open>Connected\<close> (success).
  On every branch the object the reconcile returns has \<open>lastChecked\<close> set to the
  instant of the reconcile (a clock reading, so not the zero \<open>Time\<close>; the instant comes
  back in whole seconds when the status write goes through) and \<open>connected\<close> true exactly on the success branch; it
  carries the condition \<open>Available\<close> (true, with the reason) and no \<open>Degraded\<close> on the
  success branch, and \<open>Degraded\<close> (true, with the reason) and no \<open>Available\<close> on a
  degraded branch, so \<open>connected\<close> is true if and only if \<open>Available\<close> is the condition
  present.  When the status write of the branch goes through, the object stored in
  the cluster is the returned one; when it fails the cluster is unchanged.  A
  degraded branch returns a nil error and a re-queue after the check interval; the
  success branch returns the error of its status write, and the same re-queue when
  there is none.  If the fetched object held only \<open>Available\<close>/\<open>Degraded\<close> conditions,
  none twice, the returned one holds exactly one condition.
\<close>

theorem TCC_Reconcile_connected_iff_available:
  assumes a: "apiGet w 46 (tccs cl) tccs_resource ns name = Inr tcc"
    and z: "\<not> IsZero now"
  shows "reports (TCC_Reconcile w now cl rt ns name) now
       (probe_reason w now cl rt tcc = ''Connected'') (probe_reason w now cl rt tcc)
     \<and> (api_fault w (status_write_line (probe_reason w now cl rt tcc)) = None \<longrightarrow>
          stored_tcc (store (TCC_Reconcile w now cl rt ns name)) ns name
            = object (TCC_Reconcile w now cl rt ns name))
     \<and> (api_fault w (status_write_line (probe_reason w now cl rt tcc)) \<noteq> None \<longrightarrow>
          store (TCC_Reconcile w now cl rt ns name) = cl)
     \<and> (probe_reason w now cl rt tcc \<noteq> ''Connected'' \<longrightarrow>
          failure (TCC_Reconcile w now cl rt ns name) = None
          \<and> result (TCC_Reconcile w now cl rt ns name) = Result_after (effective_interval w tcc))
     \<and> (probe_reason w now cl rt tcc = ''Connected'' \<longrightarrow>
          failure (TCC_Reconcile w now cl rt ns name) = api_fault w 128
          \<and> result (TCC_Reconcile w now cl rt ns name)
              = (if api_fault w 128 = None then Result_after (effective_interval w tcc)
                 else Result_empty))
     \<and> (availability_only
           (TorrentClientConfigurationStatus.Conditions (TorrentClientConfiguration.Status tcc)) \<longrightarrow>
          (\<exists>obj. object (TCC_Reconcile w now cl rt ns name) = Some obj
             \<and> length (TorrentClientConfigurationStatus.Conditions
                          (TorrentClientConfiguration.Status obj)) = 1))"
proof -
  let ?spec = "TorrentClientConfiguration.Spec tcc"
  from apiGet_found [OF a]
  have f: "stored_tcc cl ns name = Some tcc" and k: "Namespace tcc = ns" "ObjectMeta.Name tcc = name"
    by (simp_all add: stored_tcc_def)
  show ?thesis
  proof (cases "apiGet w 63 (secrets cl) ''secrets'' (Namespace tcc) (CredentialsSecret ?spec)")
    case (Inl e)
    have p: "probe_reason w now cl rt tcc = ''SecretNotFound''" by (simp add: probe_reason_def Inl)
    show ?thesis
      by (rule degraded_branch [OF TCC_path_no_secret [OF a Inl] p _ _ f k z])
         (simp_all add: status_write_line_def)
  next
    case (Inr secret)
    note sec = Inr
    show ?thesis
    proof (cases "Data secret ''username'' = None \<or> Data secret ''password'' = None")
      case True
      have p: "probe_reason w now cl rt tcc = ''SecretInvalid''"
        using True by (simp add: probe_reason_def sec)
      show ?thesis
        by (rule degraded_branch [OF TCC_path_bad_secret [OF a sec True] p _ _ f k z])
           (simp_all add: status_write_line_def)
    next
      case False
      obtain g rt1 where g: "GetOrCreate w now rt (TorrentClientConfigurationSpec.URL ?spec)
                    (secret_string secret ''username'') (secret_string secret ''password'') = (g, rt1)"
        by (cases "GetOrCreate w now rt (TorrentClientConfigurationSpec.URL ?spec)
                    (secret_string secret ''username'') (secret_string secret ''password'')")
      show ?thesis
      proof (cases g)
        case (Inl e)
        with g have g': "GetOrCreate w now rt (TorrentClientConfigurationSpec.URL ?spec)
                    (secret_string secret ''username'') (secret_string secret ''password'') = (Inl e, rt1)"
          by simp
        have p: "probe_reason w now cl rt tcc = ''ClientCreationFailed''"
          using False by (simp add: probe_reason_def sec g')
        show ?thesis
          by (rule degraded_branch [OF TCC_path_no_client [OF a sec False g'] p _ _ f k z])
             (simp_all add: status_write_line_def)
      next
        case (Inr qbtClient)
        with g have g': "GetOrCreate w now rt (TorrentClientConfigurationSpec.URL ?spec)
                    (secret_string secret ''username'') (secret_string secret ''password'') = (Inr qbtClient, rt1)"
          by simp
        show ?thesis
        proof (cases "Ping w qbtClient")
          case (Some e)
          have p: "probe_reason w now cl rt tcc = ''HealthCheckFailed''"
            using False by (simp add: probe_reason_def sec g' Some)
          show ?thesis
            by (rule degraded_branch [OF TCC_path_unhealthy [OF a sec False g' Some] p _ _ f k z])
               (simp_all add: status_write_line_def)
        next
          case None
          have p: "probe_reason w now cl rt tcc = ''Connected''"
            using False by (simp add: probe_reason_def sec g' None)
          show ?thesis
            by (rule connected_branch [OF TCC_path_connected [OF a sec False g' None] p f k z])
        qed
      qed
    qed
  qed
qed

theorem TCC_Reconcile_connected_iff_available_witness:
  "\<not> IsZero (90 * Second + 5)
   \<and> apiGet quiet_world 46 (tccs (config_cluster [demo_secret])) tccs_resource ''default'' ''qb'' = Inr (demo_tcc ''qb'')
   \<and> probe_reason quiet_world (90 * Second + 5) (config_cluster [demo_secret]) (fresh_runtime (300 * Second)) (demo_tcc ''qb'') = ''Connected''
   \<and> reports (TCC_Reconcile quiet_world (90 * Second + 5) (config_cluster [demo_secret]) (fresh_runtime (300 * Second)) ''default'' ''qb'') (90 * Second + 5) True ''Connected''
   \<and> stored_tcc (store (TCC_Reconcile quiet_world (90 * Second + 5) (config_cluster [demo_secret]) (fresh_runtime (300 * Second)) ''default'' ''qb'')) ''default'' ''qb'' = object (TCC_Reconcile quiet_world (90 * Second + 5) (config_cluster [demo_secret]) (fresh_runtime (300 * Second)) ''default'' ''qb'')
   \<and> failure (TCC_Reconcile quiet_world (90 * Second + 5) (config_cluster [demo_secret]) (fresh_runtime (300 * Second)) ''default'' ''qb'') = None
   \<and> result (TCC_Reconcile quiet_world (90 * Second + 5) (config_cluster [demo_secret]) (fresh_runtime (300 * Second)) ''default'' ''qb'') = Result_after (60 * Second)
   \<and> (\<exists>obj. object (TCC_Reconcile quiet_world (90 * Second + 5) (config_cluster [demo_secret]) (fresh_runtime (300 * Second)) ''default'' ''qb'') = Some obj
          \<and> length (TorrentClientConfigurationStatus.Conditions (TorrentClientConfiguration.Status obj)) = 1)
   \<and> apiGet quiet_world 46 (tccs (config_cluster [])) tccs_resource ''default'' ''qb'' = Inr (demo_tcc ''qb'')
   \<and> probe_reason quiet_world (90 * Second + 5) (config_cluster []) (fresh_runtime (300 * Second)) (demo_tcc ''qb'') = ''SecretNotFound''
   \<and> reports (TCC_Reconcile quiet_world (90 * Second + 5) (config_cluster []) (fresh_runtime (300 * Second)) ''default'' ''qb'') (90 * Second + 5) False ''SecretNotFound''
   \<and> stored_tcc (store (TCC_Reconcile quiet_world (90 * Second + 5) (config_cluster []) (fresh_runtime (300 * Second)) ''default'' ''qb'')) ''default'' ''qb'' = object (TCC_Reconcile quiet_world (90 * Second + 5) (config_cluster []) (fresh_runtime (300 * Second)) ''default'' ''qb'')
   \<and> failure (TCC_Reconcile quiet_world (90 * Second + 5) (config_cluster []) (fresh_runtime (300 * Second)) ''default'' ''qb'') = None
   \<and> result (TCC_Reconcile quiet_world (90 * Second + 5) (config_cluster []) (fresh_runtime (300 * Second)) ''default'' ''qb'') = Result_after (60 * Second)
   \<and> (\<exists>obj. object (TCC_Reconcile quiet_world (90 * Second + 5) (config_cluster []) (fresh_runtime (300 * Second)) ''default'' ''qb'') = Some obj
          \<and> length (TorrentClientConfigurationStatus.Conditions (TorrentClientConfiguration.Status obj)) = 1)
   \<and> apiGet quiet_world 46 (tccs (config_cluster [half_secret])) tccs_resource ''default'' ''qb'' = Inr (demo_tcc ''qb'')
   \<and> probe_reason quiet_world (90 * Second + 5) (config_cluster [half_secret]) (fresh_runtime (300 * Second)) (demo_tcc ''qb'') = ''SecretInvalid''
   \<and> reports (TCC_Reconcile quiet_world (90 * Second + 5) (config_cluster [half_secret]) (fresh_runtime (300 * Second)) ''default'' ''qb'') (90 * Second + 5) False ''SecretInvalid''
   \<and> stored_tcc (store (TCC_Reconcile quiet_world (90 * Second + 5) (config_cluster [half_secret]) (fresh_runtime (300 * Second)) ''default'' ''qb'')) ''default'' ''qb'' = object (TCC_Reconcile quiet_world (90 * Second + 5) (config_cluster [half_secret]) (fresh_runtime (300 * Second)) ''default'' ''qb'')
   \<and> failure (TCC_Reconcile quiet_world (90 * Second + 5) (config_cluster [half_secret]) (fresh_runtime (300 * Second)) ''default'' ''qb'') = None
   \<and> result (TCC_Reconcile quiet_world (90 * Second + 5) (config_cluster [half_secret]) (fresh_runtime (300 * Second)) ''default'' ''qb'') = Result_after (60 * Second)
   \<and> (\<exists>obj. object (TCC_Reconcile quiet_world (90 * Second + 5) (config_cluster [half_secret]) (fresh_runtime (300 * Second)) ''default'' ''qb'') = Some obj
          \<and> length (TorrentClientConfigurationStatus.Conditions (TorrentClientConfiguration.Status obj)) = 1)
   \<and> apiGet refusing_world 46 (tccs (config_cluster [demo_secret])) tccs_resource ''default'' ''qb'' = Inr (demo_tcc ''qb'')
   \<and> probe_reason refusing_world (90 * Second + 5) (config_cluster [demo_secret]) (fresh_runtime (300 * Second)) (demo_tcc ''qb'') = ''ClientCreationFailed''
   \<and> reports (TCC_Reconcile refusing_world (90 * Second + 5) (config_cluster [demo_secret]) (fresh_runtime (300 * Second)) ''default'' ''qb'') (90 * Second + 5) False ''ClientCreationFailed''
   \<and> stored_tcc (store (TCC_Reconcile refusing_world (90 * Second + 5) (config_cluster [demo_secret]) (fresh_runtime (300 * Second)) ''default'' ''qb'')) ''default'' ''qb'' = object (TCC_Reconcile refusing_world (90 * Second + 5) (config_cluster [demo_secret]) (fresh_runtime (300 * Second)) ''default'' ''qb'')
   \<and> failure (TCC_Reconcile refusing_world (90 * Second + 5) (config_cluster [demo_secret]) (fresh_runtime (300 * Second)) ''default'' ''qb'') = None
   \<and> result (TCC_Reconcile refusing_world (90 * Second + 5) (config_cluster [demo_secret]) (fresh_runtime (300 * Second)) ''default'' ''qb'') = Result_after (60 * Second)
   \<and> (\<exists>obj. object (TCC_Reconcile refusing_world (90 * Second + 5) (config_cluster [demo_secret]) (fresh_runtime (300 * Second)) ''default'' ''qb'') = Some obj
          \<and> length (TorrentClientConfigurationStatus.Conditions (TorrentClientConfiguration.Status obj)) = 1)
   \<and> apiGet unhealthy_world 46 (tccs (config_cluster [demo_secret])) tccs_resource ''default'' ''qb'' = Inr (demo_tcc ''qb'')
   \<and> probe_reason unhealthy_world (90 * Second + 5) (config_cluster [demo_secret]) (fresh_runtime (300 * Second)) (demo_tcc ''qb'') = ''HealthCheckFailed''
   \<and> reports (TCC_Reconcile unhealthy_world (90 * Second + 5) (config_cluster [demo_secret]) (fresh_runtime (300 * Second)) ''default'' ''qb'') (90 * Second + 5) False ''HealthCheckFailed''
   \<and> stored_tcc (store (TCC_Reconcile unhealthy_world (90 * Second + 5) (config_cluster [demo_secret]) (fresh_runtime (300 * Second)) ''default'' ''qb'')) ''default'' ''qb'' = object (TCC_Reconcile unhealthy_world (90 * Second + 5) (config_cluster [demo_secret]) (fresh_runtime (300 * Second)) ''default'' ''qb'')
   \<and> failure (TCC_Reconcile unhealthy_world (90 * Second + 5) (config_cluster [demo_secret]) (fresh_runtime (300 * Second)) ''default'' ''qb'') = None
   \<and> result (TCC_Reconcile unhealthy_world (90 * Second + 5) (config_cluster [demo_secret]) (fresh_runtime (300 * Second)) ''default'' ''qb'') = Result_after (60 * Second)
   \<and> (\<exists>obj. object (TCC_Reconcile unhealthy_world (90 * Second + 5) (config_cluster [demo_secret]) (fresh_runtime (300 * Second)) ''default'' ''qb'') = Some obj
          \<and> length (TorrentClientConfigurationStatus.Conditions (TorrentClientConfiguration.Status obj)) = 1)
   \<and> apiGet conflicting_world 46 (tccs (config_cluster [demo_secret])) tccs_resource ''default'' ''qb'' = Inr (demo_tcc ''qb'')
   \<and> probe_reason conflicting_world (90 * Second + 5) (config_cluster [demo_secret]) (fresh_runtime (300 * Second)) (demo_tcc ''qb'') = ''Connected''
   \<and> reports (TCC_Reconcile conflicting_world (90 * Second + 5) (config_cluster [demo_secret]) (fresh_runtime (300 * Second)) ''default'' ''qb'') (90 * Second + 5) True ''Connected''
   \<and> store (TCC_Reconcile conflicting_world (90 * Second + 5) (config_cluster [demo_secret]) (fresh_runtime (300 * Second)) ''default'' ''qb'') = config_cluster [demo_secret]
   \<and> failure (TCC_Reconcile conflicting_world (90 * Second + 5) (config_cluster [demo_secret]) (fresh_runtime (300 * Second)) ''default'' ''qb'') = Some (New ''conflict'')
   \<and> result (TCC_Reconcile conflicting_world (90 * Second + 5) (config_cluster [demo_secret]) (fresh_runtime (300 * Second)) ''default'' ''qb'') = Result_empty"
proof -
  let ?rt = "fresh_runtime (300 * Second)"
  let ?now = "90 * Second + 5 :: Time"
  have z: "\<not> IsZero ?now" by (simp add: IsZero_def Second_def)
  have av: "availability_only
      (TorrentClientConfigurationStatus.Conditions (TorrentClientConfiguration.Status (demo_tcc ''qb'')))"
    by (simp add: availability_only_def demo_tcc_def)
  have sa: "apiGet quiet_world 46 (tccs (config_cluster [demo_secret])) tccs_resource ''default'' ''qb'' = Inr (demo_tcc ''qb'')"
    by (simp add: apiGet_def quiet_world_def refusing_world_def unhealthy_world_def conflicting_world_def config_cluster_def demo_tcc_def)
  have sp: "probe_reason quiet_world ?now (config_cluster [demo_secret]) ?rt (demo_tcc ''qb'') = ''Connected''"
    by (simp add: probe_reason_def apiGet_def quiet_world_def refusing_world_def unhealthy_world_def conflicting_world_def config_cluster_def demo_tcc_def
        demo_secret_def half_secret_def secret_string_def GetOrCreate_def fresh_runtime_def
        NewClientPool_def NewClient_def Let_def)
  have se: "effective_interval quiet_world (demo_tcc ''qb'') = 60 * Second"
    by (simp add: effective_interval_def demo_tcc_def)
  have sw: "api_fault quiet_world (status_write_line ''Connected'') = None"
    by (simp add: status_write_line_def quiet_world_def refusing_world_def unhealthy_world_def conflicting_world_def)
  have sx: "api_fault quiet_world 128 = None"
    by (simp add: quiet_world_def refusing_world_def unhealthy_world_def conflicting_world_def)
  note si = TCC_Reconcile_connected_iff_available [OF sa z, of ?rt]
  have sr: "reports (TCC_Reconcile quiet_world (90 * Second + 5) (config_cluster [demo_secret]) (fresh_runtime (300 * Second)) ''default'' ''qb'') (90 * Second + 5) True ''Connected''
   \<and> stored_tcc (store (TCC_Reconcile quiet_world (90 * Second + 5) (config_cluster [demo_secret]) (fresh_runtime (300 * Second)) ''default'' ''qb'')) ''default'' ''qb'' = object (TCC_Reconcile quiet_world (90 * Second + 5) (config_cluster [demo_secret]) (fresh_runtime (300 * Second)) ''default'' ''qb'')
   \<and> failure (TCC_Reconcile quiet_world (90 * Second + 5) (config_cluster [demo_secret]) (fresh_runtime (300 * Second)) ''default'' ''qb'') = None
   \<and> result (TCC_Reconcile quiet_world (90 * Second + 5) (config_cluster [demo_secret]) (fresh_runtime (300 * Second)) ''default'' ''qb'') = Result_after (60 * Second)
   \<and> (\<exists>obj. object (TCC_Reconcile quiet_world (90 * Second + 5) (config_cluster [demo_secret]) (fresh_runtime (300 * Second)) ''default'' ''qb'') = Some obj
          \<and> length (TorrentClientConfigurationStatus.Conditions (TorrentClientConfiguration.Status obj)) = 1)"
    using si av unfolding sp se by (simp add: sw sx)
  have na: "apiGet quiet_world 46 (tccs (config_cluster [])) tccs_resource ''default'' ''qb'' = Inr (demo_tcc ''qb'')"
    by (simp add: apiGet_def quiet_world_def refusing_world_def unhealthy_world_def conflicting_world_def config_cluster_def demo_tcc_def)
  have np: "probe_reason quiet_world ?now (config_cluster []) ?rt (demo_tcc ''qb'') = ''SecretNotFound''"
    by (simp add: probe_reason_def apiGet_def quiet_world_def refusing_world_def unhealthy_world_def conflicting_world_def config_cluster_def demo_tcc_def
        demo_secret_def half_secret_def secret_string_def GetOrCreate_def fresh_runtime_def
        NewClientPool_def NewClient_def Let_def)
  have ne: "effective_interval quiet_world (demo_tcc ''qb'') = 60 * Second"
    by (simp add: effective_interval_def demo_tcc_def)
  have nw: "api_fault quiet_world (status_write_line ''SecretNotFound'') = None"
    by (simp add: status_write_line_def quiet_world_def refusing_world_def unhealthy_world_def conflicting_world_def)
  have nx: "api_fault quiet_world 128 = None"
    by (simp add: quiet_world_def refusing_world_def unhealthy_world_def conflicting_world_def)
  note ni = TCC_Reconcile_connected_iff_available [OF na z, of ?rt]
  have nr: "reports (TCC_Reconcile quiet_world (90 * Second + 5) (config_cluster []) (fresh_runtime (300 * Second)) ''default'' ''qb'') (90 * Second + 5) False ''SecretNotFound''
   \<and> stored_tcc (store (TCC_Reconcile quiet_world (90 * Second + 5) (config_cluster []) (fresh_runtime (300 * Second)) ''default'' ''qb'')) ''default'' ''qb'' = object (TCC_Reconcile quiet_world (90 * Second + 5) (config_cluster []) (fresh_runtime (300 * Second)) ''default'' ''qb'')
   \<and> failure (TCC_Reconcile quiet_world (90 * Second + 5) (config_cluster []) (fresh_runtime (300 * Second)) ''default'' ''qb'') = None
   \<and> result (TCC_Reconcile quiet_world (90 * Second + 5) (config_cluster []) (fresh_runtime (300 * Second)) ''default'' ''qb'') = Result_after (60 * Second)
   \<and> (\<exists>obj. object (TCC_Reconcile quiet_world (90 * Second + 5) (config_cluster []) (fresh_runtime (300 * Second)) ''default'' ''qb'') = Some obj
          \<and> length (TorrentClientConfigurationStatus.Conditions (TorrentClientConfiguration.Status obj)) = 1)"
    using ni av unfolding np ne by (simp add: nw nx)
  have ia: "apiGet quiet_world 46 (tccs (config_cluster [half_secret])) tccs_resource ''default'' ''qb'' = Inr (demo_tcc ''qb'')"
    by (simp add: apiGet_def quiet_world_def refusing_world_def unhealthy_world_def conflicting_world_def config_cluster_def demo_tcc_def)
  have ip: "probe_reason quiet_world ?now (config_cluster [half_secret]) ?rt (demo_tcc ''qb'') = ''SecretInvalid''"
    by (simp add: probe_reason_def apiGet_def quiet_world_def refusing_world_def unhealthy_world_def conflicting_world_def config_cluster_def demo_tcc_def
        demo_secret_def half_secret_def secret_string_def GetOrCreate_def fresh_runtime_def
        NewClientPool_def NewClient_def Let_def)
  have ie: "effective_interval quiet_world (demo_tcc ''qb'') = 60 * Second"
    by (simp add: effective_interval_def demo_tcc_def)
  have iw: "api_fault quiet_world (status_write_line ''SecretInvalid'') = None"
    by (simp add: status_write_line_def quiet_world_def refusing_world_def unhealthy_world_def conflicting_world_def)
  have ix: "api_fault quiet_world 128 = None"
    by (simp add: quiet_world_def refusing_world_def unhealthy_world_def conflicting_world_def)
  note ii = TCC_Reconcile_connected_iff_available [OF ia z, of ?rt]
  have ir: "reports (TCC_Reconcile quiet_world (90 * Second + 5) (config_cluster [half_secret]) (fresh_runtime (300 * Second)) ''default'' ''qb'') (90 * Second + 5) False ''SecretInvalid''
   \<and> stored_tcc (store (TCC_Reconcile quiet_world (90 * Second + 5) (config_cluster [half_secret]) (fresh_runtime (300 * Second)) ''default'' ''qb'')) ''default'' ''qb'' = object (TCC_Reconcile quiet_world (90 * Second + 5) (config_cluster [half_secret]) (fresh_runtime (300 * Second)) ''default'' ''qb'')
   \<and> failure (TCC_Reconcile quiet_world (90 * Second + 5) (config_cluster [half_secret]) (fresh_runtime (300 * Second)) ''default'' ''qb'') = None
   \<and> result (TCC_Reconcile quiet_world (90 * Second + 5) (config_cluster [half_secret]) (fresh_runtime (300 * Second)) ''default'' ''qb'') = Result_after (60 * Second)
   \<and> (\<exists>obj. object (TCC_Reconcile quiet_world (90 * Second + 5) (config_cluster [half_secret]) (fresh_runtime (300 * Second)) ''default'' ''qb'') = Some obj
          \<and> length (TorrentClientConfigurationStatus.Conditions (TorrentClientConfiguration.Status obj)) = 1)"
    using ii av unfolding ip ie by (simp add: iw ix)
  have ca: "apiGet refusing_world 46 (tccs (config_cluster [demo_secret])) tccs_resource ''default'' ''qb'' = Inr (demo_tcc ''qb'')"
    by (simp add: apiGet_def quiet_world_def refusing_world_def unhealthy_world_def conflicting_world_def config_cluster_def demo_tcc_def)
  have cp: "probe_reason refusing_world ?now (config_cluster [demo_secret]) ?rt (demo_tcc ''qb'') = ''ClientCreationFailed''"
    by (simp add: probe_reason_def apiGet_def quiet_world_def refusing_world_def unhealthy_world_def conflicting_world_def config_cluster_def demo_tcc_def
        demo_secret_def half_secret_def secret_string_def GetOrCreate_def fresh_runtime_def
        NewClientPool_def NewClient_def Let_def)
  have ce: "effective_interval refusing_world (demo_tcc ''qb'') = 60 * Second"
    by (simp add: effective_interval_def demo_tcc_def)
  have cw: "api_fault refusing_world (status_write_line ''ClientCreationFailed'') = None"
    by (simp add: status_write_line_def quiet_world_def refusing_world_def unhealthy_world_def conflicting_world_def)
  have cx: "api_fault refusing_world 128 = None"
    by (simp add: quiet_world_def refusing_world_def unhealthy_world_def conflicting_world_def)
  note ci = TCC_Reconcile_connected_iff_available [OF ca z, of ?rt]
  have cr: "reports (TCC_Reconcile refusing_world (90 * Second + 5) (config_cluster [demo_secret]) (fresh_runtime (300 * Second)) ''default'' ''qb'') (90 * Second + 5) False ''ClientCreationFailed''
   \<and> stored_tcc (store (TCC_Reconcile refusing_world (90 * Second + 5) (config_cluster [demo_secret]) (fresh_runtime (300 * Second)) ''default'' ''qb'')) ''default'' ''qb'' = object (TCC_Reconcile refusing_world (90 * Second + 5) (config_cluster [demo_secret]) (fresh_runtime (300 * Second)) ''default'' ''qb'')
   \<and> failure (TCC_Reconcile refusing_world (90 * Second + 5) (config_cluster [demo_secret]) (fresh_runtime (300 * Second)) ''default'' ''qb'') = None
   \<and> result (TCC_Reconcile refusing_world (90 * Second + 5) (config_cluster [demo_secret]) (fresh_runtime (300 * Second)) ''default'' ''qb'') = Result_after (60 * Second)
   \<and> (\<exists>obj. object (TCC_Reconcile refusing_world (90 * Second + 5) (config_cluster [demo_secret]) (fresh_runtime (300 * Second)) ''default'' ''qb'') = Some obj
          \<and> length (TorrentClientConfigurationStatus.Conditions (TorrentClientConfiguration.Status obj)) = 1)"
    using ci av unfolding cp ce by (simp add: cw cx)
  have ha: "apiGet unhealthy_world 46 (tccs (config_cluster [demo_secret])) tccs_resource ''default'' ''qb'' = Inr (demo_tcc ''qb'')"
    by (simp add: apiGet_def quiet_world_def refusing_world_def unhealthy_world_def conflicting_world_def config_cluster_def demo_tcc_def)
  have hp: "probe_reason unhealthy_world ?now (config_cluster [demo_secret]) ?rt (demo_tcc ''qb'') = ''HealthCheckFailed''"
    by (simp add: probe_reason_def apiGet_def quiet_world_def refusing_world_def unhealthy_world_def conflicting_world_def config_cluster_def demo_tcc_def
        demo_secret_def half_secret_def secret_string_def GetOrCreate_def fresh_runtime_def
        NewClientPool_def NewClient_def Let_def)
  have he: "effective_interval unhealthy_world (demo_tcc ''qb'') = 60 * Second"
    by (simp add: effective_interval_def demo_tcc_def)
  have hw: "api_fault unhealthy_world (status_write_line ''HealthCheckFailed'') = None"
    by (simp add: status_write_line_def quiet_world_def refusing_world_def unhealthy_world_def conflicting_world_def)
  have hx: "api_fault unhealthy_world 128 = None"
    by (simp add: quiet_world_def refusing_world_def unhealthy_world_def conflicting_world_def)
  note hi = TCC_Reconcile_connected_iff_available [OF ha z, of ?rt]
  have hr: "reports (TCC_Reconcile unhealthy_world (90 * Second + 5) (config_cluster [demo_secret]) (fresh_runtime (300 * Second)) ''default'' ''qb'') (90 * Second + 5) False ''HealthCheckFailed''
   \<and> stored_tcc (store (TCC_Reconcile unhealthy_world (90 * Second + 5) (config_cluster [demo_secret]) (fresh_runtime (300 * Second)) ''default'' ''qb'')) ''default'' ''qb'' = object (TCC_Reconcile unhealthy_world (90 * Second + 5) (config_cluster [demo_secret]) (fresh_runtime (300 * Second)) ''default'' ''qb'')
   \<and> failure (TCC_Reconcile unhealthy_world (90 * Second + 5) (config_cluster [demo_secret]) (fresh_runtime (300 * Second)) ''default'' ''qb'') = None
   \<and> result (TCC_Reconcile unhealthy_world (90 * Second + 5) (config_cluster [demo_secret]) (fresh_runtime (300 * Second)) ''default'' ''qb'') = Result_after (60 * Second)
   \<and> (\<exists>obj. object (TCC_Reconcile unhealthy_world (90 * Second + 5) (config_cluster [demo_secret]) (fresh_runtime (300 * Second)) ''default'' ''qb'') = Some obj
          \<and> length (TorrentClientConfigurationStatus.Conditions (TorrentClientConfiguration.Status obj)) = 1)"
    using hi av unfolding hp he by (simp add: hw hx)
  have fa: "apiGet conflicting_world 46 (tccs (config_cluster [demo_secret])) tccs_resource ''default'' ''qb'' = Inr (demo_tcc ''qb'')"
    by (simp add: apiGet_def quiet_world_def refusing_world_def unhealthy_world_def conflicting_world_def config_cluster_def demo_tcc_def)
  have fp: "probe_reason conflicting_world ?now (config_cluster [demo_secret]) ?rt (demo_tcc ''qb'') = ''Connected''"
    by (simp add: probe_reason_def apiGet_def quiet_world_def refusing_world_def unhealthy_world_def conflicting_world_def config_cluster_def demo_tcc_def
        demo_secret_def half_secret_def secret_string_def GetOrCreate_def fresh_runtime_def
        NewClientPool_def NewClient_def Let_def)
  have fe: "effective_interval conflicting_world (demo_tcc ''qb'') = 60 * Second"
    by (simp add: effective_interval_def demo_tcc_def)
  have fw: "api_fault conflicting_world (status_write_line ''Connected'') = Some (New ''conflict'')"
    by (simp add: status_write_line_def quiet_world_def refusing_world_def unhealthy_world_def conflicting_world_def)
  have fx: "api_fault conflicting_world 128 = Some (New ''conflict'')"
    by (simp add: quiet_world_def refusing_world_def unhealthy_world_def conflicting_world_def)
  note fi = TCC_Reconcile_connected_iff_available [OF fa z, of ?rt]
  have fr: "reports (TCC_Reconcile conflicting_world (90 * Second + 5) (config_cluster [demo_secret]) (fresh_runtime (300 * Second)) ''default'' ''qb'') (90 * Second + 5) True ''Connected''
   \<and> store (TCC_Reconcile conflicting_world (90 * Second + 5) (config_cluster [demo_secret]) (fresh_runtime (300 * Second)) ''default'' ''qb'') = config_cluster [demo_secret]
   \<and> failure (TCC_Reconcile conflicting_world (90 * Second + 5) (config_cluster [demo_secret]) (fresh_runtime (300 * Second)) ''default'' ''qb'') = Some (New ''conflict'')
   \<and> result (TCC_Reconcile conflicting_world (90 * Second + 5) (config_cluster [demo_secret]) (fresh_runtime (300 * Second)) ''default'' ''qb'') = Result_empty"
    using fi av unfolding fp fe by (simp add: fw fx)
  from z sa sp sr na np nr ia ip ir ca cp cr ha hp hr fa fp fr show ?thesis by blast
qed

end
